theory Spec2Isabelle
  imports Main "HOL-Library.Word"
begin

section \<open>Data model\<close>

text \<open>
  The management HTTP server of the repository (\<^verbatim>\<open>manage/server/catalogservice.go\<close> and
  \<^verbatim>\<open>manage/server/server.go\<close>) is embedded as state-passing functions over a
  \<open>world\<close>: the metadata database, the container platform, the in-memory init task
  registry, and the log of the calls made to the collaborators.  Go's \<^verbatim>\<open>int64\<close> is a
  64-bit word, an \<^verbatim>\<open>error\<close> return is the \<open>Err\<close> branch of a result, a run-time
  panic is the \<open>Panic\<close> branch.
\<close>

type_synonym int64 = "64 word"

datatype error =
    ErrConfigMismatch
  | ErrDBRecordNotFound
  | ErrDBConditionalCheckFailed
  | ErrDBInternal
  | ErrOther string

datatype panic = IndexOutOfRange | NilDereference

datatype 'a res = Ok 'a | Err error | Panic panic

fun isOk :: "'a res \<Rightarrow> bool" where
  "isOk (Ok x) = True"
| "isOk (Err e) = False"
| "isOk (Panic p) = False"

text \<open>\<^verbatim>\<open>common.MemberConfig\<close>: one config slot of a member.\<close>

record MemberConfig =
  FileName :: string
  FileID :: string
  FileMD5 :: string

text \<open>\<^verbatim>\<open>common.ServiceMember\<close>, with the fields the server reads.\<close>

record ServiceMember =
  ServiceUUID :: string
  MemberName :: string
  StaticIP :: string
  Configs :: "MemberConfig list"

text \<open>\<^verbatim>\<open>common.ConfigFile\<close>.\<close>

record ConfigFile =
  cfServiceUUID :: string
  cfFileID :: string
  cfFileMD5 :: string
  cfFileName :: string
  cfFileMode :: "32 word"
  cfContent :: string

record Service =
  svcClusterName :: string
  svcServiceName :: string
  svcServiceUUID :: string

datatype ServiceStatus =
    ServiceStatusCreating
  | ServiceStatusInitializing
  | ServiceStatusActive
  | ServiceStatusDeleting

record ServiceAttr =
  attrServiceUUID :: string
  attrServiceStatus :: ServiceStatus
  attrReplicas :: int64
  attrServiceName :: string
  attrDomainName :: string

text \<open>
  The catalog type tag of a request is a string of the request body; the constants of
  package \<^verbatim>\<open>catalog\<close> are the named cases and every other string is
  \<open>CatalogService_Other\<close>.
\<close>

datatype CatalogService =
    CatalogService_MongoDB
  | CatalogService_PostgreSQL
  | CatalogService_Cassandra
  | CatalogService_ZooKeeper
  | CatalogService_Kafka
  | CatalogService_Redis
  | CatalogService_CouchDB
  | CatalogService_Consul
  | CatalogService_ElasticSearch
  | CatalogService_Kibana
  | CatalogService_Logstash
  | CatalogService_Other string

text \<open>\<^verbatim>\<open>manage.ServiceCommonRequest\<close>.\<close>

record ServiceCommonRequest =
  Region :: string
  Cluster :: string
  ServiceName :: string

text \<open>\<^verbatim>\<open>common.Resources\<close> is declared outside these files and only passed on.\<close>

datatype Resources = Resources string

text \<open>\<^verbatim>\<open>common.Volume\<close>, \<^verbatim>\<open>common.TaskStatus\<close> and the log configuration are
  declared outside these files and only passed on.\<close>

datatype Volume = Volume string

datatype TaskStatus = TaskStatus string

datatype LogConfig = LogConfig string

text \<open>\<^verbatim>\<open>containersvc.CommonOptions\<close>, \<^verbatim>\<open>CreateServiceOptions\<close> and
  \<^verbatim>\<open>RunTaskOptions\<close>, as \<^verbatim>\<open>genCreateServiceOptions\<close> and \<^verbatim>\<open>runTask\<close> build them.\<close>

record CommonOptions =
  coCluster :: string
  coServiceName :: string
  coServiceUUID :: string
  coContainerImage :: string
  coResource :: "Resources option"

record CreateServiceOptions =
  csoCommon :: CommonOptions
  csoContainerPath :: string
  csoPort :: int64
  csoReplicas :: int64

record RunTaskOptions =
  rtoCommon :: CommonOptions
  rtoTaskType :: string
  rtoEnvkvs :: "(string \<times> string) list"

text \<open>\<^verbatim>\<open>manage.ReplicaConfigFile\<close>: a config file of a create request.\<close>

record ReplicaConfigFile =
  rcfFileName :: string
  rcfFileMode :: "32 word"
  rcfContent :: string

text \<open>\<^verbatim>\<open>manage.CreateServiceRequest\<close>; \<open>Service\<close> is a pointer and may be nil.\<close>

record CreateServiceRequest =
  crService :: "ServiceCommonRequest option"
  crResource :: "Resources option"
  crContainerImage :: string
  crReplicas :: int64
  crContainerPath :: string
  crPort :: int64

text \<open>The in-memory init task (\<^verbatim>\<open>serviceTask\<close>) with its status message.\<close>

record serviceTask =
  serviceUUID :: string
  serviceName :: string
  serviceType :: CatalogService
  opts :: RunTaskOptions
  statusMessage :: string

text \<open>The request bodies of package \<^verbatim>\<open>manage\<close>, with the fields the handlers read.
  \<^verbatim>\<open>CatalogSetServiceInitRequest\<close> and \<^verbatim>\<open>CatalogSetRedisInitRequest\<close> carry region,
  cluster and service name as their own fields; the other requests point to a
  \<^verbatim>\<open>ServiceCommonRequest\<close>, and the pointer is nil when the body leaves it out.\<close>

record CatalogSetServiceInitRequest = ServiceCommonRequest +
  ServiceType :: CatalogService

record CatalogSetRedisInitRequest = ServiceCommonRequest +
  NodeIds :: "string list"

record CatalogCheckServiceInitRequest =
  ciServiceType :: CatalogService
  ciService :: "ServiceCommonRequest option"
  ciAdmin :: string
  ciAdminPasswd :: string
  ciShards :: int64
  ciReplicasPerShard :: int64

record ListServiceRequest =
  lsRegion :: string
  lsCluster :: string
  lsPrefix :: string

record ListVolumeRequest =
  lvService :: "ServiceCommonRequest option"

record RunTaskRequest =
  rtService :: "ServiceCommonRequest option"
  rtResource :: "Resources option"
  rtContainerImage :: string
  rtTaskType :: string
  rtEnvkvs :: "(string \<times> string) list"

record GetTaskStatusRequest =
  gtService :: "ServiceCommonRequest option"
  gtTaskID :: string

record DeleteTaskRequest =
  dtService :: "ServiceCommonRequest option"
  dtTaskType :: string

text \<open>The catalog create requests: service, resource and options are pointers.  The
  options of MongoDB, Kafka, Redis, CouchDB and Kibana have fields the handlers read; the
  others are only passed on.\<close>

record 'o CatalogCreateRequest =
  ccService :: "ServiceCommonRequest option"
  ccResource :: "Resources option"
  ccOptions :: "'o option"

record CatalogMongoDBOptions =
  mgReplicas :: int64
  mgAdmin :: string
  mgAdminPasswd :: string

record CatalogKafkaOptions =
  ZkServiceName :: string

record CatalogRedisOptions =
  rdShards :: int64
  rdReplicasPerShard :: int64

record CatalogCouchDBOptions =
  cdReplicas :: int64
  cdAdmin :: string
  cdAdminPasswd :: string

record CatalogKibanaOptions =
  ESServiceName :: string

datatype CatalogOptions = CatalogOptions string

text \<open>What a handler writes to the response: the JSON bodies, or the status header
  alone.\<close>

datatype response =
    HeaderOnly
  | CatalogCheckServiceInitResponse bool string
  | CatalogCreateConsulResponse "string list"
  | ListServiceResponse "ServiceAttr list"
  | ListVolumeResponse "Volume list"
  | GetServiceAttributesResponse ServiceAttr
  | ServiceStatusResponse int64 int64
  | RunTaskResponse string
  | GetTaskStatusResponse TaskStatus

text \<open>The result of a handler: the pair \<^verbatim>\<open>(errmsg, errcode)\<close> it returns with what it
  wrote to the response, or a panic.\<close>

datatype hres = Reply string int "response option" | Crash panic

definition StatusOK :: int where "StatusOK = 200"
definition StatusBadRequest :: int where "StatusBadRequest = 400"
definition StatusInternalServerError :: int where "StatusInternalServerError = 500"

definition StatusText :: "int \<Rightarrow> string" where
  "StatusText code =
     (if code = 200 then ''OK''
      else if code = 400 then ''Bad Request''
      else if code = 500 then ''Internal Server Error''
      else [])"

definition badRequest :: hres where
  "badRequest = Reply (StatusText StatusBadRequest) StatusBadRequest None"

section \<open>The collaborators\<close>

text \<open>The metadata database: services, their attributes, the members of each service
  in listing order, the volumes of each service, and the config files by service and
  file id.\<close>

record DB =
  services :: "Service list"
  attrs :: "string \<rightharpoonup> ServiceAttr"
  serviceMembers :: "string \<Rightarrow> ServiceMember list"
  volumes :: "string \<Rightarrow> Volume list"
  configFiles :: "string \<times> string \<rightharpoonup> ConfigFile"

text \<open>The container platform: the services it runs with their running and desired
  counts, the status of its tasks, and the id it gives to a task it starts.\<close>

record ContainerSvc =
  csServices :: "string \<times> string \<rightharpoonup> int64 \<times> int64"
  csTasks :: "string \<times> string \<rightharpoonup> TaskStatus"
  csNewTaskID :: "RunTaskOptions \<Rightarrow> string"

text \<open>The calls that leave the process: metadata database, control-plane service
  and container platform.\<close>

datatype call =
    DbGetService string string
  | DbGetServiceAttr string
  | DbListServiceMembers string
  | DbGetConfigFile string string
  | DbCreateConfigFile ConfigFile
  | DbUpdateServiceMember ServiceMember ServiceMember
  | DbDeleteConfigFile string string
  | DbDeleteService string string
  | DbListServices string
  | DbListVolumes string
  | SvcCreateService CreateServiceRequest string string
  | SvcSetServiceInitialized string string
  | CsIsServiceExist string string
  | CsCreateService CreateServiceOptions
  | CsRestartService string string int64
  | CsGetServiceStatus string string
  | CsRunTask RunTaskOptions
  | CsGetTaskStatus string string
  | CsDeleteTask string string string

type_synonym event = "call \<times> bool"

text \<open>
  The world: the database, the services the container platform knows, the init task
  registry, the log of external calls with their outcome, and the environment's choice
  of which call fails with an I/O error (it may depend on the calls made so far).
\<close>

record world =
  dbIns :: DB
  containersvcIns :: ContainerSvc
  catalogSvcInit :: "string \<rightharpoonup> serviceTask"
  trace :: "event list"
  fault :: "event list \<Rightarrow> call \<Rightarrow> error option"

type_synonym 'a action = "world \<Rightarrow> 'a res \<times> world"

text \<open>An external call: the environment may fail it; otherwise its body runs on the
  world; the call and whether it succeeded are logged.\<close>

definition external :: "call \<Rightarrow> (world \<Rightarrow> 'a res \<times> world) \<Rightarrow> 'a action" where
  "external c body w =
     (case fault w (trace w) c of
        Some e \<Rightarrow> (Err e, w\<lparr>trace := trace w @ [(c, False)]\<rparr>)
      | None \<Rightarrow>
          (case body w of
             (r, w') \<Rightarrow> (r, w'\<lparr>trace := trace w @ [(c, isOk r)]\<rparr>)))"

text \<open>The first index of a slice whose element satisfies a predicate: the Go loops
  \<^verbatim>\<open>for i, c := range xs { if !p(c) { continue }; ...; break }\<close>.\<close>

fun firstIndex :: "('a \<Rightarrow> bool) \<Rightarrow> 'a list \<Rightarrow> nat option" where
  "firstIndex P [] = None"
| "firstIndex P (x # xs) =
     (if P x then Some 0 else map_option Suc (firstIndex P xs))"

subsection \<open>Packages outside these files, taken as parameters\<close>

text \<open>Package \<^verbatim>\<open>utils\<close>: the MD5 of a content and the file id scheme.\<close>

record utils_pkg =
  GenMD5 :: "string \<Rightarrow> string"
  GenMemberConfigFileID :: "string \<Rightarrow> string \<Rightarrow> int64 \<Rightarrow> string"
  GetConfigFileVersion :: "string \<Rightarrow> error + int64"

text \<open>The catalog packages.  A request generator takes platform, region, availability
  zones, cluster and service name, then resource and options in the order of its
  package.\<close>

type_synonym 'o genResOpt =
  "string \<Rightarrow> string \<Rightarrow> string list \<Rightarrow> string \<Rightarrow> string
     \<Rightarrow> Resources option \<Rightarrow> 'o option \<Rightarrow> CreateServiceRequest"

type_synonym 'o genOptRes =
  "string \<Rightarrow> string \<Rightarrow> string list \<Rightarrow> string \<Rightarrow> string
     \<Rightarrow> 'o option \<Rightarrow> Resources option \<Rightarrow> CreateServiceRequest"

record mongodbcatalog_pkg =
  IsMongoDBConfFile :: "string \<Rightarrow> bool"
  IsAuthEnabled :: "string \<Rightarrow> bool"
  EnableMongoDBAuth :: "string \<Rightarrow> string"
  mongodb_ValidateRequest :: "CatalogMongoDBOptions CatalogCreateRequest \<Rightarrow> error option"
  mongodb_GenDefaultCreateServiceRequest ::
    "string \<Rightarrow> string \<Rightarrow> string list \<Rightarrow> string \<Rightarrow> string
       \<Rightarrow> CatalogMongoDBOptions option \<Rightarrow> Resources option \<Rightarrow> error + CreateServiceRequest"
  mongodb_GenDefaultInitTaskRequest ::
    "ServiceCommonRequest \<Rightarrow> LogConfig \<Rightarrow> string \<Rightarrow> int64 \<Rightarrow> string \<Rightarrow> string \<Rightarrow> string
       \<Rightarrow> RunTaskOptions"

record rediscatalog_pkg =
  IsRedisConfFile :: "string \<Rightarrow> bool"
  IsClusterInfoFile :: "string \<Rightarrow> bool"
  NeedToEnableAuth :: "string \<Rightarrow> bool"
  NeedToSetClusterAnnounceIP :: "string \<Rightarrow> bool"
  EnableRedisAuth :: "string \<Rightarrow> string"
  SetClusterAnnounceIP :: "string \<Rightarrow> string \<Rightarrow> string"
  CreateClusterInfoFile :: "string list \<Rightarrow> ReplicaConfigFile"
  IsClusterMode :: "int64 \<Rightarrow> bool"
  redis_ValidateRequest :: "CatalogRedisOptions CatalogCreateRequest \<Rightarrow> error option"
  redis_GenDefaultCreateServiceRequest :: "CatalogRedisOptions genResOpt"
  redis_GenDefaultInitTaskRequest ::
    "ServiceCommonRequest \<Rightarrow> LogConfig \<Rightarrow> int64 \<Rightarrow> int64 \<Rightarrow> string \<Rightarrow> string
       \<Rightarrow> error + RunTaskOptions"

record consulcatalog_pkg =
  IsBasicConfigFile :: "string \<Rightarrow> bool"
  ReplaceMemberName :: "string \<Rightarrow> (string \<rightharpoonup> string) \<Rightarrow> string"
  consul_ValidateRequest :: "CatalogOptions CatalogCreateRequest \<Rightarrow> error option"
  consul_GenDefaultCreateServiceRequest :: "CatalogOptions genResOpt"

record cascatalog_pkg =
  cas_ValidateRequest :: "CatalogOptions CatalogCreateRequest \<Rightarrow> error option"
  cas_GenDefaultCreateServiceRequest :: "CatalogOptions genOptRes"
  cas_GenDefaultInitTaskRequest ::
    "ServiceCommonRequest \<Rightarrow> LogConfig \<Rightarrow> string \<Rightarrow> string \<Rightarrow> RunTaskOptions"

record couchdbcatalog_pkg =
  couchdb_ValidateRequest :: "CatalogCouchDBOptions CatalogCreateRequest \<Rightarrow> error option"
  couchdb_GenDefaultCreateServiceRequest :: "CatalogCouchDBOptions genResOpt"
  couchdb_GenDefaultInitTaskRequest ::
    "ServiceCommonRequest \<Rightarrow> LogConfig \<Rightarrow> string list \<Rightarrow> string \<Rightarrow> int64 \<Rightarrow> string
       \<Rightarrow> string \<Rightarrow> string \<Rightarrow> RunTaskOptions"

text \<open>The catalogs that are created and need no init task.\<close>

record createonly_pkgs =
  pg_ValidateRequest :: "CatalogOptions CatalogCreateRequest \<Rightarrow> error option"
  pg_GenDefaultCreateServiceRequest :: "CatalogOptions genResOpt"
  zk_GenDefaultCreateServiceRequest :: "CatalogOptions genOptRes"
  kafka_GenDefaultCreateServiceRequest ::
    "string \<Rightarrow> string \<Rightarrow> string list \<Rightarrow> string \<Rightarrow> string
       \<Rightarrow> CatalogKafkaOptions option \<Rightarrow> Resources option \<Rightarrow> ServiceAttr
       \<Rightarrow> CreateServiceRequest"
  es_ValidateRequest :: "CatalogOptions CatalogCreateRequest \<Rightarrow> error option"
  es_GenDefaultCreateServiceRequest :: "CatalogOptions genResOpt"
  GetFirstMemberHost :: "string \<Rightarrow> string \<Rightarrow> string"
  kibana_ValidateRequest :: "CatalogKibanaOptions CatalogCreateRequest \<Rightarrow> error option"
  kibana_GenDefaultCreateServiceRequest ::
    "string \<Rightarrow> string \<Rightarrow> string list \<Rightarrow> string \<Rightarrow> string
       \<Rightarrow> Resources option \<Rightarrow> CatalogKibanaOptions option \<Rightarrow> string
       \<Rightarrow> CreateServiceRequest"
  logstash_ValidateRequest :: "CatalogOptions CatalogCreateRequest \<Rightarrow> error option"
  logstash_GenDefaultCreateServiceRequest :: "CatalogOptions genResOpt"

record dns_pkg =
  GenDefaultDomainName :: "string \<Rightarrow> string"
  GenDNSName :: "string \<Rightarrow> string \<Rightarrow> string"

text \<open>Package \<^verbatim>\<open>manage\<close> and what the server is constructed with: the conversion of
  an error to an HTTP error, the text of an error, the task type of init tasks, the
  log configuration of a task, and the control-plane create of
  \<^verbatim>\<open>manageservice.CreateService\<close> as a function of the database.\<close>

record manage_pkg =
  ConvertToHTTPError :: "error \<Rightarrow> string \<times> int"
  errorText :: "error \<Rightarrow> string"
  TaskTypeInit :: string
  CreateLogConfigForStream :: "string \<Rightarrow> string \<Rightarrow> string \<Rightarrow> string \<Rightarrow> LogConfig"
  CreateService :: "CreateServiceRequest \<Rightarrow> string \<Rightarrow> string \<Rightarrow> DB \<Rightarrow> error + string \<times> DB"

text \<open>The server: its local region and cluster, platform, availability zones, URL and
  VPC, and the packages it calls.\<close>

record ManageHTTPServer =
  region :: string
  cluster :: string
  platform :: string
  azs :: "string list"
  manageurl :: string
  vpcID :: string
  utils :: utils_pkg
  dns :: dns_pkg
  manage :: manage_pkg
  mongodbcatalog :: mongodbcatalog_pkg
  rediscatalog :: rediscatalog_pkg
  consulcatalog :: consulcatalog_pkg
  cascatalog :: cascatalog_pkg
  couchdbcatalog :: couchdbcatalog_pkg
  catalogs :: createonly_pkgs

definition httpError :: "ManageHTTPServer \<Rightarrow> error \<Rightarrow> hres" where
  "httpError s err = (case ConvertToHTTPError (manage s) err of (msg, code) \<Rightarrow> Reply msg code None)"

subsection \<open>The metadata database\<close>

text \<open>
  Modelled from the spec: the implementations of the \<^verbatim>\<open>db.DB\<close> interface are not in
  these files.  Each call is on a single key (spec 4.2); a missing record is
  \<open>ErrDBRecordNotFound\<close>; \<open>UpdateServiceMember\<close> is a compare-and-swap that fails
  when the stored member differs from the expected previous image (spec 4.1).
\<close>

definition GetService :: "string \<Rightarrow> string \<Rightarrow> Service action" where
  "GetService cl name =
     external (DbGetService cl name)
       (\<lambda>w. case find (\<lambda>x. svcClusterName x = cl \<and> svcServiceName x = name)
                      (services (dbIns w)) of
               None \<Rightarrow> (Err ErrDBRecordNotFound, w)
             | Some svc \<Rightarrow> (Ok svc, w))"

definition GetServiceAttr :: "string \<Rightarrow> ServiceAttr action" where
  "GetServiceAttr uuid =
     external (DbGetServiceAttr uuid)
       (\<lambda>w. case attrs (dbIns w) uuid of
               None \<Rightarrow> (Err ErrDBRecordNotFound, w)
             | Some attr \<Rightarrow> (Ok attr, w))"

definition ListServiceMembers :: "string \<Rightarrow> ServiceMember list action" where
  "ListServiceMembers uuid =
     external (DbListServiceMembers uuid)
       (\<lambda>w. (Ok (serviceMembers (dbIns w) uuid), w))"

definition GetConfigFile :: "string \<Rightarrow> string \<Rightarrow> ConfigFile action" where
  "GetConfigFile uuid fileID =
     external (DbGetConfigFile uuid fileID)
       (\<lambda>w. case configFiles (dbIns w) (uuid, fileID) of
               None \<Rightarrow> (Err ErrDBRecordNotFound, w)
             | Some f \<Rightarrow> (Ok f, w))"

definition putMember :: "ServiceMember \<Rightarrow> nat \<Rightarrow> world \<Rightarrow> world" where
  "putMember m i w =
     w\<lparr>dbIns := (dbIns w)\<lparr>serviceMembers :=
          (serviceMembers (dbIns w))
            (ServiceUUID m := (serviceMembers (dbIns w) (ServiceUUID m))[i := m])\<rparr>\<rparr>"

definition UpdateServiceMember :: "ServiceMember \<Rightarrow> ServiceMember \<Rightarrow> unit action" where
  "UpdateServiceMember oldMember newMember =
     external (DbUpdateServiceMember oldMember newMember)
       (\<lambda>w. let ms = serviceMembers (dbIns w) (ServiceUUID oldMember) in
             case firstIndex (\<lambda>m. MemberName m = MemberName oldMember) ms of
               None \<Rightarrow> (Err ErrDBRecordNotFound, w)
             | Some i \<Rightarrow>
                 if ms ! i = oldMember \<and> ServiceUUID newMember = ServiceUUID oldMember
                    \<and> MemberName newMember = MemberName oldMember
                 then (Ok (), putMember newMember i w)
                 else (Err ErrDBConditionalCheckFailed, w))"

definition DeleteConfigFile :: "string \<Rightarrow> string \<Rightarrow> unit action" where
  "DeleteConfigFile uuid fileID =
     external (DbDeleteConfigFile uuid fileID)
       (\<lambda>w. case configFiles (dbIns w) (uuid, fileID) of
               None \<Rightarrow> (Err ErrDBRecordNotFound, w)
             | Some f \<Rightarrow>
                 (Ok (), w\<lparr>dbIns := (dbIns w)\<lparr>configFiles :=
                            (configFiles (dbIns w))((uuid, fileID) := None)\<rparr>\<rparr>))"

text \<open>
  Modelled from the spec: \<^verbatim>\<open>manage.CreateConfigFile\<close> is not in these files.  It is
  idempotent on the file id (spec 4.1): an existing file with the same id and the same
  MD5 is returned, a different MD5 fails with \<open>ErrConfigMismatch\<close>.
\<close>

definition CreateConfigFile :: "ConfigFile \<Rightarrow> ConfigFile action" where
  "CreateConfigFile cfgfile =
     external (DbCreateConfigFile cfgfile)
       (\<lambda>w. case configFiles (dbIns w) (cfServiceUUID cfgfile, cfFileID cfgfile) of
               None \<Rightarrow>
                 (Ok cfgfile, w\<lparr>dbIns := (dbIns w)\<lparr>configFiles :=
                     (configFiles (dbIns w))
                       ((cfServiceUUID cfgfile, cfFileID cfgfile) \<mapsto> cfgfile)\<rparr>\<rparr>)
             | Some existing \<Rightarrow>
                 if cfFileMD5 existing = cfFileMD5 cfgfile then (Ok existing, w)
                 else (Err ErrConfigMismatch, w))"

text \<open>
  Modelled from the spec: the record helpers of package \<^verbatim>\<open>db\<close> are not in these
  files.  A config file carries the MD5 of its content (spec 3); the copies are by value.
\<close>

definition CreateInitialConfigFile ::
  "ManageHTTPServer \<Rightarrow> string \<Rightarrow> string \<Rightarrow> string \<Rightarrow> 32 word \<Rightarrow> string \<Rightarrow> ConfigFile" where
  "CreateInitialConfigFile s uuid fileID fileName fileMode content =
     \<lparr>cfServiceUUID = uuid, cfFileID = fileID, cfFileMD5 = GenMD5 (utils s) content,
      cfFileName = fileName, cfFileMode = fileMode, cfContent = content\<rparr>"

definition UpdateConfigFile ::
  "ManageHTTPServer \<Rightarrow> ConfigFile \<Rightarrow> string \<Rightarrow> string \<Rightarrow> ConfigFile" where
  "UpdateConfigFile s cfgfile newFileID newContent =
     cfgfile\<lparr>cfFileID := newFileID, cfFileMD5 := GenMD5 (utils s) newContent,
             cfContent := newContent\<rparr>"

definition CopyMemberConfigs :: "MemberConfig list \<Rightarrow> MemberConfig list" where
  "CopyMemberConfigs cfgs = cfgs"

definition UpdateServiceMemberConfigs ::
  "ServiceMember \<Rightarrow> MemberConfig list \<Rightarrow> ServiceMember" where
  "UpdateServiceMemberConfigs member newConfigs = member\<lparr>Configs := newConfigs\<rparr>"

definition ListServices :: "string \<Rightarrow> Service list action" where
  "ListServices cl =
     external (DbListServices cl)
       (\<lambda>w. (Ok (filter (\<lambda>x. svcClusterName x = cl) (services (dbIns w))), w))"

definition ListVolumes :: "string \<Rightarrow> Volume list action" where
  "ListVolumes uuid =
     external (DbListVolumes uuid) (\<lambda>w. (Ok (volumes (dbIns w) uuid), w))"

definition DeleteService :: "string \<Rightarrow> string \<Rightarrow> unit action" where
  "DeleteService cl name =
     external (DbDeleteService cl name)
       (\<lambda>w. case find (\<lambda>x. svcClusterName x = cl \<and> svcServiceName x = name)
                      (services (dbIns w)) of
               None \<Rightarrow> (Err ErrDBRecordNotFound, w)
             | Some svc \<Rightarrow>
                 (Ok (), w\<lparr>dbIns := (dbIns w)\<lparr>services :=
                     filter (\<lambda>x. \<not> (svcClusterName x = cl \<and> svcServiceName x = name))
                       (services (dbIns w))\<rparr>\<rparr>))"

subsection \<open>The control-plane service\<close>

text \<open>
  Modelled from the spec: package \<^verbatim>\<open>manageservice\<close> is not in these files.
  \<open>svc_CreateService\<close> is the control-plane create (spec 4.3, step 1), given by the
  server's \<open>CreateService\<close>; \<open>svc_SetServiceInitialized\<close> resolves the service and
  sets the status of its attributes to ACTIVE (spec 4.2, 4.6 step 5).
\<close>

definition svc_CreateService ::
  "ManageHTTPServer \<Rightarrow> CreateServiceRequest \<Rightarrow> string \<Rightarrow> string \<Rightarrow> string action" where
  "svc_CreateService s req domain vpc =
     external (SvcCreateService req domain vpc)
       (\<lambda>w. case CreateService (manage s) req domain vpc (dbIns w) of
               Inl err \<Rightarrow> (Err err, w)
             | Inr (uuid, db') \<Rightarrow> (Ok uuid, w\<lparr>dbIns := db'\<rparr>))"

definition svc_SetServiceInitialized :: "string \<Rightarrow> string \<Rightarrow> unit action" where
  "svc_SetServiceInitialized cl name =
     external (SvcSetServiceInitialized cl name)
       (\<lambda>w. case find (\<lambda>x. svcClusterName x = cl \<and> svcServiceName x = name)
                      (services (dbIns w)) of
               None \<Rightarrow> (Err ErrDBRecordNotFound, w)
             | Some svc \<Rightarrow>
                 (case attrs (dbIns w) (svcServiceUUID svc) of
                    None \<Rightarrow> (Err ErrDBRecordNotFound, w)
                  | Some attr \<Rightarrow>
                      (Ok (), w\<lparr>dbIns := (dbIns w)\<lparr>attrs :=
                          (attrs (dbIns w))(svcServiceUUID svc \<mapsto>
                             attr\<lparr>attrServiceStatus := ServiceStatusActive\<rparr>)\<rparr>\<rparr>)))"

subsection \<open>The container platform\<close>

text \<open>
  Modelled from the spec: the implementations of \<^verbatim>\<open>containersvc.ContainerSvc\<close> are not
  in these files (spec 6, external collaborators).
\<close>

definition IsServiceExist :: "string \<Rightarrow> string \<Rightarrow> bool action" where
  "IsServiceExist cl name =
     external (CsIsServiceExist cl name)
       (\<lambda>w. (Ok (csServices (containersvcIns w) (cl, name) \<noteq> None), w))"

definition containersvc_CreateService :: "CreateServiceOptions \<Rightarrow> unit action" where
  "containersvc_CreateService copts =
     external (CsCreateService copts)
       (\<lambda>w. (Ok (), w\<lparr>containersvcIns := (containersvcIns w)\<lparr>csServices :=
                 (csServices (containersvcIns w))
                   ((coCluster (csoCommon copts), coServiceName (csoCommon copts))
                      \<mapsto> (0, csoReplicas copts))\<rparr>\<rparr>))"

definition RestartService :: "string \<Rightarrow> string \<Rightarrow> int64 \<Rightarrow> unit action" where
  "RestartService cl name replicas =
     external (CsRestartService cl name replicas) (\<lambda>w. (Ok (), w))"

definition GetServiceStatus :: "string \<Rightarrow> string \<Rightarrow> (int64 \<times> int64) action" where
  "GetServiceStatus cl name =
     external (CsGetServiceStatus cl name)
       (\<lambda>w. case csServices (containersvcIns w) (cl, name) of
               None \<Rightarrow> (Err ErrDBRecordNotFound, w)
             | Some st \<Rightarrow> (Ok st, w))"

definition RunTask :: "RunTaskOptions \<Rightarrow> string action" where
  "RunTask topts =
     external (CsRunTask topts) (\<lambda>w. (Ok (csNewTaskID (containersvcIns w) topts), w))"

definition GetTaskStatus :: "string \<Rightarrow> string \<Rightarrow> TaskStatus action" where
  "GetTaskStatus cl taskID =
     external (CsGetTaskStatus cl taskID)
       (\<lambda>w. case csTasks (containersvcIns w) (cl, taskID) of
               None \<Rightarrow> (Err ErrDBRecordNotFound, w)
             | Some st \<Rightarrow> (Ok st, w))"

definition DeleteTask :: "string \<Rightarrow> string \<Rightarrow> string \<Rightarrow> unit action" where
  "DeleteTask cl name taskType =
     external (CsDeleteTask cl name taskType) (\<lambda>w. (Ok (), w))"

subsection \<open>The init task registry\<close>

text \<open>
  Modelled from the spec: \<^verbatim>\<open>catalogSvcInit\<close> is not in these files.  It holds at most
  one task per service UUID; \<open>hasInitTask\<close> returns whether a task is live and its
  status message; \<open>addInitTask\<close> is a guarded insert, a no-op when a task exists;
  \<open>UpdateTaskStatusMsg\<close> publishes the message of a live task (spec 4.5).  The
  concurrent run of a task is not part of this model.
\<close>

definition hasInitTask :: "string \<Rightarrow> world \<Rightarrow> bool \<times> string" where
  "hasInitTask uuid w =
     (case catalogSvcInit w uuid of
        Some task \<Rightarrow> (True, statusMessage task)
      | None \<Rightarrow> (False, []))"

definition addInitTask :: "serviceTask \<Rightarrow> world \<Rightarrow> world" where
  "addInitTask task w =
     (case catalogSvcInit w (serviceUUID task) of
        Some existing \<Rightarrow> w
      | None \<Rightarrow> w\<lparr>catalogSvcInit := (catalogSvcInit w)(serviceUUID task \<mapsto> task)\<rparr>)"

definition UpdateTaskStatusMsg :: "string \<Rightarrow> string \<Rightarrow> world \<Rightarrow> world" where
  "UpdateTaskStatusMsg uuid msg w =
     (case catalogSvcInit w uuid of
        Some task \<Rightarrow>
          w\<lparr>catalogSvcInit := (catalogSvcInit w)(uuid \<mapsto> task\<lparr>statusMessage := msg\<rparr>)\<rparr>
      | None \<Rightarrow> w)"

section \<open>The config mutators of \<^verbatim>\<open>catalogservice.go\<close>\<close>

text \<open>\<^verbatim>\<open>updateMemberConfig\<close>: write the next version of a config file, point the
  member's slot to it, delete the old file (an error of the delete is only logged).\<close>

definition updateMemberConfig ::
  "ManageHTTPServer \<Rightarrow> ServiceMember \<Rightarrow> ConfigFile \<Rightarrow> int \<Rightarrow> string \<Rightarrow> unit action" where
  "updateMemberConfig s member cfgfile cfgIndex newContent w =
     (case GetConfigFileVersion (utils s) (cfFileID cfgfile) of
        Inl err \<Rightarrow> (Err err, w)
      | Inr version \<Rightarrow>
          (let newFileID = GenMemberConfigFileID (utils s) (MemberName member)
                             (cfFileName cfgfile) (version + 1);
               newcfgfile = UpdateConfigFile s cfgfile newFileID newContent
           in case CreateConfigFile newcfgfile w of
                (Err err, w1) \<Rightarrow> (Err err, w1)
              | (Panic p, w1) \<Rightarrow> (Panic p, w1)
              | (Ok created, w1) \<Rightarrow>
                  (let newConfigs = CopyMemberConfigs (Configs member) in
                   if cfgIndex < 0 \<or> int (length newConfigs) \<le> cfgIndex
                   then (Panic IndexOutOfRange, w1)
                   else
                     (let i = nat cfgIndex;
                          newConfigs' = newConfigs[i := (newConfigs ! i)
                             \<lparr>FileID := cfFileID created, FileMD5 := cfFileMD5 created\<rparr>];
                          newMember = UpdateServiceMemberConfigs member newConfigs'
                      in case UpdateServiceMember member newMember w1 of
                           (Err err, w2) \<Rightarrow> (Err err, w2)
                         | (Panic p, w2) \<Rightarrow> (Panic p, w2)
                         | (Ok u, w2) \<Rightarrow>
                             (case DeleteConfigFile (cfServiceUUID cfgfile)
                                     (cfFileID cfgfile) w2 of
                                (r, w3) \<Rightarrow> (Ok (), w3))))))"

text \<open>\<^verbatim>\<open>enableMongoDBAuth\<close>.\<close>

definition enableMongoDBAuth ::
  "ManageHTTPServer \<Rightarrow> MemberConfig \<Rightarrow> int \<Rightarrow> ServiceMember \<Rightarrow> unit action" where
  "enableMongoDBAuth s cfg cfgIndex member w =
     (case GetConfigFile (ServiceUUID member) (FileID cfg) w of
        (Err err, w1) \<Rightarrow> (Err err, w1)
      | (Panic p, w1) \<Rightarrow> (Panic p, w1)
      | (Ok cfgfile, w1) \<Rightarrow>
          if IsAuthEnabled (mongodbcatalog s) (cfContent cfgfile) then (Ok (), w1)
          else
            (let newContent = EnableMongoDBAuth (mongodbcatalog s) (cfContent cfgfile)
             in updateMemberConfig s member cfgfile cfgIndex newContent w1))"

text \<open>\<^verbatim>\<open>createRedisClusterFile\<close>.\<close>

definition createRedisClusterFile ::
  "ManageHTTPServer \<Rightarrow> ServiceMember \<Rightarrow> ReplicaConfigFile \<Rightarrow> ServiceMember action" where
  "createRedisClusterFile s member cfg w =
     (case find (\<lambda>c. IsClusterInfoFile (rediscatalog s) (FileName c)) (Configs member) of
        Some c \<Rightarrow>
          (let chksum = GenMD5 (utils s) (rcfContent cfg) in
           if FileMD5 c \<noteq> chksum then (Err ErrConfigMismatch, w)
           else (Ok member, w))
      | None \<Rightarrow>
          (let version = 0;
               fileID = GenMemberConfigFileID (utils s) (MemberName member)
                          (rcfFileName cfg) version;
               initcfgfile = CreateInitialConfigFile s (ServiceUUID member) fileID
                               (rcfFileName cfg) (rcfFileMode cfg) (rcfContent cfg)
           in case CreateConfigFile initcfgfile w of
                (Err err, w1) \<Rightarrow> (Err err, w1)
              | (Panic p, w1) \<Rightarrow> (Panic p, w1)
              | (Ok cfgfile, w1) \<Rightarrow>
                  (let config = \<lparr>FileName = rcfFileName cfg, FileID = fileID,
                                 FileMD5 = cfFileMD5 cfgfile\<rparr>;
                       newConfigs = CopyMemberConfigs (Configs member) @ [config];
                       newMember = UpdateServiceMemberConfigs member newConfigs
                   in case UpdateServiceMember member newMember w1 of
                        (Err err, w2) \<Rightarrow> (Err err, w2)
                      | (Panic p, w2) \<Rightarrow> (Panic p, w2)
                      | (Ok u, w2) \<Rightarrow> (Ok newMember, w2))))"

text \<open>\<^verbatim>\<open>updateRedisConfigs\<close>.\<close>

definition updateRedisConfigs ::
  "ManageHTTPServer \<Rightarrow> MemberConfig \<Rightarrow> int \<Rightarrow> ServiceMember \<Rightarrow> unit action" where
  "updateRedisConfigs s cfg cfgIndex member w =
     (case GetConfigFile (ServiceUUID member) (FileID cfg) w of
        (Err err, w1) \<Rightarrow> (Err err, w1)
      | (Panic p, w1) \<Rightarrow> (Panic p, w1)
      | (Ok cfgfile, w1) \<Rightarrow>
          (let enableAuth = NeedToEnableAuth (rediscatalog s) (cfContent cfgfile);
               setIP = NeedToSetClusterAnnounceIP (rediscatalog s) (cfContent cfgfile)
           in if \<not> enableAuth \<and> \<not> setIP then (Ok (), w1)
              else
                (let newContent = cfContent cfgfile;
                     newContent = (if enableAuth
                                   then EnableRedisAuth (rediscatalog s) newContent
                                   else newContent);
                     newContent = (if setIP
                                   then SetClusterAnnounceIP (rediscatalog s) newContent
                                          (StaticIP member)
                                   else newContent)
                 in updateMemberConfig s member cfgfile cfgIndex newContent w1)))"

text \<open>The content \<^verbatim>\<open>updateRedisConfigs\<close> writes when a probe fires: auth enabled if
  needed, then the announce IP set if needed.\<close>

definition redisNewContent :: "ManageHTTPServer \<Rightarrow> string \<Rightarrow> string \<Rightarrow> string" where
  "redisNewContent s content ip =
     (let c1 = (if NeedToEnableAuth (rediscatalog s) content
                then EnableRedisAuth (rediscatalog s) content else content)
      in if NeedToSetClusterAnnounceIP (rediscatalog s) content
         then SetClusterAnnounceIP (rediscatalog s) c1 ip else c1)"

text \<open>\<^verbatim>\<open>updateConsulMemberConfig\<close>: \<open>cfg\<close> stays nil when no slot is the basic
  config file, and reading \<open>cfg.FileID\<close> then panics before any call is made.\<close>

definition updateConsulMemberConfig ::
  "ManageHTTPServer \<Rightarrow> ServiceMember \<Rightarrow> (string \<rightharpoonup> string) \<Rightarrow> unit action" where
  "updateConsulMemberConfig s member memberips w =
     (let found = firstIndex (\<lambda>c. IsBasicConfigFile (consulcatalog s) (FileName c))
                    (Configs member);
          cfg = map_option (\<lambda>i. Configs member ! i) found;
          cfgIndex = (case found of None \<Rightarrow> - 1 | Some i \<Rightarrow> int i)
      in case cfg of
           None \<Rightarrow> (Panic NilDereference, w)
         | Some c \<Rightarrow>
             (case GetConfigFile (ServiceUUID member) (FileID c) w of
                (Err err, w1) \<Rightarrow> (Err err, w1)
              | (Panic p, w1) \<Rightarrow> (Panic p, w1)
              | (Ok cfgfile, w1) \<Rightarrow>
                  (let newContent = ReplaceMemberName (consulcatalog s)
                                      (cfContent cfgfile) memberips
                   in updateMemberConfig s member cfgfile cfgIndex newContent w1)))"

text \<open>A loop over a slice that returns at the first error.\<close>

fun forEach :: "('a \<Rightarrow> unit action) \<Rightarrow> 'a list \<Rightarrow> unit action" where
  "forEach f [] w = (Ok (), w)"
| "forEach f (x # xs) w =
     (case f x w of
        (Ok u, w1) \<Rightarrow> forEach f xs w1
      | (Err err, w1) \<Rightarrow> (Err err, w1)
      | (Panic p, w1) \<Rightarrow> (Panic p, w1))"

text \<open>\<^verbatim>\<open>updateConsulConfigs\<close>: the list of static IPs and the map from each member's
  DNS name to its static IP, then the rewrite of every member.\<close>

definition consulMemberIPs ::
  "ManageHTTPServer \<Rightarrow> string \<Rightarrow> ServiceMember list \<Rightarrow> (string \<rightharpoonup> string)" where
  "consulMemberIPs s domain members =
     foldl (\<lambda>memberips m. memberips(GenDNSName (dns s) (MemberName m) domain \<mapsto> StaticIP m))
       Map.empty members"

definition updateConsulConfigs ::
  "ManageHTTPServer \<Rightarrow> string \<Rightarrow> string \<Rightarrow> string list action" where
  "updateConsulConfigs s uuid domain w =
     (case ListServiceMembers uuid w of
        (Err err, w1) \<Rightarrow> (Err err, w1)
      | (Panic p, w1) \<Rightarrow> (Panic p, w1)
      | (Ok members, w1) \<Rightarrow>
          (let serverips = map StaticIP members;
               memberips = consulMemberIPs s domain members
           in case forEach (\<lambda>m. updateConsulMemberConfig s m memberips) members w1 of
                (Err err, w2) \<Rightarrow> (Err err, w2)
              | (Panic p, w2) \<Rightarrow> (Panic p, w2)
              | (Ok u, w2) \<Rightarrow> (Ok serverips, w2)))"

section \<open>The handlers of \<^verbatim>\<open>catalogservice.go\<close>\<close>

text \<open>\<^verbatim>\<open>json.Marshal\<close> of a response body; it does not fail on these bodies, the error
  branch of the handlers is kept.\<close>

definition jsonMarshal :: "response \<Rightarrow> error + response" where
  "jsonMarshal resp = Inr resp"

definition writeResponse :: "response \<Rightarrow> world \<Rightarrow> hres \<times> world" where
  "writeResponse resp w =
     (case jsonMarshal resp of
        Inl err \<Rightarrow>
          (Reply (StatusText StatusInternalServerError) StatusInternalServerError None, w)
      | Inr b \<Rightarrow> (Reply [] StatusOK (Some b), w))"

text \<open>
  Modelled from the spec: the \<^verbatim>\<open>setServiceInitialized(ctx, service, requuid)\<close> that
  \<^verbatim>\<open>catalogservice.go\<close> calls is not in these files.  It is the shared set-initialized
  operation (spec 4.6, step 5): it sets the service ACTIVE through the control-plane
  service and converts an error, as the handler of the same name in \<^verbatim>\<open>server.go\<close> does.
\<close>

definition setServiceInitialized_op :: "ManageHTTPServer \<Rightarrow> string \<Rightarrow> world \<Rightarrow> hres \<times> world" where
  "setServiceInitialized_op s service w =
     (case svc_SetServiceInitialized (cluster s) service w of
        (Err err, w1) \<Rightarrow> (httpError s err, w1)
      | (Panic p, w1) \<Rightarrow> (Crash p, w1)
      | (Ok u, w1) \<Rightarrow> (Reply [] StatusOK None, w1))"

text \<open>\<^verbatim>\<open>genCreateServiceOptions\<close> of \<^verbatim>\<open>server.go\<close>, on the dereferenced
  \<open>req.Service\<close>.\<close>

definition genCreateServiceOptions ::
  "CreateServiceRequest \<Rightarrow> ServiceCommonRequest \<Rightarrow> string \<Rightarrow> CreateServiceOptions" where
  "genCreateServiceOptions req sc uuid =
     \<lparr>csoCommon = \<lparr>coCluster = Cluster sc, coServiceName = ServiceName sc,
                   coServiceUUID = uuid, coContainerImage = crContainerImage req,
                   coResource = crResource req\<rparr>,
      csoContainerPath = crContainerPath req, csoPort = crPort req,
      csoReplicas = crReplicas req\<rparr>"

text \<open>
  Modelled from the spec: \<^verbatim>\<open>createContainerService\<close> and \<^verbatim>\<open>createCommonService\<close> are
  not in these files.  The container-platform create is guarded by an existence check
  (spec 4.3, step 2), as in \<^verbatim>\<open>createService\<close> of \<^verbatim>\<open>server.go\<close>; the common create is
  the control-plane create followed by the container-platform create.
\<close>

definition createContainerService ::
  "ManageHTTPServer \<Rightarrow> CreateServiceRequest \<Rightarrow> string \<Rightarrow> unit action" where
  "createContainerService s req uuid w =
     (case crService req of
        None \<Rightarrow> (Panic NilDereference, w)
      | Some sc \<Rightarrow>
          (case IsServiceExist (Cluster sc) (ServiceName sc) w of
             (Err err, w1) \<Rightarrow> (Err err, w1)
           | (Panic p, w1) \<Rightarrow> (Panic p, w1)
           | (Ok exist, w1) \<Rightarrow>
               if \<not> exist
               then containersvc_CreateService (genCreateServiceOptions req sc uuid) w1
               else (Ok (), w1)))"

definition createCommonService ::
  "ManageHTTPServer \<Rightarrow> CreateServiceRequest \<Rightarrow> string action" where
  "createCommonService s req w =
     (let domain = GenDefaultDomainName (dns s) (cluster s);
          vpc = vpcID s
      in case svc_CreateService s req domain vpc w of
           (Err err, w1) \<Rightarrow> (Err err, w1)
         | (Panic p, w1) \<Rightarrow> (Panic p, w1)
         | (Ok uuid, w1) \<Rightarrow>
             (case createContainerService s req uuid w1 of
                (Err err, w2) \<Rightarrow> (Err err, w2)
              | (Panic p, w2) \<Rightarrow> (Panic p, w2)
              | (Ok u, w2) \<Rightarrow> (Ok uuid, w2)))"

text \<open>\<^verbatim>\<open>addMongoDBInitTask\<close>, \<^verbatim>\<open>addCasInitTask\<close>, \<^verbatim>\<open>addRedisInitTask\<close>,
  \<^verbatim>\<open>addCouchDBInitTask\<close>.\<close>

definition addMongoDBInitTask ::
  "ManageHTTPServer \<Rightarrow> ServiceCommonRequest \<Rightarrow> string \<Rightarrow> int64 \<Rightarrow> string \<Rightarrow> string
     \<Rightarrow> world \<Rightarrow> world" where
  "addMongoDBInitTask s req uuid replicas admin adminPasswd w =
     (let logCfg = CreateLogConfigForStream (manage s) (cluster s) (ServiceName req) uuid
                     (TaskTypeInit (manage s));
          taskOpts = mongodb_GenDefaultInitTaskRequest (mongodbcatalog s) req logCfg uuid
                       replicas (manageurl s) admin adminPasswd;
          task = \<lparr>serviceUUID = uuid, serviceName = ServiceName req,
                  serviceType = CatalogService_MongoDB, opts = taskOpts,
                  statusMessage = []\<rparr>
      in addInitTask task w)"

definition addCasInitTask ::
  "ManageHTTPServer \<Rightarrow> ServiceCommonRequest \<Rightarrow> string \<Rightarrow> world \<Rightarrow> world" where
  "addCasInitTask s req uuid w =
     (let logCfg = CreateLogConfigForStream (manage s) (cluster s) (ServiceName req) uuid
                     (TaskTypeInit (manage s));
          taskOpts = cas_GenDefaultInitTaskRequest (cascatalog s) req logCfg uuid (manageurl s);
          task = \<lparr>serviceUUID = uuid, serviceName = ServiceName req,
                  serviceType = CatalogService_Cassandra, opts = taskOpts,
                  statusMessage = []\<rparr>
      in addInitTask task w)"

definition addRedisInitTask ::
  "ManageHTTPServer \<Rightarrow> ServiceCommonRequest \<Rightarrow> string \<Rightarrow> int64 \<Rightarrow> int64 \<Rightarrow> unit action" where
  "addRedisInitTask s req uuid shards replicasPerShard w =
     (let logCfg = CreateLogConfigForStream (manage s) (cluster s) (ServiceName req) uuid
                     (TaskTypeInit (manage s))
      in case redis_GenDefaultInitTaskRequest (rediscatalog s) req logCfg shards
                replicasPerShard uuid (manageurl s) of
           Inl err \<Rightarrow> (Err err, w)
         | Inr taskOpts \<Rightarrow>
             (let task = \<lparr>serviceUUID = uuid, serviceName = ServiceName req,
                          serviceType = CatalogService_Redis, opts = taskOpts,
                          statusMessage = []\<rparr>
              in (Ok (), addInitTask task w)))"

definition addCouchDBInitTask ::
  "ManageHTTPServer \<Rightarrow> ServiceCommonRequest \<Rightarrow> string \<Rightarrow> int64 \<Rightarrow> string \<Rightarrow> string
     \<Rightarrow> world \<Rightarrow> world" where
  "addCouchDBInitTask s req uuid replicas admin adminPass w =
     (let logCfg = CreateLogConfigForStream (manage s) (cluster s) (ServiceName req) uuid
                     (TaskTypeInit (manage s));
          taskOpts = couchdb_GenDefaultInitTaskRequest (couchdbcatalog s) req logCfg (azs s)
                       uuid replicas (manageurl s) admin adminPass;
          task = \<lparr>serviceUUID = uuid, serviceName = ServiceName req,
                  serviceType = CatalogService_CouchDB, opts = taskOpts,
                  statusMessage = []\<rparr>
      in addInitTask task w)"

text \<open>\<^verbatim>\<open>getCatalogServiceOp\<close>: the check-init handler.  \<open>body\<close> is the decoded
  request, \<open>None\<close> when the JSON does not decode.\<close>

definition getCatalogServiceOp ::
  "ManageHTTPServer \<Rightarrow> CatalogCheckServiceInitRequest option \<Rightarrow> world \<Rightarrow> hres \<times> world" where
  "getCatalogServiceOp s body w =
     (case body of
        None \<Rightarrow> (badRequest, w)
      | Some req \<Rightarrow>
     (case ciService req of
        None \<Rightarrow> (Crash NilDereference, w)
      | Some sc \<Rightarrow>
     if Cluster sc \<noteq> cluster s \<or> Region sc \<noteq> region s then (badRequest, w)
     else
     (case GetService (cluster s) (ServiceName sc) w of
        (Err err, w1) \<Rightarrow> (httpError s err, w1)
      | (Panic p, w1) \<Rightarrow> (Crash p, w1)
      | (Ok service, w1) \<Rightarrow>
     (case hasInitTask (svcServiceUUID service) w1 of
        (hasTask, statusMsg) \<Rightarrow>
     if hasTask
     then writeResponse (CatalogCheckServiceInitResponse False statusMsg) w1
     else
     (case GetServiceAttr (svcServiceUUID service) w1 of
        (Err err, w2) \<Rightarrow> (httpError s err, w2)
      | (Panic p, w2) \<Rightarrow> (Crash p, w2)
      | (Ok attr, w2) \<Rightarrow>
     (case attrServiceStatus attr of
        ServiceStatusActive \<Rightarrow>
          writeResponse (CatalogCheckServiceInitResponse True statusMsg) w2
      | ServiceStatusInitializing \<Rightarrow>
          (case ciServiceType req of
             CatalogService_MongoDB \<Rightarrow>
               writeResponse (CatalogCheckServiceInitResponse False statusMsg)
                 (addMongoDBInitTask s sc (attrServiceUUID attr) (attrReplicas attr)
                    (ciAdmin req) (ciAdminPasswd req) w2)
           | CatalogService_PostgreSQL \<Rightarrow>
               (case setServiceInitialized_op s (ServiceName sc) w2 of
                  (Crash p, w3) \<Rightarrow> (Crash p, w3)
                | (Reply errmsg errcode out, w3) \<Rightarrow>
                    if errcode \<noteq> StatusOK then (Reply errmsg errcode None, w3)
                    else writeResponse (CatalogCheckServiceInitResponse True statusMsg) w3)
           | CatalogService_Cassandra \<Rightarrow>
               writeResponse (CatalogCheckServiceInitResponse False statusMsg)
                 (addCasInitTask s sc (attrServiceUUID attr) w2)
           | CatalogService_ZooKeeper \<Rightarrow>
               (case setServiceInitialized_op s (ServiceName sc) w2 of
                  (Crash p, w3) \<Rightarrow> (Crash p, w3)
                | (Reply errmsg errcode out, w3) \<Rightarrow>
                    if errcode \<noteq> StatusOK then (Reply errmsg errcode None, w3)
                    else writeResponse (CatalogCheckServiceInitResponse True statusMsg) w3)
           | CatalogService_Kafka \<Rightarrow>
               (case setServiceInitialized_op s (ServiceName sc) w2 of
                  (Crash p, w3) \<Rightarrow> (Crash p, w3)
                | (Reply errmsg errcode out, w3) \<Rightarrow>
                    if errcode \<noteq> StatusOK then (Reply errmsg errcode None, w3)
                    else writeResponse (CatalogCheckServiceInitResponse True statusMsg) w3)
           | CatalogService_Redis \<Rightarrow>
               (case addRedisInitTask s sc (attrServiceUUID attr) (ciShards req)
                       (ciReplicasPerShard req) w2 of
                  (Err err, w3) \<Rightarrow> (httpError s err, w3)
                | (Panic p, w3) \<Rightarrow> (Crash p, w3)
                | (Ok u, w3) \<Rightarrow>
                    writeResponse (CatalogCheckServiceInitResponse False statusMsg) w3)
           | CatalogService_CouchDB \<Rightarrow>
               writeResponse (CatalogCheckServiceInitResponse False statusMsg)
                 (addCouchDBInitTask s sc (attrServiceUUID attr) (attrReplicas attr)
                    (ciAdmin req) (ciAdminPasswd req) w2)
           | _ \<Rightarrow> (badRequest, w2))
      | _ \<Rightarrow> (badRequest, w2)))))))"

text \<open>The body of the member loop of \<^verbatim>\<open>setMongoDBInit\<close>: the first slot that is the
  mongod config file is rewritten, a member without one is skipped.\<close>

definition mongoDBInitMember :: "ManageHTTPServer \<Rightarrow> ServiceMember \<Rightarrow> unit action" where
  "mongoDBInitMember s member w =
     (case firstIndex (\<lambda>cfg. IsMongoDBConfFile (mongodbcatalog s) (FileName cfg))
             (Configs member) of
        None \<Rightarrow> (Ok (), w)
      | Some i \<Rightarrow> enableMongoDBAuth s (Configs member ! i) (int i) member w)"

text \<open>\<^verbatim>\<open>setMongoDBInit\<close>.\<close>

definition setMongoDBInit ::
  "ManageHTTPServer \<Rightarrow> CatalogSetServiceInitRequest \<Rightarrow> world \<Rightarrow> hres \<times> world" where
  "setMongoDBInit s req w =
     (case GetService (cluster s) (ServiceName req) w of
        (Err err, w1) \<Rightarrow> (httpError s err, w1)
      | (Panic p, w1) \<Rightarrow> (Crash p, w1)
      | (Ok service, w1) \<Rightarrow>
     (case GetServiceAttr (svcServiceUUID service) w1 of
        (Err err, w2) \<Rightarrow> (httpError s err, w2)
      | (Panic p, w2) \<Rightarrow> (Crash p, w2)
      | (Ok attr, w2) \<Rightarrow>
     (case ListServiceMembers (svcServiceUUID service) w2 of
        (Err err, w3) \<Rightarrow> (httpError s err, w3)
      | (Panic p, w3) \<Rightarrow> (Crash p, w3)
      | (Ok members, w3) \<Rightarrow>
     (let w4 = UpdateTaskStatusMsg (svcServiceUUID service) ''enable auth for MongoDB'' w3
      in case forEach (mongoDBInitMember s) members w4 of
           (Err err, w5) \<Rightarrow> (httpError s err, w5)
         | (Panic p, w5) \<Rightarrow> (Crash p, w5)
         | (Ok u, w5) \<Rightarrow>
     (let w6 = UpdateTaskStatusMsg (svcServiceUUID service)
                 ''restarting all MongoDB containers'' w5
      in case RestartService (cluster s) (ServiceName req) (attrReplicas attr) w6 of
           (Err err, w7) \<Rightarrow> (httpError s err, w7)
         | (Panic p, w7) \<Rightarrow> (Crash p, w7)
         | (Ok u, w7) \<Rightarrow> setServiceInitialized_op s (ServiceName req) w7)))))"

text \<open>\<^verbatim>\<open>catalogSetServiceInit\<close>.\<close>

definition catalogSetServiceInit ::
  "ManageHTTPServer \<Rightarrow> CatalogSetServiceInitRequest option \<Rightarrow> world \<Rightarrow> hres \<times> world" where
  "catalogSetServiceInit s body w =
     (case body of
        None \<Rightarrow> (badRequest, w)
      | Some req \<Rightarrow>
          if Cluster req \<noteq> cluster s \<or> Region req \<noteq> region s then (badRequest, w)
          else
            (case ServiceType req of
               CatalogService_MongoDB \<Rightarrow> setMongoDBInit s req w
             | CatalogService_Cassandra \<Rightarrow> setServiceInitialized_op s (ServiceName req) w
             | CatalogService_CouchDB \<Rightarrow> setServiceInitialized_op s (ServiceName req) w
             | _ \<Rightarrow> (badRequest, w)))"

text \<open>The body of the member loop of \<^verbatim>\<open>setRedisInit\<close>: the cluster info file, then
  the first slot that is the redis config file.\<close>

definition redisInitMember ::
  "ManageHTTPServer \<Rightarrow> ReplicaConfigFile \<Rightarrow> ServiceMember \<Rightarrow> unit action" where
  "redisInitMember s clusterInfoCfg member w =
     (case createRedisClusterFile s member clusterInfoCfg w of
        (Err err, w1) \<Rightarrow> (Err err, w1)
      | (Panic p, w1) \<Rightarrow> (Panic p, w1)
      | (Ok newMember, w1) \<Rightarrow>
          (case firstIndex (\<lambda>cfg. IsRedisConfFile (rediscatalog s) (FileName cfg))
                  (Configs newMember) of
             None \<Rightarrow> (Ok (), w1)
           | Some i \<Rightarrow> updateRedisConfigs s (Configs newMember ! i) (int i) newMember w1))"


text \<open>\<^verbatim>\<open>setRedisInit\<close>.  The log line reads \<open>req.NodeIds[0]\<close> before any call, and
  panics on an empty slice.\<close>

definition setRedisInit ::
  "ManageHTTPServer \<Rightarrow> CatalogSetRedisInitRequest option \<Rightarrow> world \<Rightarrow> hres \<times> world" where
  "setRedisInit s body w =
     (case body of
        None \<Rightarrow> (badRequest, w)
      | Some req \<Rightarrow>
     if Cluster req \<noteq> cluster s \<or> Region req \<noteq> region s then (badRequest, w)
     else
     (case NodeIds req of
        [] \<Rightarrow> (Crash IndexOutOfRange, w)
      | firstNodeId # otherNodeIds \<Rightarrow>
     (case GetService (cluster s) (ServiceName req) w of
        (Err err, w1) \<Rightarrow> (httpError s err, w1)
      | (Panic p, w1) \<Rightarrow> (Crash p, w1)
      | (Ok service, w1) \<Rightarrow>
     (case GetServiceAttr (svcServiceUUID service) w1 of
        (Err err, w2) \<Rightarrow> (httpError s err, w2)
      | (Panic p, w2) \<Rightarrow> (Crash p, w2)
      | (Ok attr, w2) \<Rightarrow>
     (case ListServiceMembers (svcServiceUUID service) w2 of
        (Err err, w3) \<Rightarrow> (httpError s err, w3)
      | (Panic p, w3) \<Rightarrow> (Crash p, w3)
      | (Ok members, w3) \<Rightarrow>
     (let w4 = UpdateTaskStatusMsg (svcServiceUUID service)
                 ''create the member to Redis nodeID mapping for the Redis cluster'' w3;
          clusterInfoCfg = CreateClusterInfoFile (rediscatalog s) (NodeIds req)
      in case forEach (redisInitMember s clusterInfoCfg) members w4 of
           (Err err, w5) \<Rightarrow> (httpError s err, w5)
         | (Panic p, w5) \<Rightarrow> (Crash p, w5)
         | (Ok u, w5) \<Rightarrow>
     (let w6 = UpdateTaskStatusMsg (svcServiceUUID service) ''restarting all containers'' w5
      in case RestartService (cluster s) (ServiceName req) (attrReplicas attr) w6 of
           (Err err, w7) \<Rightarrow> (httpError s err, w7)
         | (Panic p, w7) \<Rightarrow> (Crash p, w7)
         | (Ok u, w7) \<Rightarrow> setServiceInitialized_op s (ServiceName req) w7)))))))"

text \<open>\<^verbatim>\<open>createConsulService\<close>: the control-plane create, the rewrite of the member
  configs, the container-platform create, the set-initialized operation, the response.\<close>

definition validationError :: "ManageHTTPServer \<Rightarrow> error \<Rightarrow> hres" where
  "validationError s err = Reply (errorText (manage s) err) StatusBadRequest None"

definition createConsulService ::
  "ManageHTTPServer \<Rightarrow> CatalogOptions CatalogCreateRequest option \<Rightarrow> world \<Rightarrow> hres \<times> world" where
  "createConsulService s body w =
     (case body of
        None \<Rightarrow> (badRequest, w)
      | Some req \<Rightarrow>
     (case ccService req of
        None \<Rightarrow> (Crash NilDereference, w)
      | Some sc \<Rightarrow>
     if Cluster sc \<noteq> cluster s \<or> Region sc \<noteq> region s then (badRequest, w)
     else
     (case consul_ValidateRequest (consulcatalog s) req of
        Some err \<Rightarrow> (validationError s err, w)
      | None \<Rightarrow>
     (let crReq = consul_GenDefaultCreateServiceRequest (consulcatalog s) (platform s)
                    (region s) (azs s) (cluster s) (ServiceName sc) (ccResource req)
                    (ccOptions req);
          domain = GenDefaultDomainName (dns s) (cluster s);
          vpc = vpcID s
      in case svc_CreateService s crReq domain vpc w of
           (Err err, w1) \<Rightarrow> (httpError s err, w1)
         | (Panic p, w1) \<Rightarrow> (Crash p, w1)
         | (Ok uuid, w1) \<Rightarrow>
     (case updateConsulConfigs s uuid domain w1 of
        (Err err, w2) \<Rightarrow> (httpError s err, w2)
      | (Panic p, w2) \<Rightarrow> (Crash p, w2)
      | (Ok serverips, w2) \<Rightarrow>
     (case createContainerService s crReq uuid w2 of
        (Err err, w3) \<Rightarrow> (httpError s err, w3)
      | (Panic p, w3) \<Rightarrow> (Crash p, w3)
      | (Ok u, w3) \<Rightarrow>
     (case setServiceInitialized_op s (ServiceName sc) w3 of
        (Crash p, w4) \<Rightarrow> (Crash p, w4)
      | (Reply errmsg errcode out, w4) \<Rightarrow>
          if length errmsg \<noteq> 0 then (Reply errmsg errcode None, w4)
          else writeResponse (CatalogCreateConsulResponse serverips) w4)))))))"

text \<open>The other catalog create handlers.  The create of the service in the control
  plane and the container platform followed by the set-initialized operation is the
  common end of the catalogs without an init task.\<close>

definition createAndSetInitialized ::
  "ManageHTTPServer \<Rightarrow> CreateServiceRequest \<Rightarrow> string \<Rightarrow> world \<Rightarrow> hres \<times> world" where
  "createAndSetInitialized s crReq name w =
     (case createCommonService s crReq w of
        (Err err, w1) \<Rightarrow> (httpError s err, w1)
      | (Panic p, w1) \<Rightarrow> (Crash p, w1)
      | (Ok uuid, w1) \<Rightarrow> setServiceInitialized_op s name w1)"

definition createMongoDBService ::
  "ManageHTTPServer \<Rightarrow> CatalogMongoDBOptions CatalogCreateRequest option \<Rightarrow> world
     \<Rightarrow> hres \<times> world" where
  "createMongoDBService s body w =
     (case body of
        None \<Rightarrow> (badRequest, w)
      | Some req \<Rightarrow>
     (case ccService req of
        None \<Rightarrow> (Crash NilDereference, w)
      | Some sc \<Rightarrow>
     if Cluster sc \<noteq> cluster s \<or> Region sc \<noteq> region s then (badRequest, w)
     else
     (case mongodb_ValidateRequest (mongodbcatalog s) req of
        Some err \<Rightarrow> (validationError s err, w)
      | None \<Rightarrow>
     (case mongodb_GenDefaultCreateServiceRequest (mongodbcatalog s) (platform s) (region s)
             (azs s) (cluster s) (ServiceName sc) (ccOptions req) (ccResource req) of
        Inl err \<Rightarrow> (httpError s err, w)
      | Inr crReq \<Rightarrow>
     (case createCommonService s crReq w of
        (Err err, w1) \<Rightarrow> (httpError s err, w1)
      | (Panic p, w1) \<Rightarrow> (Crash p, w1)
      | (Ok uuid, w1) \<Rightarrow>
     (case ccOptions req of
        None \<Rightarrow> (Crash NilDereference, w1)
      | Some opt \<Rightarrow>
     (case crService crReq of
        None \<Rightarrow> (Crash NilDereference, w1)
      | Some csc \<Rightarrow>
          (Reply [] StatusOK None,
           addMongoDBInitTask s csc uuid (mgReplicas opt) (mgAdmin opt)
             (mgAdminPasswd opt) w1))))))))"

definition createPGService ::
  "ManageHTTPServer \<Rightarrow> CatalogOptions CatalogCreateRequest option \<Rightarrow> world \<Rightarrow> hres \<times> world" where
  "createPGService s body w =
     (case body of
        None \<Rightarrow> (badRequest, w)
      | Some req \<Rightarrow>
     (case ccService req of
        None \<Rightarrow> (Crash NilDereference, w)
      | Some sc \<Rightarrow>
     if Cluster sc \<noteq> cluster s \<or> Region sc \<noteq> region s then (badRequest, w)
     else
     (case pg_ValidateRequest (catalogs s) req of
        Some err \<Rightarrow> (validationError s err, w)
      | None \<Rightarrow>
          createAndSetInitialized s
            (pg_GenDefaultCreateServiceRequest (catalogs s) (platform s) (region s) (azs s)
               (cluster s) (ServiceName sc) (ccResource req) (ccOptions req))
            (ServiceName sc) w)))"

definition createZkService ::
  "ManageHTTPServer \<Rightarrow> CatalogOptions CatalogCreateRequest option \<Rightarrow> world \<Rightarrow> hres \<times> world" where
  "createZkService s body w =
     (case body of
        None \<Rightarrow> (badRequest, w)
      | Some req \<Rightarrow>
     (case ccService req of
        None \<Rightarrow> (Crash NilDereference, w)
      | Some sc \<Rightarrow>
     if Cluster sc \<noteq> cluster s \<or> Region sc \<noteq> region s then (badRequest, w)
     else
       createAndSetInitialized s
         (zk_GenDefaultCreateServiceRequest (catalogs s) (platform s) (region s) (azs s)
            (cluster s) (ServiceName sc) (ccOptions req) (ccResource req))
         (ServiceName sc) w))"

definition createKafkaService ::
  "ManageHTTPServer \<Rightarrow> CatalogKafkaOptions CatalogCreateRequest option \<Rightarrow> world
     \<Rightarrow> hres \<times> world" where
  "createKafkaService s body w =
     (case body of
        None \<Rightarrow> (badRequest, w)
      | Some req \<Rightarrow>
     (case ccService req of
        None \<Rightarrow> (Crash NilDereference, w)
      | Some sc \<Rightarrow>
     if Cluster sc \<noteq> cluster s \<or> Region sc \<noteq> region s then (badRequest, w)
     else
     (case ccOptions req of
        None \<Rightarrow> (Crash NilDereference, w)
      | Some opt \<Rightarrow>
     (case GetService (cluster s) (ZkServiceName opt) w of
        (Err err, w1) \<Rightarrow> (httpError s err, w1)
      | (Panic p, w1) \<Rightarrow> (Crash p, w1)
      | (Ok zksvc, w1) \<Rightarrow>
     (case GetServiceAttr (svcServiceUUID zksvc) w1 of
        (Err err, w2) \<Rightarrow> (httpError s err, w2)
      | (Panic p, w2) \<Rightarrow> (Crash p, w2)
      | (Ok zkattr, w2) \<Rightarrow>
          createAndSetInitialized s
            (kafka_GenDefaultCreateServiceRequest (catalogs s) (platform s) (region s) (azs s)
               (cluster s) (ServiceName sc) (ccOptions req) (ccResource req) zkattr)
            (ServiceName sc) w2)))))"

definition createRedisService ::
  "ManageHTTPServer \<Rightarrow> CatalogRedisOptions CatalogCreateRequest option \<Rightarrow> world
     \<Rightarrow> hres \<times> world" where
  "createRedisService s body w =
     (case body of
        None \<Rightarrow> (badRequest, w)
      | Some req \<Rightarrow>
     (case ccService req of
        None \<Rightarrow> (Crash NilDereference, w)
      | Some sc \<Rightarrow>
     if Cluster sc \<noteq> cluster s \<or> Region sc \<noteq> region s then (badRequest, w)
     else
     (case redis_ValidateRequest (rediscatalog s) req of
        Some err \<Rightarrow> (validationError s err, w)
      | None \<Rightarrow>
     (let crReq = redis_GenDefaultCreateServiceRequest (rediscatalog s) (platform s)
                    (region s) (azs s) (cluster s) (ServiceName sc) (ccResource req)
                    (ccOptions req)
      in case createCommonService s crReq w of
           (Err err, w1) \<Rightarrow> (httpError s err, w1)
         | (Panic p, w1) \<Rightarrow> (Crash p, w1)
         | (Ok uuid, w1) \<Rightarrow>
     (case ccOptions req of
        None \<Rightarrow> (Crash NilDereference, w1)
      | Some opt \<Rightarrow>
     if IsClusterMode (rediscatalog s) (rdShards opt)
     then
       (case crService crReq of
          None \<Rightarrow> (Crash NilDereference, w1)
        | Some csc \<Rightarrow>
            (case addRedisInitTask s csc uuid (rdShards opt) (rdReplicasPerShard opt) w1 of
               (Err err, w2) \<Rightarrow> (httpError s err, w2)
             | (Panic p, w2) \<Rightarrow> (Crash p, w2)
             | (Ok u, w2) \<Rightarrow> (Reply [] StatusOK None, w2)))
     else setServiceInitialized_op s (ServiceName sc) w1)))))"

definition createCouchDBService ::
  "ManageHTTPServer \<Rightarrow> CatalogCouchDBOptions CatalogCreateRequest option \<Rightarrow> world
     \<Rightarrow> hres \<times> world" where
  "createCouchDBService s body w =
     (case body of
        None \<Rightarrow> (badRequest, w)
      | Some req \<Rightarrow>
     (case ccService req of
        None \<Rightarrow> (Crash NilDereference, w)
      | Some sc \<Rightarrow>
     if Cluster sc \<noteq> cluster s \<or> Region sc \<noteq> region s then (badRequest, w)
     else
     (case couchdb_ValidateRequest (couchdbcatalog s) req of
        Some err \<Rightarrow> (validationError s err, w)
      | None \<Rightarrow>
     (let crReq = couchdb_GenDefaultCreateServiceRequest (couchdbcatalog s) (platform s)
                    (region s) (azs s) (cluster s) (ServiceName sc) (ccResource req)
                    (ccOptions req)
      in case createCommonService s crReq w of
           (Err err, w1) \<Rightarrow> (httpError s err, w1)
         | (Panic p, w1) \<Rightarrow> (Crash p, w1)
         | (Ok uuid, w1) \<Rightarrow>
     (case ccOptions req of
        None \<Rightarrow> (Crash NilDereference, w1)
      | Some opt \<Rightarrow>
     (case crService crReq of
        None \<Rightarrow> (Crash NilDereference, w1)
      | Some csc \<Rightarrow>
          (Reply [] StatusOK None,
           addCouchDBInitTask s csc uuid (cdReplicas opt) (cdAdmin opt)
             (cdAdminPasswd opt) w1)))))))"

definition createElasticSearchService ::
  "ManageHTTPServer \<Rightarrow> CatalogOptions CatalogCreateRequest option \<Rightarrow> world \<Rightarrow> hres \<times> world" where
  "createElasticSearchService s body w =
     (case body of
        None \<Rightarrow> (badRequest, w)
      | Some req \<Rightarrow>
     (case ccService req of
        None \<Rightarrow> (Crash NilDereference, w)
      | Some sc \<Rightarrow>
     if Cluster sc \<noteq> cluster s \<or> Region sc \<noteq> region s then (badRequest, w)
     else
     (case es_ValidateRequest (catalogs s) req of
        Some err \<Rightarrow> (validationError s err, w)
      | None \<Rightarrow>
          createAndSetInitialized s
            (es_GenDefaultCreateServiceRequest (catalogs s) (platform s) (region s) (azs s)
               (cluster s) (ServiceName sc) (ccResource req) (ccOptions req))
            (ServiceName sc) w)))"

definition createKibanaService ::
  "ManageHTTPServer \<Rightarrow> CatalogKibanaOptions CatalogCreateRequest option \<Rightarrow> world
     \<Rightarrow> hres \<times> world" where
  "createKibanaService s body w =
     (case body of
        None \<Rightarrow> (badRequest, w)
      | Some req \<Rightarrow>
     (case ccService req of
        None \<Rightarrow> (Crash NilDereference, w)
      | Some sc \<Rightarrow>
     if Cluster sc \<noteq> cluster s \<or> Region sc \<noteq> region s then (badRequest, w)
     else
     (case kibana_ValidateRequest (catalogs s) req of
        Some err \<Rightarrow> (validationError s err, w)
      | None \<Rightarrow>
     (case ccOptions req of
        None \<Rightarrow> (Crash NilDereference, w)
      | Some opt \<Rightarrow>
     (case GetService (cluster s) (ESServiceName opt) w of
        (Err err, w1) \<Rightarrow> (httpError s err, w1)
      | (Panic p, w1) \<Rightarrow> (Crash p, w1)
      | (Ok service, w1) \<Rightarrow>
     (case GetServiceAttr (svcServiceUUID service) w1 of
        (Err err, w2) \<Rightarrow> (httpError s err, w2)
      | (Panic p, w2) \<Rightarrow> (Crash p, w2)
      | (Ok attr, w2) \<Rightarrow>
          (let esNode = GetFirstMemberHost (catalogs s) (attrDomainName attr)
                          (attrServiceName attr)
           in createAndSetInitialized s
                (kibana_GenDefaultCreateServiceRequest (catalogs s) (platform s) (region s)
                   (azs s) (cluster s) (ServiceName sc) (ccResource req) (ccOptions req)
                   esNode)
                (ServiceName sc) w2)))))))"

definition createLogstashService ::
  "ManageHTTPServer \<Rightarrow> CatalogOptions CatalogCreateRequest option \<Rightarrow> world \<Rightarrow> hres \<times> world" where
  "createLogstashService s body w =
     (case body of
        None \<Rightarrow> (badRequest, w)
      | Some req \<Rightarrow>
     (case ccService req of
        None \<Rightarrow> (Crash NilDereference, w)
      | Some sc \<Rightarrow>
     if Cluster sc \<noteq> cluster s \<or> Region sc \<noteq> region s then (badRequest, w)
     else
     (case logstash_ValidateRequest (catalogs s) req of
        Some err \<Rightarrow> (validationError s err, w)
      | None \<Rightarrow>
          createAndSetInitialized s
            (logstash_GenDefaultCreateServiceRequest (catalogs s) (platform s) (region s) (azs s)
               (cluster s) (ServiceName sc) (ccResource req) (ccOptions req))
            (ServiceName sc) w)))"

definition createCasService ::
  "ManageHTTPServer \<Rightarrow> CatalogOptions CatalogCreateRequest option \<Rightarrow> world \<Rightarrow> hres \<times> world" where
  "createCasService s body w =
     (case body of
        None \<Rightarrow> (badRequest, w)
      | Some req \<Rightarrow>
     (case ccService req of
        None \<Rightarrow> (Crash NilDereference, w)
      | Some sc \<Rightarrow>
     if Cluster sc \<noteq> cluster s \<or> Region sc \<noteq> region s then (badRequest, w)
     else
     (case cas_ValidateRequest (cascatalog s) req of
        Some err \<Rightarrow> (validationError s err, w)
      | None \<Rightarrow>
     (let crReq = cas_GenDefaultCreateServiceRequest (cascatalog s) (platform s) (region s)
                    (azs s) (cluster s) (ServiceName sc) (ccOptions req) (ccResource req)
      in case createCommonService s crReq w of
           (Err err, w1) \<Rightarrow> (httpError s err, w1)
         | (Panic p, w1) \<Rightarrow> (Crash p, w1)
         | (Ok uuid, w1) \<Rightarrow>
     (case crService crReq of
        None \<Rightarrow> (Crash NilDereference, w1)
      | Some csc \<Rightarrow> (Reply [] StatusOK None, addCasInitTask s csc uuid w1))))))"

section \<open>The handlers of \<^verbatim>\<open>server.go\<close>\<close>

text \<open>\<^verbatim>\<open>setServiceInitialized\<close>, the handler of \<^verbatim>\<open>?SetServiceInitialized\<close>.\<close>

definition setServiceInitialized ::
  "ManageHTTPServer \<Rightarrow> ServiceCommonRequest option \<Rightarrow> world \<Rightarrow> hres \<times> world" where
  "setServiceInitialized s body w =
     (case body of
        None \<Rightarrow> (badRequest, w)
      | Some req \<Rightarrow>
          if Cluster req \<noteq> cluster s \<or> Region req \<noteq> region s then (badRequest, w)
          else
            (case svc_SetServiceInitialized (cluster s) (ServiceName req) w of
               (Err err, w1) \<Rightarrow> (httpError s err, w1)
             | (Panic p, w1) \<Rightarrow> (Crash p, w1)
             | (Ok u, w1) \<Rightarrow> (Reply [] StatusOK (Some HeaderOnly), w1)))"

text \<open>\<^verbatim>\<open>createService\<close>.\<close>

definition createService ::
  "ManageHTTPServer \<Rightarrow> CreateServiceRequest option \<Rightarrow> string \<Rightarrow> world \<Rightarrow> hres \<times> world" where
  "createService s body servicename w =
     (case body of
        None \<Rightarrow> (badRequest, w)
      | Some req \<Rightarrow>
     (case crService req of
        None \<Rightarrow> (Crash NilDereference, w)
      | Some sc \<Rightarrow>
     if Cluster sc \<noteq> cluster s \<or> Region sc \<noteq> region s \<or> ServiceName sc \<noteq> servicename
     then (badRequest, w)
     else
     (let domain = GenDefaultDomainName (dns s) (cluster s);
          vpc = vpcID s
      in case svc_CreateService s req domain vpc w of
           (Err err, w1) \<Rightarrow> (httpError s err, w1)
         | (Panic p, w1) \<Rightarrow> (Crash p, w1)
         | (Ok uuid, w1) \<Rightarrow>
     (case IsServiceExist (Cluster sc) (ServiceName sc) w1 of
        (Err err, w2) \<Rightarrow> (httpError s err, w2)
      | (Panic p, w2) \<Rightarrow> (Crash p, w2)
      | (Ok exist, w2) \<Rightarrow>
          if \<not> exist
          then
            (case containersvc_CreateService (genCreateServiceOptions req sc uuid) w2 of
               (Err err, w3) \<Rightarrow> (httpError s err, w3)
             | (Panic p, w3) \<Rightarrow> (Crash p, w3)
             | (Ok u, w3) \<Rightarrow> (Reply [] StatusOK None, w3))
          else (Reply [] StatusOK None, w2)))))"

text \<open>\<^verbatim>\<open>deleteService\<close>.\<close>

definition deleteService ::
  "ManageHTTPServer \<Rightarrow> ServiceCommonRequest option \<Rightarrow> string \<Rightarrow> world \<Rightarrow> hres \<times> world" where
  "deleteService s body servicename w =
     (case body of
        None \<Rightarrow> (badRequest, w)
      | Some req \<Rightarrow>
          if Cluster req \<noteq> cluster s \<or> Region req \<noteq> region s
             \<or> ServiceName req \<noteq> servicename
          then (badRequest, w)
          else
            (case DeleteService (cluster s) servicename w of
               (Err err, w1) \<Rightarrow> (httpError s err, w1)
             | (Panic p, w1) \<Rightarrow> (Crash p, w1)
             | (Ok u, w1) \<Rightarrow> (Reply [] StatusOK (Some HeaderOnly), w1)))"

text \<open>\<^verbatim>\<open>listServices\<close>: the attributes of the services whose name has the prefix.\<close>

fun listServiceAttrs ::
  "string \<Rightarrow> Service list \<Rightarrow> ServiceAttr list \<Rightarrow> ServiceAttr list action" where
  "listServiceAttrs pre [] serviceAttrs w = (Ok serviceAttrs, w)"
| "listServiceAttrs pre (service # rest) serviceAttrs w =
     (if length pre = 0 \<or> take (length pre) (svcServiceName service) = pre
      then
        (case GetServiceAttr (svcServiceUUID service) w of
           (Err err, w1) \<Rightarrow> (Err err, w1)
         | (Panic p, w1) \<Rightarrow> (Panic p, w1)
         | (Ok attr, w1) \<Rightarrow> listServiceAttrs pre rest (serviceAttrs @ [attr]) w1)
      else listServiceAttrs pre rest serviceAttrs w)"

definition listServices ::
  "ManageHTTPServer \<Rightarrow> ListServiceRequest option \<Rightarrow> world \<Rightarrow> hres \<times> world" where
  "listServices s body w =
     (case body of
        None \<Rightarrow> (badRequest, w)
      | Some req \<Rightarrow>
          if lsCluster req \<noteq> cluster s \<or> lsRegion req \<noteq> region s then (badRequest, w)
          else
            (case ListServices (cluster s) w of
               (Err err, w1) \<Rightarrow> (httpError s err, w1)
             | (Panic p, w1) \<Rightarrow> (Crash p, w1)
             | (Ok svcs, w1) \<Rightarrow>
                 (case listServiceAttrs (lsPrefix req) svcs [] w1 of
                    (Err err, w2) \<Rightarrow> (httpError s err, w2)
                  | (Panic p, w2) \<Rightarrow> (Crash p, w2)
                  | (Ok serviceAttrs, w2) \<Rightarrow>
                      writeResponse (ListServiceResponse serviceAttrs) w2)))"

text \<open>\<^verbatim>\<open>listVolumes\<close>.\<close>

definition listVolumes ::
  "ManageHTTPServer \<Rightarrow> ListVolumeRequest option \<Rightarrow> world \<Rightarrow> hres \<times> world" where
  "listVolumes s body w =
     (case body of
        None \<Rightarrow> (badRequest, w)
      | Some req \<Rightarrow>
     (case lvService req of
        None \<Rightarrow> (Crash NilDereference, w)
      | Some sc \<Rightarrow>
     if Cluster sc \<noteq> cluster s \<or> Region sc \<noteq> region s then (badRequest, w)
     else
     (case GetService (cluster s) (ServiceName sc) w of
        (Err err, w1) \<Rightarrow> (httpError s err, w1)
      | (Panic p, w1) \<Rightarrow> (Crash p, w1)
      | (Ok service, w1) \<Rightarrow>
     (case ListVolumes (svcServiceUUID service) w1 of
        (Err err, w2) \<Rightarrow> (httpError s err, w2)
      | (Panic p, w2) \<Rightarrow> (Crash p, w2)
      | (Ok vols, w2) \<Rightarrow> writeResponse (ListVolumeResponse vols) w2))))"

text \<open>\<^verbatim>\<open>getServiceAttr\<close>.\<close>

definition getServiceAttr ::
  "ManageHTTPServer \<Rightarrow> ServiceCommonRequest option \<Rightarrow> string \<Rightarrow> world \<Rightarrow> hres \<times> world" where
  "getServiceAttr s body servicename w =
     (case body of
        None \<Rightarrow> (badRequest, w)
      | Some req \<Rightarrow>
     if Cluster req \<noteq> cluster s \<or> Region req \<noteq> region s \<or> ServiceName req \<noteq> servicename
     then (badRequest, w)
     else
     (case GetService (cluster s) servicename w of
        (Err err, w1) \<Rightarrow> (httpError s err, w1)
      | (Panic p, w1) \<Rightarrow> (Crash p, w1)
      | (Ok service, w1) \<Rightarrow>
     (case GetServiceAttr (svcServiceUUID service) w1 of
        (Err err, w2) \<Rightarrow> (httpError s err, w2)
      | (Panic p, w2) \<Rightarrow> (Crash p, w2)
      | (Ok attr, w2) \<Rightarrow> writeResponse (GetServiceAttributesResponse attr) w2)))"

text \<open>\<^verbatim>\<open>getServiceStatus\<close>.\<close>

definition getServiceStatus ::
  "ManageHTTPServer \<Rightarrow> ServiceCommonRequest option \<Rightarrow> world \<Rightarrow> hres \<times> world" where
  "getServiceStatus s body w =
     (case body of
        None \<Rightarrow> (badRequest, w)
      | Some req \<Rightarrow>
     if Cluster req \<noteq> cluster s \<or> Region req \<noteq> region s then (badRequest, w)
     else
     (case GetServiceStatus (Cluster req) (ServiceName req) w of
        (Err err, w1) \<Rightarrow> (httpError s err, w1)
      | (Panic p, w1) \<Rightarrow> (Crash p, w1)
      | (Ok (runningCount, desiredCount), w1) \<Rightarrow>
          writeResponse (ServiceStatusResponse runningCount desiredCount) w1))"

text \<open>\<^verbatim>\<open>runTask\<close>.\<close>

definition runTask ::
  "ManageHTTPServer \<Rightarrow> RunTaskRequest option \<Rightarrow> world \<Rightarrow> hres \<times> world" where
  "runTask s body w =
     (case body of
        None \<Rightarrow> (badRequest, w)
      | Some req \<Rightarrow>
     (case rtService req of
        None \<Rightarrow> (Crash NilDereference, w)
      | Some sc \<Rightarrow>
     if Cluster sc \<noteq> cluster s \<or> Region sc \<noteq> region s then (badRequest, w)
     else
     (case GetService (Cluster sc) (ServiceName sc) w of
        (Err err, w1) \<Rightarrow> (httpError s err, w1)
      | (Panic p, w1) \<Rightarrow> (Crash p, w1)
      | (Ok svc, w1) \<Rightarrow>
     (let topts = \<lparr>rtoCommon = \<lparr>coCluster = Cluster sc, coServiceName = ServiceName sc,
                                coServiceUUID = svcServiceUUID svc,
                                coContainerImage = rtContainerImage req,
                                coResource = rtResource req\<rparr>,
                   rtoTaskType = rtTaskType req, rtoEnvkvs = rtEnvkvs req\<rparr>
      in case RunTask topts w1 of
           (Err err, w2) \<Rightarrow> (httpError s err, w2)
         | (Panic p, w2) \<Rightarrow> (Crash p, w2)
         | (Ok taskID, w2) \<Rightarrow> writeResponse (RunTaskResponse taskID) w2))))"

text \<open>\<^verbatim>\<open>getTaskStatus\<close> and \<^verbatim>\<open>deleteTask\<close>.\<close>

definition getTaskStatus ::
  "ManageHTTPServer \<Rightarrow> GetTaskStatusRequest option \<Rightarrow> world \<Rightarrow> hres \<times> world" where
  "getTaskStatus s body w =
     (case body of
        None \<Rightarrow> (badRequest, w)
      | Some req \<Rightarrow>
     (case gtService req of
        None \<Rightarrow> (Crash NilDereference, w)
      | Some sc \<Rightarrow>
     if Cluster sc \<noteq> cluster s \<or> Region sc \<noteq> region s \<or> length (gtTaskID req) = 0
     then (badRequest, w)
     else
     (case GetTaskStatus (cluster s) (gtTaskID req) w of
        (Err err, w1) \<Rightarrow> (httpError s err, w1)
      | (Panic p, w1) \<Rightarrow> (Crash p, w1)
      | (Ok taskStatus, w1) \<Rightarrow> writeResponse (GetTaskStatusResponse taskStatus) w1)))"

definition deleteTask ::
  "ManageHTTPServer \<Rightarrow> DeleteTaskRequest option \<Rightarrow> world \<Rightarrow> hres \<times> world" where
  "deleteTask s body w =
     (case body of
        None \<Rightarrow> (badRequest, w)
      | Some req \<Rightarrow>
     (case dtService req of
        None \<Rightarrow> (Crash NilDereference, w)
      | Some sc \<Rightarrow>
     if Cluster sc \<noteq> cluster s \<or> Region sc \<noteq> region s \<or> length (ServiceName sc) = 0
        \<or> length (dtTaskType req) = 0
     then (badRequest, w)
     else
     (case DeleteTask (cluster s) (ServiceName sc) (dtTaskType req) w of
        (Err err, w1) \<Rightarrow> (httpError s err, w1)
      | (Panic p, w1) \<Rightarrow> (Crash p, w1)
      | (Ok u, w1) \<Rightarrow> (Reply [] StatusOK None, w1))))"

section \<open>The log of external calls\<close>

text \<open>The events a run adds to the log, and the kinds of calls in it: the calls that
  write a config file or a member, the restart of the containers, and the
  set-initialized call.\<close>

definition runEvents :: "world \<Rightarrow> world \<Rightarrow> event list" where
  "runEvents w w' = drop (length (trace w)) (trace w')"

fun isConfigWrite :: "call \<Rightarrow> bool" where
  "isConfigWrite (DbCreateConfigFile f) = True"
| "isConfigWrite (DbUpdateServiceMember a b) = True"
| "isConfigWrite c = False"

fun isCreateConfigFile :: "call \<Rightarrow> bool" where
  "isCreateConfigFile (DbCreateConfigFile f) = True"
| "isCreateConfigFile c = False"

fun isUpdateServiceMember :: "call \<Rightarrow> bool" where
  "isUpdateServiceMember (DbUpdateServiceMember a b) = True"
| "isUpdateServiceMember c = False"

fun isDeleteConfigFile :: "call \<Rightarrow> bool" where
  "isDeleteConfigFile (DbDeleteConfigFile u f) = True"
| "isDeleteConfigFile c = False"

fun isRestartService :: "call \<Rightarrow> bool" where
  "isRestartService (CsRestartService cl name replicas) = True"
| "isRestartService c = False"

fun isSetServiceInitialized :: "call \<Rightarrow> bool" where
  "isSetServiceInitialized (SvcSetServiceInitialized cl name) = True"
| "isSetServiceInitialized c = False"

fun isConfigCall :: "call \<Rightarrow> bool" where
  "isConfigCall (DbGetConfigFile u f) = True"
| "isConfigCall (DbCreateConfigFile f) = True"
| "isConfigCall (DbUpdateServiceMember a b) = True"
| "isConfigCall (DbDeleteConfigFile u f) = True"
| "isConfigCall c = False"

text \<open>A run from \<open>w\<close> to \<open>w'\<close> that only reads and writes config files and members:
  its events are config calls, the service records and attributes are as before, and,
  when the run succeeded, every write of a config file or a member in it succeeded.\<close>

definition configRun :: "world \<Rightarrow> bool \<Rightarrow> world \<Rightarrow> bool" where
  "configRun w ok w' \<longleftrightarrow>
     trace w' = trace w @ runEvents w w'
     \<and> list_all (isConfigCall \<circ> fst) (runEvents w w')
     \<and> (ok \<longrightarrow> list_all (\<lambda>e. isConfigWrite (fst e) \<longrightarrow> snd e) (runEvents w w'))
     \<and> attrs (dbIns w') = attrs (dbIns w)
     \<and> services (dbIns w') = services (dbIns w)
     \<and> containersvcIns w' = containersvcIns w
     \<and> fault w' = fault w"

text \<open>The phases of a mutator run (spec 4.6): the lookups and the member updates,
  then the restart, then the set-initialized call.\<close>

fun mutatorPhase :: "call \<Rightarrow> nat" where
  "mutatorPhase (CsRestartService cl name replicas) = 1"
| "mutatorPhase (SvcSetServiceInitialized cl name) = 2"
| "mutatorPhase c = 0"

text \<open>The phases of the Consul create: the control-plane create, the rewrite of the
  member configs, the container-platform create, the set-initialized call.\<close>

fun consulPhase :: "call \<Rightarrow> nat" where
  "consulPhase (SvcCreateService req domain vpc) = 0"
| "consulPhase (CsIsServiceExist cl name) = 2"
| "consulPhase (CsCreateService copts) = 2"
| "consulPhase (SvcSetServiceInitialized cl name) = 3"
| "consulPhase c = 1"

text \<open>An environment that fails exactly the calls of a kind.\<close>

definition failingOn :: "(call \<Rightarrow> bool) \<Rightarrow> event list \<Rightarrow> call \<Rightarrow> error option" where
  "failingOn kind history c = (if kind c then Some ErrDBInternal else None)"





text \<open>A request whose cluster or region is not the server's own.\<close>

definition otherClusterOrRegion :: "ManageHTTPServer \<Rightarrow> string \<Rightarrow> string \<Rightarrow> bool" where
  "otherClusterOrRegion s cl rg \<longleftrightarrow> cl \<noteq> cluster s \<or> rg \<noteq> region s"

text \<open>The rewrite of one Consul member in a list of events: the member was updated, and
  a config file was created that is some file with the next version's id and the content
  replaced through the map of member IPs.\<close>

definition consulMemberRewritten ::
  "ManageHTTPServer \<Rightarrow> (string \<rightharpoonup> string) \<Rightarrow> event list \<Rightarrow> ServiceMember \<Rightarrow> bool" where
  "consulMemberRewritten s memberips evs m \<longleftrightarrow>
     (\<exists>oldfile ver m'.
        (DbCreateConfigFile (UpdateConfigFile s oldfile
            (GenMemberConfigFileID (utils s) (MemberName m) (cfFileName oldfile) (ver + 1))
            (ReplaceMemberName (consulcatalog s) (cfContent oldfile) memberips)), True) \<in> set evs
        \<and> (DbUpdateServiceMember m m', True) \<in> set evs)"

text \<open>The service of a name is ACTIVE in the metadata database.\<close>

definition serviceIsActive :: "string \<Rightarrow> string \<Rightarrow> DB \<Rightarrow> bool" where
  "serviceIsActive cl name db \<longleftrightarrow>
     (case find (\<lambda>x. svcClusterName x = cl \<and> svcServiceName x = name) (services db) of
        None \<Rightarrow> False
      | Some svc \<Rightarrow>
          (case attrs db (svcServiceUUID svc) of
             None \<Rightarrow> False
           | Some attr \<Rightarrow> attrServiceStatus attr = ServiceStatusActive))"

section \<open>A small deployment\<close>

text \<open>
  A concrete server and world on which the properties below are instantiated: cluster
  \<open>c1\<close> in region \<open>r\<close>, one service \<open>svc1\<close> with one member \<open>m0\<close>.  The file id
  of a config file starts with its version digit; the MD5 of a content is tagged text;
  a content needs no auth rewrite once it is \<open>auth\<close>.
\<close>

definition exVersionChar :: "int64 \<Rightarrow> char" where
  "exVersionChar v =
     (if v = 0 then CHR ''0'' else if v = 1 then CHR ''1''
      else if v = 2 then CHR ''2'' else CHR ''n'')"

definition exUtils :: utils_pkg where
  "exUtils =
     \<lparr>GenMD5 = (\<lambda>content. ''md5:'' @ content),
      GenMemberConfigFileID = (\<lambda>member file v. exVersionChar v # ''-'' @ member @ ''-'' @ file),
      GetConfigFileVersion = (\<lambda>fileID.
         case fileID of
           [] \<Rightarrow> Inl (ErrOther ''empty file id'')
         | c # rest \<Rightarrow>
             if c = CHR ''0'' then Inr 0 else if c = CHR ''1'' then Inr 1
             else if c = CHR ''2'' then Inr 2 else Inl (ErrOther ''bad version''))\<rparr>"

definition exRequest :: "ServiceCommonRequest" where
  "exRequest = \<lparr>Region = ''r'', Cluster = ''c1'', ServiceName = ''svc1''\<rparr>"

definition exCreateRequest :: "CreateServiceRequest" where
  "exCreateRequest =
     \<lparr>crService = Some exRequest, crResource = None, crContainerImage = ''image'',
      crReplicas = 1, crContainerPath = ''/data'', crPort = 80\<rparr>"

definition exTaskOptions :: RunTaskOptions where
  "exTaskOptions =
     \<lparr>rtoCommon = \<lparr>coCluster = ''c1'', coServiceName = ''svc1'', coServiceUUID = ''u1'',
                   coContainerImage = ''init-image'', coResource = None\<rparr>,
      rtoTaskType = ''init'', rtoEnvkvs = []\<rparr>"

definition exMongoDB :: mongodbcatalog_pkg where
  "exMongoDB =
     \<lparr>IsMongoDBConfFile = (\<lambda>f. f = ''mongod.conf''),
      IsAuthEnabled = (\<lambda>content. content = ''auth''),
      EnableMongoDBAuth = (\<lambda>content. ''auth''),
      mongodb_ValidateRequest = (\<lambda>req. None),
      mongodb_GenDefaultCreateServiceRequest = (\<lambda>pf rg zs cl name opt res. Inr exCreateRequest),
      mongodb_GenDefaultInitTaskRequest =
        (\<lambda>req logCfg uuid replicas url admin passwd. exTaskOptions)\<rparr>"

definition exRedis :: rediscatalog_pkg where
  "exRedis =
     \<lparr>IsRedisConfFile = (\<lambda>f. f = ''redis.conf''),
      IsClusterInfoFile = (\<lambda>f. f = ''cluster.info''),
      NeedToEnableAuth = (\<lambda>content. content = ''plain''),
      NeedToSetClusterAnnounceIP = (\<lambda>content. content = ''plain'' \<or> content = ''auth''),
      EnableRedisAuth = (\<lambda>content. ''auth''),
      SetClusterAnnounceIP = (\<lambda>content ip. content @ ''+'' @ ip),
      CreateClusterInfoFile = (\<lambda>nodeIds.
         \<lparr>rcfFileName = ''cluster.info'', rcfFileMode = 0, rcfContent = concat nodeIds\<rparr>),
      IsClusterMode = (\<lambda>shards. shards \<noteq> 1),
      redis_ValidateRequest = (\<lambda>req. None),
      redis_GenDefaultCreateServiceRequest = (\<lambda>pf rg zs cl name res opt. exCreateRequest),
      redis_GenDefaultInitTaskRequest =
        (\<lambda>req logCfg shards replicasPerShard uuid url. Inr exTaskOptions)\<rparr>"

definition exConsul :: consulcatalog_pkg where
  "exConsul =
     \<lparr>IsBasicConfigFile = (\<lambda>f. f = ''basic_config.json''),
      ReplaceMemberName = (\<lambda>content memberips.
         case memberips content of Some ip \<Rightarrow> ip | None \<Rightarrow> content),
      consul_ValidateRequest = (\<lambda>req. None),
      consul_GenDefaultCreateServiceRequest = (\<lambda>pf rg zs cl name res opt. exCreateRequest)\<rparr>"

definition exCassandra :: cascatalog_pkg where
  "exCassandra =
     \<lparr>cas_ValidateRequest = (\<lambda>req. None),
      cas_GenDefaultCreateServiceRequest = (\<lambda>pf rg zs cl name opt res. exCreateRequest),
      cas_GenDefaultInitTaskRequest = (\<lambda>req logCfg uuid url. exTaskOptions)\<rparr>"

definition exCouchDB :: couchdbcatalog_pkg where
  "exCouchDB =
     \<lparr>couchdb_ValidateRequest = (\<lambda>req. None),
      couchdb_GenDefaultCreateServiceRequest = (\<lambda>pf rg zs cl name res opt. exCreateRequest),
      couchdb_GenDefaultInitTaskRequest =
        (\<lambda>req logCfg zs uuid replicas url admin passwd. exTaskOptions)\<rparr>"

definition exCatalogs :: createonly_pkgs where
  "exCatalogs =
     \<lparr>pg_ValidateRequest = (\<lambda>req. None),
      pg_GenDefaultCreateServiceRequest = (\<lambda>pf rg zs cl name res opt. exCreateRequest),
      zk_GenDefaultCreateServiceRequest = (\<lambda>pf rg zs cl name opt res. exCreateRequest),
      kafka_GenDefaultCreateServiceRequest = (\<lambda>pf rg zs cl name opt res zk. exCreateRequest),
      es_ValidateRequest = (\<lambda>req. None),
      es_GenDefaultCreateServiceRequest = (\<lambda>pf rg zs cl name res opt. exCreateRequest),
      GetFirstMemberHost = (\<lambda>domain name. name @ ''-0.'' @ domain),
      kibana_ValidateRequest = (\<lambda>req. None),
      kibana_GenDefaultCreateServiceRequest = (\<lambda>pf rg zs cl name res opt es. exCreateRequest),
      logstash_ValidateRequest = (\<lambda>req. None),
      logstash_GenDefaultCreateServiceRequest = (\<lambda>pf rg zs cl name res opt. exCreateRequest)\<rparr>"

definition exManage :: manage_pkg where
  "exManage =
     \<lparr>ConvertToHTTPError = (\<lambda>err.
         if err = ErrDBRecordNotFound then (''not found'', 404) else (''internal error'', 500)),
      errorText = (\<lambda>err. ''invalid request''),
      TaskTypeInit = ''init'',
      CreateLogConfigForStream = (\<lambda>cl name uuid taskType. LogConfig name),
      CreateService = (\<lambda>req domain vpc db. Inr (''u1'', db))\<rparr>"

definition exServer :: ManageHTTPServer where
  "exServer =
     \<lparr>region = ''r'', cluster = ''c1'', platform = ''ecs'', azs = [''az1''],
      manageurl = ''manage.c1.com'', vpcID = ''vpc1'',
      utils = exUtils,
      dns = \<lparr>GenDefaultDomainName = (\<lambda>cl. cl @ ''.com''),
             GenDNSName = (\<lambda>member domain. member @ ''.'' @ domain)\<rparr>,
      manage = exManage,
      mongodbcatalog = exMongoDB, rediscatalog = exRedis, consulcatalog = exConsul,
      cascatalog = exCassandra, couchdbcatalog = exCouchDB, catalogs = exCatalogs\<rparr>"

text \<open>The member \<open>m0\<close> with one config slot of a given file name, at version 0, and the
  config file of that slot with a given content.\<close>

definition exMember :: "string \<Rightarrow> string \<Rightarrow> ServiceMember" where
  "exMember file content =
     \<lparr>ServiceUUID = ''u1'', MemberName = ''m0'', StaticIP = ''10.0.0.1'',
      Configs = [\<lparr>FileName = file, FileID = ''0-m0-'' @ file,
                  FileMD5 = ''md5:'' @ content\<rparr>]\<rparr>"

definition exConfigFile :: "string \<Rightarrow> string \<Rightarrow> ConfigFile" where
  "exConfigFile file content =
     \<lparr>cfServiceUUID = ''u1'', cfFileID = ''0-m0-'' @ file, cfFileMD5 = ''md5:'' @ content,
      cfFileName = file, cfFileMode = 0, cfContent = content\<rparr>"

text \<open>The world with that member and file, the service in a given status, no init
  task, no container service, an empty log, and a given choice of failing calls.\<close>

definition exWorld ::
  "string \<Rightarrow> string \<Rightarrow> ServiceStatus \<Rightarrow> (event list \<Rightarrow> call \<Rightarrow> error option) \<Rightarrow> world" where
  "exWorld file content status failing =
     \<lparr>dbIns =
        \<lparr>services = [\<lparr>svcClusterName = ''c1'', svcServiceName = ''svc1'',
                       svcServiceUUID = ''u1''\<rparr>],
         attrs = [''u1'' \<mapsto> \<lparr>attrServiceUUID = ''u1'', attrServiceStatus = status,
                              attrReplicas = 1, attrServiceName = ''svc1'',
                              attrDomainName = ''c1.com''\<rparr>],
         serviceMembers = (\<lambda>uuid. if uuid = ''u1'' then [exMember file content] else []),
         volumes = (\<lambda>uuid. []),
         configFiles = [(''u1'', ''0-m0-'' @ file) \<mapsto> exConfigFile file content]\<rparr>,
      containersvcIns =
        \<lparr>csServices = Map.empty, csTasks = Map.empty, csNewTaskID = (\<lambda>topts. ''task1'')\<rparr>,
      catalogSvcInit = Map.empty,
      trace = [],
      fault = failing\<rparr>"

definition noFault :: "event list \<Rightarrow> call \<Rightarrow> error option" where
  "noFault history c = None"

section \<open>Properties\<close>

subsection \<open>Slices, external calls, panics\<close>

lemma firstIndex_None: "firstIndex P xs = None \<longleftrightarrow> (\<forall>x\<in>set xs. \<not> P x)"
  by (induction xs) auto

lemma firstIndex_Some:
  "firstIndex P xs = Some i \<Longrightarrow> i < length xs \<and> P (xs ! i) \<and> (\<forall>j<i. \<not> P (xs ! j))"
proof (induction xs arbitrary: i)
  case Nil then show ?case by simp
next
  case (Cons x xs)
  show ?case
  proof (cases "P x")
    case True with Cons.prems show ?thesis by simp
  next
    case False
    with Cons.prems obtain k where k: "firstIndex P xs = Some k" "i = Suc k" by auto
    from Cons.IH[OF k(1)] False k(2) show ?thesis by (auto simp: nth_Cons split: nat.splits)
  qed
qed

lemma external_trace:
  "trace (snd (external c body w)) = trace w @ [(c, isOk (fst (external c body w)))]"
  by (simp add: external_def split: option.splits prod.splits)

lemma external_no_panic:
  "\<forall>q. fst (body w) \<noteq> Panic q \<Longrightarrow> fst (external c body w) \<noteq> Panic p"
  by (cases "body w") (auto simp: external_def split: option.splits)

lemma external_fault:
  "fault (snd (body w)) = fault w \<Longrightarrow> fault (snd (external c body w)) = fault w"
  by (auto simp: external_def split: option.splits prod.splits)

lemma external_ok:
  "fault w (trace w) c = None \<Longrightarrow> body w = (r, w') \<Longrightarrow>
   external c body w = (r, w'\<lparr>trace := trace w @ [(c, isOk r)]\<rparr>)"
  by (simp add: external_def)

lemma external_fail:
  "fault w (trace w) c = Some e \<Longrightarrow>
   external c body w = (Err e, w\<lparr>trace := trace w @ [(c, False)]\<rparr>)"
  by (simp add: external_def)

lemmas db_defs = GetService_def GetServiceAttr_def ListServiceMembers_def GetConfigFile_def
  UpdateServiceMember_def DeleteConfigFile_def CreateConfigFile_def ListServices_def
  ListVolumes_def DeleteService_def svc_CreateService_def svc_SetServiceInitialized_def
  IsServiceExist_def containersvc_CreateService_def RestartService_def GetServiceStatus_def
  RunTask_def GetTaskStatus_def DeleteTask_def

lemma GetConfigFile_no_panic: "fst (GetConfigFile u f w) \<noteq> Panic p"
  unfolding GetConfigFile_def by (rule external_no_panic) (simp split: option.splits)

lemma CreateConfigFile_no_panic: "fst (CreateConfigFile f w) \<noteq> Panic p"
  unfolding CreateConfigFile_def by (rule external_no_panic) (simp split: option.splits)

lemma UpdateServiceMember_no_panic: "fst (UpdateServiceMember a b w) \<noteq> Panic p"
  unfolding UpdateServiceMember_def
  by (rule external_no_panic) (simp add: Let_def split: option.splits)

lemma updateMemberConfig_panic:
  "fst (updateMemberConfig s member cfgfile cfgIndex newContent w) = Panic p \<Longrightarrow>
   p = IndexOutOfRange \<and> (cfgIndex < 0 \<or> int (length (Configs member)) \<le> cfgIndex)"
  using CreateConfigFile_no_panic UpdateServiceMember_no_panic
  apply (simp add: updateMemberConfig_def Let_def CopyMemberConfigs_def split: sum.splits prod.splits res.splits if_splits)
  apply (metis fst_conv)+
  done

lemma GetService_no_panic: "fst (GetService c n w) \<noteq> Panic p"
  unfolding GetService_def by (rule external_no_panic) (simp split: option.splits)

lemma GetServiceAttr_no_panic: "fst (GetServiceAttr u w) \<noteq> Panic p"
  unfolding GetServiceAttr_def by (rule external_no_panic) (simp split: option.splits)

lemma ListServiceMembers_no_panic: "fst (ListServiceMembers u w) \<noteq> Panic p"
  unfolding ListServiceMembers_def by (rule external_no_panic) simp

lemma RestartService_no_panic: "fst (RestartService c n r w) \<noteq> Panic p"
  unfolding RestartService_def by (rule external_no_panic) simp

lemma svc_SetServiceInitialized_no_panic: "fst (svc_SetServiceInitialized c n w) \<noteq> Panic p"
  unfolding svc_SetServiceInitialized_def
  by (rule external_no_panic) (simp split: option.splits)

lemma setServiceInitialized_op_no_crash: "fst (setServiceInitialized_op s n w) \<noteq> Crash p"
  using svc_SetServiceInitialized_no_panic[of "cluster s" n w p]
  by (auto simp: setServiceInitialized_op_def httpError_def split: prod.splits res.splits)

lemma forEach_no_panic:
  "(\<And>x w q. x \<in> set xs \<Longrightarrow> fst (f x w) \<noteq> Panic q) \<Longrightarrow> fst (forEach f xs w) \<noteq> Panic p"
proof (induction xs arbitrary: w)
  case Nil then show ?case by simp
next
  case (Cons x xs)
  have "fst (f x w) \<noteq> Panic p" using Cons.prems by simp
  moreover have "\<And>w'. fst (forEach f xs w') \<noteq> Panic p"
    using Cons.IH Cons.prems by simp
  ultimately show ?case
    by (cases "f x w") (auto split: res.splits)
qed

lemma createRedisClusterFile_no_panic: "fst (createRedisClusterFile s m cfg w) \<noteq> Panic p"
  using CreateConfigFile_no_panic UpdateServiceMember_no_panic
  apply (simp add: createRedisClusterFile_def Let_def split: option.splits prod.splits res.splits)
  apply (metis fst_conv)
  done

lemma updateRedisConfigs_panic:
  "fst (updateRedisConfigs s cfg cfgIndex member w) = Panic p \<Longrightarrow>
   cfgIndex < 0 \<or> int (length (Configs member)) \<le> cfgIndex"
  using GetConfigFile_no_panic[of "ServiceUUID member" "FileID cfg" w]
  by (auto simp: updateRedisConfigs_def Let_def split: prod.splits res.splits if_splits
      dest: updateMemberConfig_panic)

lemma enableMongoDBAuth_panic:
  "fst (enableMongoDBAuth s cfg cfgIndex member w) = Panic p \<Longrightarrow>
   cfgIndex < 0 \<or> int (length (Configs member)) \<le> cfgIndex"
  using GetConfigFile_no_panic[of "ServiceUUID member" "FileID cfg" w]
  by (auto simp: enableMongoDBAuth_def Let_def split: prod.splits res.splits if_splits
      dest: updateMemberConfig_panic)

lemma redisInitMember_no_panic: "fst (redisInitMember s cfg m w) \<noteq> Panic p"
proof
  assume a: "fst (redisInitMember s cfg m w) = Panic p"
  show False
  proof (cases "createRedisClusterFile s m cfg w")
    case (Pair r w1)
    show ?thesis
    proof (cases r)
      case (Ok nm)
      with a Pair obtain i where
        i: "firstIndex (\<lambda>c. IsRedisConfFile (rediscatalog s) (FileName c)) (Configs nm) = Some i"
        and p: "fst (updateRedisConfigs s (Configs nm ! i) (int i) nm w1) = Panic p"
        by (auto simp: redisInitMember_def split: option.splits)
      from firstIndex_Some[OF i] updateRedisConfigs_panic[OF p] show False by simp
    next
      case (Err e) with a Pair show False by (simp add: redisInitMember_def)
    next
      case (Panic q)
      with Pair createRedisClusterFile_no_panic[of s m cfg w q] show False by simp
    qed
  qed
qed

lemma mongoDBInitMember_no_panic: "fst (mongoDBInitMember s m w) \<noteq> Panic p"
proof
  assume a: "fst (mongoDBInitMember s m w) = Panic p"
  then obtain i where
    i: "firstIndex (\<lambda>c. IsMongoDBConfFile (mongodbcatalog s) (FileName c)) (Configs m) = Some i"
    and p: "fst (enableMongoDBAuth s (Configs m ! i) (int i) m w) = Panic p"
    by (auto simp: mongoDBInitMember_def split: option.splits)
  from firstIndex_Some[OF i] enableMongoDBAuth_panic[OF p] show False by simp
qed

lemma np [simp]:
  "GetService c n w \<noteq> (Panic p, w')"
  "GetServiceAttr u w \<noteq> (Panic p, w')"
  "ListServiceMembers u w \<noteq> (Panic p, w')"
  "GetConfigFile u f w \<noteq> (Panic p, w')"
  "CreateConfigFile cf w \<noteq> (Panic p, w')"
  "UpdateServiceMember a b w \<noteq> (Panic p, w')"
  "RestartService c n r w \<noteq> (Panic p, w')"
  "svc_SetServiceInitialized c n w \<noteq> (Panic p, w')"
  "setServiceInitialized_op s n w \<noteq> (Crash p, w')"
  "createRedisClusterFile s m cfg w \<noteq> (Panic p, w')"
  "redisInitMember s cfg m w \<noteq> (Panic p, w')"
  "mongoDBInitMember s m w \<noteq> (Panic p, w')"
  "forEach (redisInitMember s cfg) ms w \<noteq> (Panic p, w')"
  "forEach (mongoDBInitMember s) ms w \<noteq> (Panic p, w')"
  using GetService_no_panic[of c n w p] GetServiceAttr_no_panic[of u w p]
    ListServiceMembers_no_panic[of u w p] GetConfigFile_no_panic[of u f w p]
    CreateConfigFile_no_panic[of cf w p] UpdateServiceMember_no_panic[of a b w p]
    RestartService_no_panic[of c n r w p] svc_SetServiceInitialized_no_panic[of c n w p]
    setServiceInitialized_op_no_crash[of s n w p] createRedisClusterFile_no_panic[of s m cfg w p]
    redisInitMember_no_panic[of s cfg m w p] mongoDBInitMember_no_panic[of s m w p]
    forEach_no_panic[of ms "redisInitMember s cfg" w p, OF redisInitMember_no_panic]
    forEach_no_panic[of ms "mongoDBInitMember s" w p, OF mongoDBInitMember_no_panic]
  by auto

text \<open>
  C10: \<^verbatim>\<open>updateConsulMemberConfig\<close> is safe exactly when the member has a config slot
  whose file name is the basic config file.  With such a slot the call never panics;
  without one \<open>cfg\<close> stays nil, the read of \<open>cfg.FileID\<close> panics with a nil
  dereference, and nothing has been called.
\<close>

theorem updateConsulMemberConfig_needs_basic_config:

  "(if \<exists>c\<in>set (Configs member). IsBasicConfigFile (consulcatalog s) (FileName c)
    then \<forall>p. fst (updateConsulMemberConfig s member memberips w) \<noteq> Panic p
    else updateConsulMemberConfig s member memberips w = (Panic NilDereference, w))"
proof (cases "firstIndex (\<lambda>c. IsBasicConfigFile (consulcatalog s) (FileName c)) (Configs member)")
  case None
  then have "\<not> (\<exists>c\<in>set (Configs member). IsBasicConfigFile (consulcatalog s) (FileName c))"
    by (simp add: firstIndex_None)
  with None show ?thesis
    by (simp add: updateConsulMemberConfig_def)
next
  case (Some i)
  note fi = firstIndex_Some[OF Some]
  then have ex: "\<exists>c\<in>set (Configs member). IsBasicConfigFile (consulcatalog s) (FileName c)"
    using nth_mem by blast
  have "fst (updateConsulMemberConfig s member memberips w) \<noteq> Panic p" for p
  proof
    assume a: "fst (updateConsulMemberConfig s member memberips w) = Panic p"
    show False
    proof (cases "GetConfigFile (ServiceUUID member) (FileID (Configs member ! i)) w")
      case (Pair r w1)
      show ?thesis
      proof (cases r)
        case (Ok f)
        with a Pair Some have
          "fst (updateMemberConfig s member f (int i)
                 (ReplaceMemberName (consulcatalog s) (cfContent f) memberips) w1) = Panic p"
          by (simp add: updateConsulMemberConfig_def)
        from updateMemberConfig_panic[OF this] fi show False by simp
      next
        case (Err e) with a Pair Some show False by (simp add: updateConsulMemberConfig_def)
      next
        case (Panic q)
        with Pair GetConfigFile_no_panic[of "ServiceUUID member" "FileID (Configs member ! i)" w q]
        show False by simp
      qed
    qed
  qed
  with ex show ?thesis by simp
qed

text \<open>
  C9: \<^verbatim>\<open>setRedisInit\<close> reads \<open>req.NodeIds[0]\<close> right after the cluster and region
  check and before any call.  A request that passes the check with an empty
  \<open>NodeIds\<close> makes the handler panic with an index out of range (it is not rejected
  with a bad request, and no call has been made); with a non-empty \<open>NodeIds\<close> the
  handler does not panic.
\<close>

theorem setRedisInit_reads_first_node_id:
  "Cluster req = cluster s \<and> Region req = region s \<longrightarrow>
   (if NodeIds req = [] then setRedisInit s (Some req) w = (Crash IndexOutOfRange, w)
    else \<forall>p. fst (setRedisInit s (Some req) w) \<noteq> Crash p)"
proof (intro impI, elim conjE)
  assume c: "Cluster req = cluster s" and r: "Region req = region s"
  show "if NodeIds req = [] then setRedisInit s (Some req) w = (Crash IndexOutOfRange, w)
    else \<forall>p. fst (setRedisInit s (Some req) w) \<noteq> Crash p"
  proof (cases "NodeIds req")
    case Nil
    with c r show ?thesis by (simp add: setRedisInit_def)
  next
    case (Cons n ns)
    have "fst (setRedisInit s (Some req) w) \<noteq> Crash p" for p
      using c r Cons 
      by (auto simp: setRedisInit_def Let_def httpError_def setServiceInitialized_op_no_crash
           split: prod.splits res.splits)
    with Cons show ?thesis by simp
  qed
qed

theorem updateConsulMemberConfig_needs_basic_config_witness:
  "\<not> (\<exists>c\<in>set (Configs (exMember ''mongod.conf'' ''plain'')).
         IsBasicConfigFile (consulcatalog exServer) (FileName c)) \<and>
   updateConsulMemberConfig exServer (exMember ''mongod.conf'' ''plain'') Map.empty
     (exWorld ''mongod.conf'' ''plain'' ServiceStatusCreating noFault)
   = (Panic NilDereference, exWorld ''mongod.conf'' ''plain'' ServiceStatusCreating noFault)"
  using updateConsulMemberConfig_needs_basic_config [of "exMember ''mongod.conf'' ''plain''" exServer Map.empty
             "exWorld ''mongod.conf'' ''plain'' ServiceStatusCreating noFault"]
  by (simp add: exMember_def exServer_def exConsul_def)

theorem setRedisInit_reads_first_node_id_witness:
  "Cluster \<lparr>Region = ''r'', Cluster = ''c1'', ServiceName = ''svc1'', NodeIds = []\<rparr> = cluster exServer \<and>
   Region \<lparr>Region = ''r'', Cluster = ''c1'', ServiceName = ''svc1'', NodeIds = []\<rparr> = region exServer \<and>
   setRedisInit exServer (Some \<lparr>Region = ''r'', Cluster = ''c1'', ServiceName = ''svc1'', NodeIds = []\<rparr>)
     (exWorld ''redis.conf'' ''plain'' ServiceStatusInitializing noFault)
   = (Crash IndexOutOfRange, exWorld ''redis.conf'' ''plain'' ServiceStatusInitializing noFault)"
  using setRedisInit_reads_first_node_id [of "\<lparr>Region = ''r'', Cluster = ''c1'', ServiceName = ''svc1'', NodeIds = []\<rparr>" exServer
            "exWorld ''redis.conf'' ''plain'' ServiceStatusInitializing noFault"]
  by (simp add: exServer_def)

subsection \<open>The update of a member config\<close>

text \<open>
  C5: \<^verbatim>\<open>updateMemberConfig\<close> parses the version of the old file id, creates the config
  file with the id of the next version and the new content, points the slot of the member
  to the new file id and MD5 by a compare-and-swap update of the member, and then deletes
  the old file.  The result is success whether or not the delete succeeds: \<open>deleted\<close>
  is the outcome of the delete, and nothing is assumed about it.  The hypotheses are that
  the version parses, the slot exists, the new file id is fresh, the stored member is the
  expected image, and the environment fails neither the create nor the update.
\<close>

theorem updateMemberConfig_next_version:
  assumes version: "GetConfigFileVersion (utils s) (cfFileID cfgfile) = Inr version"
    and newFileID: "newFileID = GenMemberConfigFileID (utils s) (MemberName member)
                      (cfFileName cfgfile) (version + 1)"
    and newcfgfile: "newcfgfile = cfgfile\<lparr>cfFileID := newFileID,
                      cfFileMD5 := GenMD5 (utils s) newContent, cfContent := newContent\<rparr>"
    and index: "0 \<le> cfgIndex \<and> cfgIndex < int (length (Configs member))"
    and newMember: "newMember = member\<lparr>Configs := (Configs member)[nat cfgIndex :=
                      (Configs member ! nat cfgIndex)\<lparr>FileID := newFileID,
                         FileMD5 := GenMD5 (utils s) newContent\<rparr>]\<rparr>"
    and fresh: "configFiles (dbIns w) (cfServiceUUID cfgfile, newFileID) = None"
    and stored: "firstIndex (\<lambda>m. MemberName m = MemberName member)
                   (serviceMembers (dbIns w) (ServiceUUID member)) = Some k"
                "serviceMembers (dbIns w) (ServiceUUID member) ! k = member"
    and createOk: "fault w (trace w) (DbCreateConfigFile newcfgfile) = None"
    and casOk: "fault w (trace w @ [(DbCreateConfigFile newcfgfile, True)])
                  (DbUpdateServiceMember member newMember) = None"
    and deleted: "deleted \<longleftrightarrow>
                  fault w (trace w @ [(DbCreateConfigFile newcfgfile, True),
                                      (DbUpdateServiceMember member newMember, True)])
                    (DbDeleteConfigFile (cfServiceUUID cfgfile) (cfFileID cfgfile)) = None
                  \<and> (cfFileID cfgfile = newFileID
                     \<or> configFiles (dbIns w) (cfServiceUUID cfgfile, cfFileID cfgfile) \<noteq> None)"
    and w': "w' = snd (updateMemberConfig s member cfgfile cfgIndex newContent w)"
  shows "fst (updateMemberConfig s member cfgfile cfgIndex newContent w) = Ok ()
     \<and> trace w' = trace w @
          [(DbCreateConfigFile newcfgfile, True),
           (DbUpdateServiceMember member newMember, True),
           (DbDeleteConfigFile (cfServiceUUID cfgfile) (cfFileID cfgfile), deleted)]
     \<and> serviceMembers (dbIns w') (ServiceUUID member)
         = (serviceMembers (dbIns w) (ServiceUUID member))[k := newMember]
     \<and> configFiles (dbIns w') (cfServiceUUID cfgfile, newFileID)
         = (if deleted \<and> cfFileID cfgfile = newFileID then None else Some newcfgfile)
     \<and> (deleted \<longrightarrow>
          configFiles (dbIns w') (cfServiceUUID cfgfile, cfFileID cfgfile) = None)"
proof -
  let ?w1 = "w\<lparr>dbIns := (dbIns w)\<lparr>configFiles := (configFiles (dbIns w))
                ((cfServiceUUID cfgfile, newFileID) \<mapsto> newcfgfile)\<rparr>,
               trace := trace w @ [(DbCreateConfigFile newcfgfile, True)]\<rparr>"
  have c: "CreateConfigFile newcfgfile w = (Ok newcfgfile, ?w1)"
    using fresh createOk by (simp add: CreateConfigFile_def external_def newcfgfile)
  let ?w2 = "(putMember newMember k ?w1)\<lparr>trace := trace w @ [(DbCreateConfigFile newcfgfile, True),
                (DbUpdateServiceMember member newMember, True)]\<rparr>"
  have u: "UpdateServiceMember member newMember ?w1 = (Ok (), ?w2)"
    using stored casOk
    by (simp add: UpdateServiceMember_def external_def Let_def newMember putMember_def)
  have f: "cfFileID newcfgfile = newFileID" "cfFileMD5 newcfgfile = GenMD5 (utils s) newContent"
    "cfServiceUUID newcfgfile = cfServiceUUID cfgfile"
    "UpdateConfigFile s cfgfile newFileID newContent = newcfgfile"
    by (simp_all add: newcfgfile UpdateConfigFile_def)
  have idx: "\<not> (cfgIndex < 0 \<or> int (length (Configs member)) \<le> cfgIndex)"
    using index by simp
  have step: "updateMemberConfig s member cfgfile cfgIndex newContent w
      = (Ok (), snd (DeleteConfigFile (cfServiceUUID cfgfile) (cfFileID cfgfile) ?w2))"
    using c u idx version
    by (simp add: updateMemberConfig_def Let_def CopyMemberConfigs_def
          UpdateServiceMemberConfigs_def UpdateConfigFile_def newMember newcfgfile newFileID
        split: prod.splits)
  let ?del = "DbDeleteConfigFile (cfServiceUUID cfgfile) (cfFileID cfgfile)"
  have tr: "trace (snd (DeleteConfigFile (cfServiceUUID cfgfile) (cfFileID cfgfile) ?w2))
      = trace ?w2 @ [(?del, deleted)]"
    using deleted
    by (auto simp: DeleteConfigFile_def external_def putMember_def split: option.splits)
  have mem: "serviceMembers (dbIns (snd (DeleteConfigFile (cfServiceUUID cfgfile) (cfFileID cfgfile) ?w2)))
       (ServiceUUID member) = (serviceMembers (dbIns w) (ServiceUUID member))[k := newMember]"
    by (auto simp: DeleteConfigFile_def external_def putMember_def newMember split: option.splits)
  have files: "configFiles (dbIns (snd (DeleteConfigFile (cfServiceUUID cfgfile) (cfFileID cfgfile) ?w2)))
      = (if deleted then (configFiles (dbIns ?w1))((cfServiceUUID cfgfile, cfFileID cfgfile) := None)
         else configFiles (dbIns ?w1))"
    using deleted
    by (auto simp: DeleteConfigFile_def external_def putMember_def split: option.splits)
  show ?thesis
    unfolding w' step using tr mem files by auto
qed

lemmas ex_defs = exServer_def exUtils_def exMember_def exConfigFile_def exWorld_def
  failingOn_def exVersionChar_def noFault_def exMongoDB_def exRedis_def exConsul_def
  exManage_def exRequest_def

theorem updateMemberConfig_next_version_witness:
  "GetConfigFileVersion (utils exServer) (cfFileID (exConfigFile ''mongod.conf'' ''plain'')) = Inr 0
   \<and> fault (exWorld ''mongod.conf'' ''plain'' ServiceStatusInitializing (failingOn isDeleteConfigFile))
        [] (DbDeleteConfigFile ''u1'' ''0-m0-mongod.conf'') = Some ErrDBInternal
   \<and> fst (updateMemberConfig exServer (exMember ''mongod.conf'' ''plain'')
            (exConfigFile ''mongod.conf'' ''plain'') 0 ''auth''
            (exWorld ''mongod.conf'' ''plain'' ServiceStatusInitializing
               (failingOn isDeleteConfigFile))) = Ok ()
   \<and> map snd (trace (snd (updateMemberConfig exServer (exMember ''mongod.conf'' ''plain'')
            (exConfigFile ''mongod.conf'' ''plain'') 0 ''auth''
            (exWorld ''mongod.conf'' ''plain'' ServiceStatusInitializing
               (failingOn isDeleteConfigFile))))) = [True, True, False]
   \<and> serviceMembers (dbIns (snd (updateMemberConfig exServer (exMember ''mongod.conf'' ''plain'')
            (exConfigFile ''mongod.conf'' ''plain'') 0 ''auth''
            (exWorld ''mongod.conf'' ''plain'' ServiceStatusInitializing
               (failingOn isDeleteConfigFile))))) ''u1''
       = [\<lparr>ServiceUUID = ''u1'', MemberName = ''m0'', StaticIP = ''10.0.0.1'',
           Configs = [\<lparr>FileName = ''mongod.conf'', FileID = ''1-m0-mongod.conf'',
                       FileMD5 = ''md5:auth''\<rparr>]\<rparr>]"
  using updateMemberConfig_next_version [where s = exServer and cfgfile = "exConfigFile ''mongod.conf'' ''plain''"
      and version = 0 and member = "exMember ''mongod.conf'' ''plain''"
      and cfgIndex = 0 and newContent = "''auth''" and k = 0 and deleted = False
      and w = "exWorld ''mongod.conf'' ''plain'' ServiceStatusInitializing
                 (failingOn isDeleteConfigFile)",
      OF _ refl refl _ refl _ _ _ _ _ _ refl]
  by (simp add: ex_defs)

lemma external_snd:
  "snd (external c body w) =
     (case fault w (trace w) c of
        Some e \<Rightarrow> w\<lparr>trace := trace w @ [(c, False)]\<rparr>
      | None \<Rightarrow> (snd (body w))\<lparr>trace := trace w @ [(c, isOk (fst (body w)))]\<rparr>)"
  by (simp add: external_def split: option.splits prod.splits)

lemma external_readonly:
  "(\<And>w. snd (body w) = w) \<Longrightarrow>
   snd (external c body w) = w\<lparr>trace := trace w @ [(c, isOk (fst (external c body w)))]\<rparr>"
  by (simp add: external_def split: option.splits prod.splits) (metis snd_conv)

lemma GetService_snd:
  "snd (GetService c n w) = w\<lparr>trace := trace w @ [(DbGetService c n, isOk (fst (GetService c n w)))]\<rparr>"
  unfolding GetService_def by (rule external_readonly) (simp split: option.splits)

lemma GetServiceAttr_snd:
  "snd (GetServiceAttr u w) = w\<lparr>trace := trace w @ [(DbGetServiceAttr u, isOk (fst (GetServiceAttr u w)))]\<rparr>"
  unfolding GetServiceAttr_def by (rule external_readonly) (simp split: option.splits)

lemma ListServiceMembers_snd:
  "snd (ListServiceMembers u w) = w\<lparr>trace := trace w @ [(DbListServiceMembers u, isOk (fst (ListServiceMembers u w)))]\<rparr>"
  unfolding ListServiceMembers_def by (rule external_readonly) simp

lemma GetConfigFile_snd:
  "snd (GetConfigFile u f w) = w\<lparr>trace := trace w @ [(DbGetConfigFile u f, isOk (fst (GetConfigFile u f w)))]\<rparr>"
  unfolding GetConfigFile_def by (rule external_readonly) (simp split: option.splits)

lemma RestartService_snd:
  "snd (RestartService c n r w) = w\<lparr>trace := trace w @ [(CsRestartService c n r, isOk (fst (RestartService c n r w)))]\<rparr>"
  unfolding RestartService_def by (rule external_readonly) simp

lemma IsServiceExist_snd:
  "snd (IsServiceExist c n w) = w\<lparr>trace := trace w @ [(CsIsServiceExist c n, isOk (fst (IsServiceExist c n w)))]\<rparr>"
  unfolding IsServiceExist_def by (rule external_readonly) simp

text \<open>Pair forms, for the case splits of the handlers.\<close>

lemma readonly_pair:
  "GetService c n w = (r1, w1) \<Longrightarrow> w1 = w\<lparr>trace := trace w @ [(DbGetService c n, isOk r1)]\<rparr>"
  "GetServiceAttr u w = (r2, w2) \<Longrightarrow> w2 = w\<lparr>trace := trace w @ [(DbGetServiceAttr u, isOk r2)]\<rparr>"
  "ListServiceMembers u w = (r3, w3) \<Longrightarrow> w3 = w\<lparr>trace := trace w @ [(DbListServiceMembers u, isOk r3)]\<rparr>"
  "GetConfigFile u f w = (r4, w4) \<Longrightarrow> w4 = w\<lparr>trace := trace w @ [(DbGetConfigFile u f, isOk r4)]\<rparr>"
  "RestartService c n rp w = (r5, w5) \<Longrightarrow> w5 = w\<lparr>trace := trace w @ [(CsRestartService c n rp, isOk r5)]\<rparr>"
  "IsServiceExist c n w = (r6, w6) \<Longrightarrow> w6 = w\<lparr>trace := trace w @ [(CsIsServiceExist c n, isOk r6)]\<rparr>"
  using GetService_snd[of c n w] GetServiceAttr_snd[of u w] ListServiceMembers_snd[of u w]
    GetConfigFile_snd[of u f w] RestartService_snd[of c n rp w] IsServiceExist_snd[of c n w]
  by auto



lemma ListServiceMembers_Ok:
  "ListServiceMembers u w = (Ok ms, w1) \<Longrightarrow> ms = serviceMembers (dbIns w) u"
  by (auto simp: ListServiceMembers_def external_def split: option.splits)

lemma GetConfigFile_Ok:
  "GetConfigFile u f w = (Ok cf, w1) \<Longrightarrow> configFiles (dbIns w) (u, f) = Some cf"
  by (auto simp: GetConfigFile_def external_def split: option.splits)

subsection \<open>Probes\<close>

lemma runEvents_append [simp]: "runEvents w (w'\<lparr>trace := trace w @ evs\<rparr>) = evs"
  by (simp add: runEvents_def)

lemma runEvents_same [simp]: "runEvents w w = []"
  by (simp add: runEvents_def)

lemma enableMongoDBAuth_probe:
  assumes "configFiles (dbIns w) (ServiceUUID member, FileID cfg) = Some cfgfile"
    and "IsAuthEnabled (mongodbcatalog s) (cfContent cfgfile)"
  shows "snd (enableMongoDBAuth s cfg cfgIndex member w)
           = w\<lparr>trace := trace w @ [(DbGetConfigFile (ServiceUUID member) (FileID cfg),
                   fst (enableMongoDBAuth s cfg cfgIndex member w) = Ok ())]\<rparr>"
    and "fault w (trace w) (DbGetConfigFile (ServiceUUID member) (FileID cfg)) = None
         \<Longrightarrow> fst (enableMongoDBAuth s cfg cfgIndex member w) = Ok ()"
  using assms
  by (auto simp: enableMongoDBAuth_def GetConfigFile_def external_def split: option.splits)

lemma updateRedisConfigs_probe:
  assumes "configFiles (dbIns w) (ServiceUUID member, FileID cfg) = Some cfgfile"
    and "\<not> NeedToEnableAuth (rediscatalog s) (cfContent cfgfile)"
    and "\<not> NeedToSetClusterAnnounceIP (rediscatalog s) (cfContent cfgfile)"
  shows "snd (updateRedisConfigs s cfg cfgIndex member w)
           = w\<lparr>trace := trace w @ [(DbGetConfigFile (ServiceUUID member) (FileID cfg),
                   fst (updateRedisConfigs s cfg cfgIndex member w) = Ok ())]\<rparr>"
    and "fault w (trace w) (DbGetConfigFile (ServiceUUID member) (FileID cfg)) = None
         \<Longrightarrow> fst (updateRedisConfigs s cfg cfgIndex member w) = Ok ()"
  using assms
  by (auto simp: updateRedisConfigs_def GetConfigFile_def external_def split: option.splits)

lemma updateRedisConfigs_fires:
  assumes "GetConfigFile (ServiceUUID member) (FileID cfg) w = (Ok cfgfile, w1)"
    and "NeedToEnableAuth (rediscatalog s) (cfContent cfgfile)
         \<or> NeedToSetClusterAnnounceIP (rediscatalog s) (cfContent cfgfile)"
  shows "updateRedisConfigs s cfg cfgIndex member w
           = updateMemberConfig s member cfgfile cfgIndex
               (redisNewContent s (cfContent cfgfile) (StaticIP member)) w1"
  using assms by (auto simp: updateRedisConfigs_def redisNewContent_def Let_def)

lemma CreateConfigFile_trace:
  "trace (snd (CreateConfigFile f w)) = trace w @ [(DbCreateConfigFile f, isOk (fst (CreateConfigFile f w)))]"
  unfolding CreateConfigFile_def by (rule external_trace)

lemma UpdateServiceMember_trace:
  "trace (snd (UpdateServiceMember a b w)) = trace w @ [(DbUpdateServiceMember a b, isOk (fst (UpdateServiceMember a b w)))]"
  unfolding UpdateServiceMember_def by (rule external_trace)

lemma DeleteConfigFile_trace:
  "trace (snd (DeleteConfigFile u f w)) = trace w @ [(DbDeleteConfigFile u f, isOk (fst (DeleteConfigFile u f w)))]"
  unfolding DeleteConfigFile_def by (rule external_trace)

text \<open>The events of one \<^verbatim>\<open>updateMemberConfig\<close>: a prefix of create, update, delete,
  cut at the first failure; on success all three, the first two successful.\<close>

lemma updateMemberConfig_events:
  fixes s member cfgfile cfgIndex newContent w
  defines "r \<equiv> updateMemberConfig s member cfgfile cfgIndex newContent w"
  shows "\<exists>evs. trace (snd r) = trace w @ evs \<and>
     (evs = [] \<and> fst r \<noteq> Ok ()
      \<or> (\<exists>f. evs = [(DbCreateConfigFile f, False)] \<and> fst r \<noteq> Ok ())
      \<or> (\<exists>f. evs = [(DbCreateConfigFile f, True)] \<and> fst r \<noteq> Ok ())
      \<or> (\<exists>f m'. evs = [(DbCreateConfigFile f, True), (DbUpdateServiceMember member m', False)]
             \<and> fst r \<noteq> Ok ())
      \<or> (\<exists>f m' d. evs = [(DbCreateConfigFile f, True), (DbUpdateServiceMember member m', True),
                (DbDeleteConfigFile (cfServiceUUID cfgfile) (cfFileID cfgfile), d)]
             \<and> cfContent f = newContent \<and> fst r = Ok ()))"
proof (cases "GetConfigFileVersion (utils s) (cfFileID cfgfile)")
  case (Inl e)
  then show ?thesis by (simp add: r_def updateMemberConfig_def)
next
  case (Inr version)
  let ?f = "UpdateConfigFile s cfgfile (GenMemberConfigFileID (utils s) (MemberName member)
              (cfFileName cfgfile) (version + 1)) newContent"
  obtain r1 w1 where c: "CreateConfigFile ?f w = (r1, w1)" by fastforce
  have t1: "trace w1 = trace w @ [(DbCreateConfigFile ?f, isOk r1)]"
    using CreateConfigFile_trace[of ?f w] c by simp
  show ?thesis
  proof (cases r1)
    case (Err e)
    with Inr c t1 show ?thesis by (auto simp: r_def updateMemberConfig_def Let_def)
  next
    case (Panic p)
    with Inr c t1 show ?thesis by (auto simp: r_def updateMemberConfig_def Let_def)
  next
    case (Ok created)
    show ?thesis
    proof (cases "cfgIndex < 0 \<or> int (length (Configs member)) \<le> cfgIndex")
      case True
      with Inr c t1 Ok show ?thesis
        by (auto simp: r_def updateMemberConfig_def Let_def CopyMemberConfigs_def)
    next
      case False
      let ?m = "UpdateServiceMemberConfigs member ((Configs member)[nat cfgIndex :=
                  (Configs member ! nat cfgIndex)\<lparr>FileID := cfFileID created,
                     FileMD5 := cfFileMD5 created\<rparr>])"
      obtain r2 w2 where u: "UpdateServiceMember member ?m w1 = (r2, w2)" by fastforce
      have t2: "trace w2 = trace w1 @ [(DbUpdateServiceMember member ?m, isOk r2)]"
        using UpdateServiceMember_trace[of member ?m w1] u by simp
      obtain r3 w3 where d: "DeleteConfigFile (cfServiceUUID cfgfile) (cfFileID cfgfile) w2 = (r3, w3)"
        by fastforce
      have t3: "trace w3 = trace w2 @ [(DbDeleteConfigFile (cfServiceUUID cfgfile) (cfFileID cfgfile), isOk r3)]"
        using DeleteConfigFile_trace[of "cfServiceUUID cfgfile" "cfFileID cfgfile" w2] d by simp
      have cf: "cfContent ?f = newContent" by (simp add: UpdateConfigFile_def)
      show ?thesis
      proof (cases r2)
        case (Ok x)
        with Inr c t1 \<open>r1 = Ok created\<close> False u t2 d t3 cf show ?thesis
          by (simp add: r_def updateMemberConfig_def Let_def CopyMemberConfigs_def)
      next
        case (Err e)
        with Inr c t1 \<open>r1 = Ok created\<close> False u t2 show ?thesis
          by (simp add: r_def updateMemberConfig_def Let_def CopyMemberConfigs_def)
      next
        case (Panic p)
        with Inr c t1 \<open>r1 = Ok created\<close> False u t2 show ?thesis
          by (simp add: r_def updateMemberConfig_def Let_def CopyMemberConfigs_def)
      qed
    qed
  qed
qed

lemmas run_defs = updateConsulMemberConfig_def updateMemberConfig_def GetConfigFile_def
  CreateConfigFile_def UpdateServiceMember_def DeleteConfigFile_def external_def Let_def
  UpdateConfigFile_def CopyMemberConfigs_def UpdateServiceMemberConfigs_def putMember_def

text \<open>
  C3, as stated, fails for Consul: \<^verbatim>\<open>updateConsulMemberConfig\<close> has no probe.  On a
  basic config file whose content already holds the static IP (the replacement returns
  the content unchanged) it still writes version 1 of the file and changes the member.
\<close>

theorem consul_rewrite_is_not_a_noop:
  "ReplaceMemberName (consulcatalog exServer) ''10.0.0.1'' [''m0.c1.com'' \<mapsto> ''10.0.0.1'']
     = ''10.0.0.1''
   \<and> fst (updateConsulMemberConfig exServer (exMember ''basic_config.json'' ''10.0.0.1'')
          [''m0.c1.com'' \<mapsto> ''10.0.0.1'']
          (exWorld ''basic_config.json'' ''10.0.0.1'' ServiceStatusCreating noFault)) = Ok ()
   \<and> configFiles (dbIns (exWorld ''basic_config.json'' ''10.0.0.1'' ServiceStatusCreating noFault))
        (''u1'', ''1-m0-basic_config.json'') = None
   \<and> configFiles (dbIns (snd (updateConsulMemberConfig exServer
          (exMember ''basic_config.json'' ''10.0.0.1'') [''m0.c1.com'' \<mapsto> ''10.0.0.1'']
          (exWorld ''basic_config.json'' ''10.0.0.1'' ServiceStatusCreating noFault))))
        (''u1'', ''1-m0-basic_config.json'')
       = Some \<lparr>cfServiceUUID = ''u1'', cfFileID = ''1-m0-basic_config.json'',
                cfFileMD5 = ''md5:10.0.0.1'', cfFileName = ''basic_config.json'',
                cfFileMode = 0, cfContent = ''10.0.0.1''\<rparr>
   \<and> serviceMembers (dbIns (snd (updateConsulMemberConfig exServer
          (exMember ''basic_config.json'' ''10.0.0.1'') [''m0.c1.com'' \<mapsto> ''10.0.0.1'']
          (exWorld ''basic_config.json'' ''10.0.0.1'' ServiceStatusCreating noFault)))) ''u1''
       \<noteq> serviceMembers (dbIns (exWorld ''basic_config.json'' ''10.0.0.1''
            ServiceStatusCreating noFault)) ''u1''"
  by (simp add: run_defs ex_defs)

lemma updateMemberConfig_counts:
  fixes s member cfgfile cfgIndex newContent w
  defines "r \<equiv> updateMemberConfig s member cfgfile cfgIndex newContent w"
  defines "evs \<equiv> runEvents w (snd r)"
  shows "length (filter (isCreateConfigFile \<circ> fst) evs) \<le> 1"
    and "length (filter (isUpdateServiceMember \<circ> fst) evs) \<le> 1"
    and "fst r = Ok () \<Longrightarrow>
           length (filter (isCreateConfigFile \<circ> fst) evs) = 1
         \<and> length (filter (isUpdateServiceMember \<circ> fst) evs) = 1
         \<and> (\<exists>f. (DbCreateConfigFile f, True) \<in> set evs \<and> cfContent f = newContent)"
  using updateMemberConfig_events[where s=s and member=member and cfgfile=cfgfile and cfgIndex=cfgIndex and newContent=newContent and w=w]
  unfolding evs_def r_def runEvents_def
  by auto

lemma updateRedisConfigs_counts:
  fixes s cfg cfgIndex member w
  assumes g: "GetConfigFile (ServiceUUID member) (FileID cfg) w = (Ok cfgfile, w1)"
    and p: "NeedToEnableAuth (rediscatalog s) (cfContent cfgfile)
         \<or> NeedToSetClusterAnnounceIP (rediscatalog s) (cfContent cfgfile)"
  defines "r \<equiv> updateRedisConfigs s cfg cfgIndex member w"
  defines "evs \<equiv> runEvents w (snd r)"
  shows "length (filter (isCreateConfigFile \<circ> fst) evs) \<le> 1"
    and "length (filter (isUpdateServiceMember \<circ> fst) evs) \<le> 1"
    and "fst r = Ok () \<Longrightarrow>
           length (filter (isCreateConfigFile \<circ> fst) evs) = 1
         \<and> length (filter (isUpdateServiceMember \<circ> fst) evs) = 1
         \<and> (\<exists>f. (DbCreateConfigFile f, True) \<in> set evs
                \<and> cfContent f = redisNewContent s (cfContent cfgfile) (StaticIP member))"
proof -
  let ?c = "redisNewContent s (cfContent cfgfile) (StaticIP member)"
  let ?r' = "updateMemberConfig s member cfgfile cfgIndex ?c w1"
  have r: "r = ?r'" unfolding r_def by (rule updateRedisConfigs_fires[OF g p])
  have w1: "trace w1 = trace w @ [(DbGetConfigFile (ServiceUUID member) (FileID cfg), True)]"
    using readonly_pair(4)[OF g] by simp
  obtain evs' where e: "trace (snd ?r') = trace w1 @ evs'"
    using updateMemberConfig_events[where s=s and member=member and cfgfile=cfgfile and cfgIndex=cfgIndex and newContent="?c" and w=w1] by blast
  have evs: "evs = (DbGetConfigFile (ServiceUUID member) (FileID cfg), True) # runEvents w1 (snd ?r')"
    unfolding evs_def r runEvents_def e w1 by simp
  show "length (filter (isCreateConfigFile \<circ> fst) evs) \<le> 1"
    and "length (filter (isUpdateServiceMember \<circ> fst) evs) \<le> 1"
    using updateMemberConfig_counts(1,2)[where s=s and member=member and cfgfile=cfgfile and cfgIndex=cfgIndex and newContent="?c" and w=w1] by (simp_all add: evs)
  show "length (filter (isCreateConfigFile \<circ> fst) evs) = 1
         \<and> length (filter (isUpdateServiceMember \<circ> fst) evs) = 1
         \<and> (\<exists>f. (DbCreateConfigFile f, True) \<in> set evs \<and> cfContent f = ?c)"
    if "fst r = Ok ()"
    using updateMemberConfig_counts(3)[where s=s and member=member and cfgfile=cfgfile and cfgIndex=cfgIndex and newContent="?c" and w=w1] that
    by (auto simp: evs r)
qed

lemma updateConsulMemberConfig_always:
  assumes "firstIndex (\<lambda>c. IsBasicConfigFile (consulcatalog s) (FileName c)) (Configs member) = Some j"
    and "GetConfigFile (ServiceUUID member) (FileID (Configs member ! j)) w = (Ok cfgfile, w1)"
  shows "updateConsulMemberConfig s member memberips w
           = updateMemberConfig s member cfgfile (int j)
               (ReplaceMemberName (consulcatalog s) (cfContent cfgfile) memberips) w1"
  using assms by (simp add: updateConsulMemberConfig_def)

text \<open>
  C3, amended: for MongoDB enable-auth and for Redis enable-auth and
  set-cluster-announce-ip, applying the mutator to a stored config file whose content
  satisfies the probe only reads the file, so that no config file is created and the
  member is unchanged.  When a Redis probe fires, \<^verbatim>\<open>updateRedisConfigs\<close> is one
  \<^verbatim>\<open>updateMemberConfig\<close> with the combined content: at most one create and one member
  update, and exactly one of each on success.  The Consul rewrite has no probe: for a
  member with a basic config file that can be read, \<^verbatim>\<open>updateConsulMemberConfig\<close> is
  always an \<^verbatim>\<open>updateMemberConfig\<close> with the replaced content.
\<close>

theorem mutators_probe_before_update:
  "(configFiles (dbIns w) (ServiceUUID member, FileID cfg) = Some cfgfile
      \<and> IsAuthEnabled (mongodbcatalog s) (cfContent cfgfile) \<longrightarrow>
    snd (enableMongoDBAuth s cfg cfgIndex member w)
      = w\<lparr>trace := trace w @ [(DbGetConfigFile (ServiceUUID member) (FileID cfg),
              fst (enableMongoDBAuth s cfg cfgIndex member w) = Ok ())]\<rparr>)
   \<and> (configFiles (dbIns w) (ServiceUUID member, FileID cfg) = Some cfgfile
      \<and> \<not> NeedToEnableAuth (rediscatalog s) (cfContent cfgfile)
      \<and> \<not> NeedToSetClusterAnnounceIP (rediscatalog s) (cfContent cfgfile) \<longrightarrow>
    snd (updateRedisConfigs s cfg cfgIndex member w)
      = w\<lparr>trace := trace w @ [(DbGetConfigFile (ServiceUUID member) (FileID cfg),
              fst (updateRedisConfigs s cfg cfgIndex member w) = Ok ())]\<rparr>)
   \<and> (GetConfigFile (ServiceUUID member) (FileID cfg) w = (Ok cfgfile, w1)
      \<and> (NeedToEnableAuth (rediscatalog s) (cfContent cfgfile)
          \<or> NeedToSetClusterAnnounceIP (rediscatalog s) (cfContent cfgfile)) \<longrightarrow>
    updateRedisConfigs s cfg cfgIndex member w
      = updateMemberConfig s member cfgfile cfgIndex
          (redisNewContent s (cfContent cfgfile) (StaticIP member)) w1
    \<and> length (filter (isCreateConfigFile \<circ> fst)
         (runEvents w (snd (updateRedisConfigs s cfg cfgIndex member w)))) \<le> 1
    \<and> length (filter (isUpdateServiceMember \<circ> fst)
         (runEvents w (snd (updateRedisConfigs s cfg cfgIndex member w)))) \<le> 1
    \<and> (fst (updateRedisConfigs s cfg cfgIndex member w) = Ok () \<longrightarrow>
         length (filter (isCreateConfigFile \<circ> fst)
           (runEvents w (snd (updateRedisConfigs s cfg cfgIndex member w)))) = 1
       \<and> length (filter (isUpdateServiceMember \<circ> fst)
           (runEvents w (snd (updateRedisConfigs s cfg cfgIndex member w)))) = 1))
   \<and> (firstIndex (\<lambda>c. IsBasicConfigFile (consulcatalog s) (FileName c)) (Configs member) = Some j
      \<and> GetConfigFile (ServiceUUID member) (FileID (Configs member ! j)) w = (Ok cfgfile, w1) \<longrightarrow>
    updateConsulMemberConfig s member memberips w
      = updateMemberConfig s member cfgfile (int j)
          (ReplaceMemberName (consulcatalog s) (cfContent cfgfile) memberips) w1)"
  using enableMongoDBAuth_probe(1)[where w=w and member=member and cfg=cfg and cfgfile=cfgfile
      and s=s and cfgIndex=cfgIndex]
    updateRedisConfigs_probe(1)[where w=w and member=member and cfg=cfg and cfgfile=cfgfile
      and s=s and cfgIndex=cfgIndex]
    updateRedisConfigs_fires[where w=w and member=member and cfg=cfg and cfgfile=cfgfile
      and s=s and cfgIndex=cfgIndex and ?w1.0=w1]
    updateRedisConfigs_counts[where w=w and member=member and cfg=cfg and cfgfile=cfgfile
      and s=s and cfgIndex=cfgIndex and ?w1.0=w1]
    updateConsulMemberConfig_always[where w=w and member=member and j=j and cfgfile=cfgfile
      and s=s and memberips=memberips and ?w1.0=w1]
  by blast

theorem mutators_probe_before_update_witness:
  "configFiles (dbIns (exWorld ''mongod.conf'' ''auth'' ServiceStatusInitializing noFault))
       (ServiceUUID (exMember ''mongod.conf'' ''auth''),
        FileID (hd (Configs (exMember ''mongod.conf'' ''auth''))))
     = Some (exConfigFile ''mongod.conf'' ''auth'')
   \<and> IsAuthEnabled (mongodbcatalog exServer) (cfContent (exConfigFile ''mongod.conf'' ''auth''))
   \<and> snd (enableMongoDBAuth exServer (hd (Configs (exMember ''mongod.conf'' ''auth''))) 0
            (exMember ''mongod.conf'' ''auth'')
            (exWorld ''mongod.conf'' ''auth'' ServiceStatusInitializing noFault))
     = (exWorld ''mongod.conf'' ''auth'' ServiceStatusInitializing noFault)
         \<lparr>trace := [(DbGetConfigFile ''u1'' ''0-m0-mongod.conf'', True)]\<rparr>"
  using mutators_probe_before_update [where s = exServer and member = "exMember ''mongod.conf'' ''auth''"
      and cfg = "hd (Configs (exMember ''mongod.conf'' ''auth''))"
      and cfgfile = "exConfigFile ''mongod.conf'' ''auth''" and cfgIndex = 0
      and w = "exWorld ''mongod.conf'' ''auth'' ServiceStatusInitializing noFault"]
  by (simp add: ex_defs enableMongoDBAuth_def GetConfigFile_def external_def)

subsection \<open>The cluster info file of Redis\<close>





subsection \<open>The runs of the two init handlers, case by case\<close>

lemma UpdateTaskStatusMsg_simps [simp]:
  "dbIns (UpdateTaskStatusMsg u m w) = dbIns w"
  "trace (UpdateTaskStatusMsg u m w) = trace w"
  "fault (UpdateTaskStatusMsg u m w) = fault w"
  "containersvcIns (UpdateTaskStatusMsg u m w) = containersvcIns w"
  by (simp_all add: UpdateTaskStatusMsg_def split: option.splits)



subsection \<open>Runs that only touch config files and members\<close>

lemma isConfigCall_phase:
  "isConfigCall c \<Longrightarrow> mutatorPhase c = 0 \<and> consulPhase c = 1 \<and> \<not> isRestartService c
     \<and> \<not> isSetServiceInitialized c"
  by (cases c) simp_all

lemma configRun_refl: "configRun w b w"
  by (simp add: configRun_def)

lemma configRun_weaken: "configRun w b w' \<Longrightarrow> configRun w False w'"
  by (simp add: configRun_def)

lemma runEvents_trans:
  "trace w1 = trace w @ runEvents w w1 \<Longrightarrow> trace w2 = trace w1 @ runEvents w1 w2 \<Longrightarrow>
   runEvents w w2 = runEvents w w1 @ runEvents w1 w2"
  by (metis append.assoc append_eq_conv_conj length_append runEvents_def same_append_eq)

lemma configRun_trans:
  assumes "configRun w True w1" "configRun w1 b w2"
  shows "configRun w b w2"
proof -
  have e: "runEvents w w2 = runEvents w w1 @ runEvents w1 w2"
    using assms by (intro runEvents_trans) (simp_all add: configRun_def)
  show ?thesis using assms unfolding configRun_def e by auto
qed

lemma configRun_event:
  assumes "trace w' = trace w @ [(c, b)]" "isConfigCall c" "ok \<and> isConfigWrite c \<longrightarrow> b"
    "attrs (dbIns w') = attrs (dbIns w)" "services (dbIns w') = services (dbIns w)"
    "containersvcIns w' = containersvcIns w" "fault w' = fault w"
  shows "configRun w ok w'"
  using assms by (simp add: configRun_def runEvents_def)

lemma GetConfigFile_configRun: "configRun w b (snd (GetConfigFile u f w))"
  by (rule configRun_event[where c="DbGetConfigFile u f"
        and b="isOk (fst (GetConfigFile u f w))"]) (simp_all add: GetConfigFile_snd)

lemma CreateConfigFile_configRun:
  "configRun w (isOk (fst (CreateConfigFile f w))) (snd (CreateConfigFile f w))"
  by (rule configRun_event[where c="DbCreateConfigFile f"
        and b="isOk (fst (CreateConfigFile f w))"])
     (auto simp: CreateConfigFile_trace, auto simp: CreateConfigFile_def external_def split: option.splits)

lemma UpdateServiceMember_configRun:
  "configRun w (isOk (fst (UpdateServiceMember a b w))) (snd (UpdateServiceMember a b w))"
  by (rule configRun_event[where c="DbUpdateServiceMember a b"
        and b="isOk (fst (UpdateServiceMember a b w))"])
     (auto simp: UpdateServiceMember_trace,
      auto simp: UpdateServiceMember_def external_def Let_def putMember_def split: option.splits)

lemma DeleteConfigFile_configRun:
  "configRun w b (snd (DeleteConfigFile u f w))"
  by (rule configRun_event[where c="DbDeleteConfigFile u f"
        and b="isOk (fst (DeleteConfigFile u f w))"])
     (auto simp: DeleteConfigFile_trace, auto simp: DeleteConfigFile_def external_def split: option.splits)

lemma updateMemberConfig_configRun:
  "configRun w (isOk (fst (updateMemberConfig s member cfgfile cfgIndex newContent w)))
     (snd (updateMemberConfig s member cfgfile cfgIndex newContent w))"
proof (cases "GetConfigFileVersion (utils s) (cfFileID cfgfile)")
  case (Inl e)
  then show ?thesis by (simp add: updateMemberConfig_def configRun_refl)
next
  case (Inr version)
  let ?f = "UpdateConfigFile s cfgfile (GenMemberConfigFileID (utils s) (MemberName member)
              (cfFileName cfgfile) (version + 1)) newContent"
  obtain r1 w1 where c: "CreateConfigFile ?f w = (r1, w1)" by fastforce
  have c1: "configRun w (isOk r1) w1" using CreateConfigFile_configRun[of w ?f] c by simp
  show ?thesis
  proof (cases r1)
    case (Err e)
    with Inr c c1 show ?thesis by (simp add: updateMemberConfig_def Let_def)
  next
    case (Panic p)
    with Inr c c1 show ?thesis by (simp add: updateMemberConfig_def Let_def)
  next
    case (Ok created)
    note created = this
    show ?thesis
    proof (cases "cfgIndex < 0 \<or> int (length (Configs member)) \<le> cfgIndex")
      case True
      with Inr c created configRun_weaken[OF c1] show ?thesis
        by (auto simp: updateMemberConfig_def Let_def CopyMemberConfigs_def)
    next
      case False
      let ?m = "UpdateServiceMemberConfigs member ((Configs member)[nat cfgIndex :=
                  (Configs member ! nat cfgIndex)\<lparr>FileID := cfFileID created,
                     FileMD5 := cfFileMD5 created\<rparr>])"
      obtain r2 w2 where u: "UpdateServiceMember member ?m w1 = (r2, w2)" by fastforce
      have c2: "configRun w1 (isOk r2) w2"
        using UpdateServiceMember_configRun[of w1 member ?m] u by simp
      have c12: "configRun w (isOk r2) w2"
        using configRun_trans[OF _ c2] c1 created by simp
      obtain r3 w3 where d: "DeleteConfigFile (cfServiceUUID cfgfile) (cfFileID cfgfile) w2 = (r3, w3)"
        by fastforce
      have c3: "configRun w2 True w3"
        using DeleteConfigFile_configRun[of w2 True "cfServiceUUID cfgfile" "cfFileID cfgfile"] d
        by simp
      show ?thesis
      proof (cases r2)
        case (Ok x)
        with c12 c3 have "configRun w True w3" using configRun_trans by simp
        with Inr c created False u Ok d show ?thesis
          by (simp add: updateMemberConfig_def Let_def CopyMemberConfigs_def)
      next
        case (Err e)
        with Inr c created False u c12 show ?thesis
          by (simp add: updateMemberConfig_def Let_def CopyMemberConfigs_def)
      next
        case (Panic p)
        with Inr c created False u c12 show ?thesis
          by (simp add: updateMemberConfig_def Let_def CopyMemberConfigs_def)
      qed
    qed
  qed
qed




lemma updateConsulMemberConfig_configRun:
  "configRun w (isOk (fst (updateConsulMemberConfig s member memberips w)))
     (snd (updateConsulMemberConfig s member memberips w))"
proof (cases "firstIndex (\<lambda>c. IsBasicConfigFile (consulcatalog s) (FileName c)) (Configs member)")
  case None
  then show ?thesis by (simp add: updateConsulMemberConfig_def configRun_refl)
next
  case (Some i)
  obtain r1 w1 where g1: "GetConfigFile (ServiceUUID member) (FileID (Configs member ! i)) w = (r1, w1)"
    by fastforce
  have c1: "configRun w b w1" for b
    using GetConfigFile_configRun[of w b "ServiceUUID member" "FileID (Configs member ! i)"] g1
    by simp
  show ?thesis
  proof (cases r1)
    case (Ok cfgfile)
    from updateConsulMemberConfig_always[OF Some g1[unfolded Ok], of memberips]
      configRun_trans[OF c1 updateMemberConfig_configRun]
    show ?thesis by simp
  next
    case (Err e) with Some g1 c1 show ?thesis by (simp add: updateConsulMemberConfig_def)
  next
    case (Panic p) with g1 show ?thesis by simp
  qed
qed




lemma forEach_configRun:
  assumes "\<And>x w. configRun w (isOk (fst (f x w))) (snd (f x w))"
  shows "configRun w (isOk (fst (forEach f xs w))) (snd (forEach f xs w))"
proof (induction xs arbitrary: w)
  case Nil show ?case by (simp add: configRun_refl)
next
  case (Cons x xs)
  obtain r1 w1 where f: "f x w = (r1, w1)" by fastforce
  have c1: "configRun w (isOk r1) w1" using assms[of w x] f by simp
  show ?case
  proof (cases r1)
    case (Ok u)
    with c1 have "configRun w True w1" by simp
    from configRun_trans[OF this Cons.IH[of w1]] f Ok show ?thesis by simp
  next
    case (Err e) with f c1 show ?thesis by simp
  next
    case (Panic p) with f c1 show ?thesis by simp
  qed
qed

text \<open>What a config run means for the phases and the kinds of events.\<close>

lemma configRun_events:
  assumes "configRun w ok w'"
  shows "trace w' = trace w @ runEvents w w'"
    and "\<forall>e\<in>set (runEvents w w'). mutatorPhase (fst e) = 0 \<and> consulPhase (fst e) = 1
           \<and> \<not> isRestartService (fst e) \<and> \<not> isSetServiceInitialized (fst e)"
    and "ok \<Longrightarrow> \<forall>e\<in>set (runEvents w w'). isConfigWrite (fst e) \<longrightarrow> snd e"
    and "attrs (dbIns w') = attrs (dbIns w)"
    and "services (dbIns w') = services (dbIns w)"
    and "fault w' = fault w"
  using assms isConfigCall_phase
  by (auto simp: configRun_def list_all_iff)

subsection \<open>The order of a mutator run\<close>


lemma svc_SetServiceInitialized_trace:
  "trace (snd (svc_SetServiceInitialized c n w))
     = trace w @ [(SvcSetServiceInitialized c n, isOk (fst (svc_SetServiceInitialized c n w)))]"
  unfolding svc_SetServiceInitialized_def by (rule external_trace)

lemma setServiceInitialized_op_trace:
  "trace (snd (setServiceInitialized_op s n w))
     = trace w @ [(SvcSetServiceInitialized (cluster s) n,
                   isOk (fst (svc_SetServiceInitialized (cluster s) n w)))]"
  using svc_SetServiceInitialized_trace[of "cluster s" n w]
  by (cases "svc_SetServiceInitialized (cluster s) n w")
     (auto simp: setServiceInitialized_op_def split: res.splits)




lemmas handler_defs = setMongoDBInit_def mongoDBInitMember_def enableMongoDBAuth_def
  setRedisInit_def redisInitMember_def createRedisClusterFile_def updateRedisConfigs_def
  GetService_def GetServiceAttr_def ListServiceMembers_def RestartService_def
  svc_SetServiceInitialized_def setServiceInitialized_op_def httpError_def
  UpdateTaskStatusMsg_def CreateInitialConfigFile_def runEvents_def










subsection \<open>The check-init handler\<close>

lemma getCatalogServiceOp_resolved:
  assumes "ciService req = Some sc" "Cluster sc = cluster s" "Region sc = region s"
    and "GetService (cluster s) (ServiceName sc) w = (Ok service, w1)"
  shows "getCatalogServiceOp s (Some req) w =
     (case catalogSvcInit w (svcServiceUUID service) of
        Some task \<Rightarrow>
          (Reply [] StatusOK (Some (CatalogCheckServiceInitResponse False (statusMessage task))), w1)
      | None \<Rightarrow>
          (case GetServiceAttr (svcServiceUUID service) w1 of
             (Err err, w2) \<Rightarrow> (httpError s err, w2)
           | (Panic p, w2) \<Rightarrow> (Crash p, w2)
           | (Ok attr, w2) \<Rightarrow>
               (case attrServiceStatus attr of
                  ServiceStatusActive \<Rightarrow>
                    (Reply [] StatusOK (Some (CatalogCheckServiceInitResponse True [])), w2)
                | ServiceStatusInitializing \<Rightarrow>
                    (case ciServiceType req of
                       CatalogService_MongoDB \<Rightarrow>
                         (Reply [] StatusOK (Some (CatalogCheckServiceInitResponse False [])),
                          addMongoDBInitTask s sc (attrServiceUUID attr) (attrReplicas attr)
                            (ciAdmin req) (ciAdminPasswd req) w2)
                     | CatalogService_PostgreSQL \<Rightarrow>
                         (case setServiceInitialized_op s (ServiceName sc) w2 of
                            (Crash p, w3) \<Rightarrow> (Crash p, w3)
                          | (Reply errmsg errcode out, w3) \<Rightarrow>
                              if errcode \<noteq> StatusOK then (Reply errmsg errcode None, w3)
                              else (Reply [] StatusOK
                                      (Some (CatalogCheckServiceInitResponse True [])), w3))
                     | CatalogService_Cassandra \<Rightarrow>
                         (Reply [] StatusOK (Some (CatalogCheckServiceInitResponse False [])),
                          addCasInitTask s sc (attrServiceUUID attr) w2)
                     | CatalogService_ZooKeeper \<Rightarrow>
                         (case setServiceInitialized_op s (ServiceName sc) w2 of
                            (Crash p, w3) \<Rightarrow> (Crash p, w3)
                          | (Reply errmsg errcode out, w3) \<Rightarrow>
                              if errcode \<noteq> StatusOK then (Reply errmsg errcode None, w3)
                              else (Reply [] StatusOK
                                      (Some (CatalogCheckServiceInitResponse True [])), w3))
                     | CatalogService_Kafka \<Rightarrow>
                         (case setServiceInitialized_op s (ServiceName sc) w2 of
                            (Crash p, w3) \<Rightarrow> (Crash p, w3)
                          | (Reply errmsg errcode out, w3) \<Rightarrow>
                              if errcode \<noteq> StatusOK then (Reply errmsg errcode None, w3)
                              else (Reply [] StatusOK
                                      (Some (CatalogCheckServiceInitResponse True [])), w3))
                     | CatalogService_Redis \<Rightarrow>
                         (case addRedisInitTask s sc (attrServiceUUID attr) (ciShards req)
                                 (ciReplicasPerShard req) w2 of
                            (Err err, w3) \<Rightarrow> (httpError s err, w3)
                          | (Panic p, w3) \<Rightarrow> (Crash p, w3)
                          | (Ok u, w3) \<Rightarrow>
                              (Reply [] StatusOK
                                 (Some (CatalogCheckServiceInitResponse False [])), w3))
                     | CatalogService_CouchDB \<Rightarrow>
                         (Reply [] StatusOK (Some (CatalogCheckServiceInitResponse False [])),
                          addCouchDBInitTask s sc (attrServiceUUID attr) (attrReplicas attr)
                            (ciAdmin req) (ciAdminPasswd req) w2)
                     | _ \<Rightarrow> (badRequest, w2))
                | _ \<Rightarrow> (badRequest, w2))))"
proof -
  have t: "catalogSvcInit w1 = catalogSvcInit w"
    using readonly_pair(1)[OF assms(4)] by simp
  show ?thesis
    using assms
    by (simp add: getCatalogServiceOp_def hasInitTask_def t writeResponse_def jsonMarshal_def
        split: option.splits prod.splits res.splits ServiceStatus.splits CatalogService.splits
          hres.splits)
qed

text \<open>
  C1: for a check-init request whose service resolves, the answer has three states.  With
  a live init task for the service UUID the response is not initialized, with the status
  message of the task, and nothing but the service lookup is called.  Without a task,
  when the attributes are read: status ACTIVE gives initialized with the empty message,
  and a status that is neither ACTIVE nor INITIALIZING gives a bad request.
\<close>

theorem getCatalogServiceOp_tri_state:
  assumes "ciService req = Some sc" "Cluster sc = cluster s" "Region sc = region s"
    and "GetService (cluster s) (ServiceName sc) w = (Ok service, w1)"
  shows "(\<forall>task. catalogSvcInit w (svcServiceUUID service) = Some task \<longrightarrow>
            getCatalogServiceOp s (Some req) w =
              (Reply [] StatusOK
                 (Some (CatalogCheckServiceInitResponse False (statusMessage task))), w1))
     \<and> (catalogSvcInit w (svcServiceUUID service) = None \<longrightarrow>
          (\<forall>attr w2. GetServiceAttr (svcServiceUUID service) w1 = (Ok attr, w2) \<longrightarrow>
             (attrServiceStatus attr = ServiceStatusActive \<longrightarrow>
                getCatalogServiceOp s (Some req) w =
                  (Reply [] StatusOK (Some (CatalogCheckServiceInitResponse True [])), w2))
           \<and> (attrServiceStatus attr \<noteq> ServiceStatusActive
                \<and> attrServiceStatus attr \<noteq> ServiceStatusInitializing \<longrightarrow>
                getCatalogServiceOp s (Some req) w = (badRequest, w2))))"
  unfolding getCatalogServiceOp_resolved[OF assms]
  by (auto split: ServiceStatus.splits)

theorem getCatalogServiceOp_tri_state_witness:
  "GetService (cluster exServer) ''svc1''
       (exWorld ''mongod.conf'' ''plain'' ServiceStatusCreating noFault)
     = (Ok \<lparr>svcClusterName = ''c1'', svcServiceName = ''svc1'', svcServiceUUID = ''u1''\<rparr>,
        (exWorld ''mongod.conf'' ''plain'' ServiceStatusCreating noFault)
          \<lparr>trace := [(DbGetService ''c1'' ''svc1'', True)]\<rparr>)
   \<and> catalogSvcInit (exWorld ''mongod.conf'' ''plain'' ServiceStatusCreating noFault) ''u1'' = None
   \<and> getCatalogServiceOp exServer
        (Some \<lparr>ciServiceType = CatalogService_MongoDB, ciService = Some exRequest,
               ciAdmin = ''a'', ciAdminPasswd = ''p'', ciShards = 0, ciReplicasPerShard = 0\<rparr>)
        (exWorld ''mongod.conf'' ''plain'' ServiceStatusCreating noFault)
     = (badRequest,
        (exWorld ''mongod.conf'' ''plain'' ServiceStatusCreating noFault)
          \<lparr>trace := [(DbGetService ''c1'' ''svc1'', True), (DbGetServiceAttr ''u1'', True)]\<rparr>)"
  using getCatalogServiceOp_tri_state [where s = exServer and sc = exRequest
      and req = "\<lparr>ciServiceType = CatalogService_MongoDB, ciService = Some exRequest,
               ciAdmin = ''a'', ciAdminPasswd = ''p'', ciShards = 0, ciReplicasPerShard = 0\<rparr>"
      and w = "exWorld ''mongod.conf'' ''plain'' ServiceStatusCreating noFault"
      and service = "\<lparr>svcClusterName = ''c1'', svcServiceName = ''svc1'', svcServiceUUID = ''u1''\<rparr>"
      and ?w1.0 = "(exWorld ''mongod.conf'' ''plain'' ServiceStatusCreating noFault)
          \<lparr>trace := [(DbGetService ''c1'' ''svc1'', True)]\<rparr>"]
  by (simp add: handler_defs ex_defs external_def)



subsection \<open>The cluster and region check\<close>

lemma mismatch_server:
  assumes "otherClusterOrRegion s (Cluster sc) (Region sc)"
  shows "setServiceInitialized s (Some sc) w = (badRequest, w)"
    and "deleteService s (Some sc) name w = (badRequest, w)"
    and "getServiceAttr s (Some sc) name w = (badRequest, w)"
    and "getServiceStatus s (Some sc) w = (badRequest, w)"
    and "crService req1 = Some sc \<Longrightarrow> createService s (Some req1) name w = (badRequest, w)"
    and "lvService req2 = Some sc \<Longrightarrow> listVolumes s (Some req2) w = (badRequest, w)"
    and "rtService req3 = Some sc \<Longrightarrow> runTask s (Some req3) w = (badRequest, w)"
    and "gtService req4 = Some sc \<Longrightarrow> getTaskStatus s (Some req4) w = (badRequest, w)"
    and "dtService req5 = Some sc \<Longrightarrow> deleteTask s (Some req5) w = (badRequest, w)"
    and "listServices s (Some \<lparr>lsRegion = Region sc, lsCluster = Cluster sc, lsPrefix = pre\<rparr>) w
           = (badRequest, w)"
  using assms
  by (auto simp: otherClusterOrRegion_def setServiceInitialized_def deleteService_def
      getServiceAttr_def getServiceStatus_def createService_def listVolumes_def runTask_def
      getTaskStatus_def deleteTask_def listServices_def)

lemma mismatch_catalog:
  assumes "otherClusterOrRegion s (Cluster sc) (Region sc)"
  shows "ciService req1 = Some sc \<Longrightarrow> getCatalogServiceOp s (Some req1) w = (badRequest, w)"
    and "catalogSetServiceInit s (Some \<lparr>Region = Region sc, Cluster = Cluster sc,
           ServiceName = ServiceName sc, ServiceType = t\<rparr>) w = (badRequest, w)"
    and "setRedisInit s (Some \<lparr>Region = Region sc, Cluster = Cluster sc,
           ServiceName = ServiceName sc, NodeIds = ids\<rparr>) w = (badRequest, w)"
  using assms
  by (auto simp: otherClusterOrRegion_def getCatalogServiceOp_def catalogSetServiceInit_def
      setRedisInit_def)

lemma mismatch_create:
  assumes "otherClusterOrRegion s (Cluster sc) (Region sc)"
  shows "ccService r1 = Some sc \<Longrightarrow> createMongoDBService s (Some r1) w = (badRequest, w)"
    and "ccService r2 = Some sc \<Longrightarrow> createPGService s (Some r2) w = (badRequest, w)"
    and "ccService r3 = Some sc \<Longrightarrow> createCasService s (Some r3) w = (badRequest, w)"
    and "ccService r4 = Some sc \<Longrightarrow> createZkService s (Some r4) w = (badRequest, w)"
    and "ccService r5 = Some sc \<Longrightarrow> createKafkaService s (Some r5) w = (badRequest, w)"
    and "ccService r6 = Some sc \<Longrightarrow> createRedisService s (Some r6) w = (badRequest, w)"
    and "ccService r7 = Some sc \<Longrightarrow> createCouchDBService s (Some r7) w = (badRequest, w)"
    and "ccService r8 = Some sc \<Longrightarrow> createConsulService s (Some r8) w = (badRequest, w)"
    and "ccService r9 = Some sc \<Longrightarrow> createElasticSearchService s (Some r9) w = (badRequest, w)"
    and "ccService r10 = Some sc \<Longrightarrow> createKibanaService s (Some r10) w = (badRequest, w)"
    and "ccService r11 = Some sc \<Longrightarrow> createLogstashService s (Some r11) w = (badRequest, w)"
  using assms
  by (auto simp: otherClusterOrRegion_def createMongoDBService_def createPGService_def
      createCasService_def createZkService_def createKafkaService_def createRedisService_def
      createCouchDBService_def createConsulService_def createElasticSearchService_def
      createKibanaService_def createLogstashService_def)

text \<open>
  C7: every handler that decodes a request body answers a request whose cluster or region
  is not the server's own with a bad request, and returns the world as it was: no call to
  the database, the control-plane service (and so the DNS) or the container platform has
  been made.  This holds for the handlers of \<^verbatim>\<open>server.go\<close> (set-initialized, create,
  delete, list services, list volumes, get attributes, get status, run task, task status,
  delete task) and of \<^verbatim>\<open>catalogservice.go\<close> (check-init, set-init, Redis set-init and
  the eleven catalog creates).
\<close>

theorem cluster_region_mismatch_is_bad_request:
  assumes "otherClusterOrRegion s (Cluster sc) (Region sc)"
  shows "setServiceInitialized s (Some sc) w = (badRequest, w)
     \<and> (\<forall>req name. crService req = Some sc \<longrightarrow> createService s (Some req) name w = (badRequest, w))
     \<and> (\<forall>name. deleteService s (Some sc) name w = (badRequest, w))
     \<and> (\<forall>pre. listServices s (Some \<lparr>lsRegion = Region sc, lsCluster = Cluster sc, lsPrefix = pre\<rparr>) w
          = (badRequest, w))
     \<and> (\<forall>req. lvService req = Some sc \<longrightarrow> listVolumes s (Some req) w = (badRequest, w))
     \<and> (\<forall>name. getServiceAttr s (Some sc) name w = (badRequest, w))
     \<and> getServiceStatus s (Some sc) w = (badRequest, w)
     \<and> (\<forall>req. rtService req = Some sc \<longrightarrow> runTask s (Some req) w = (badRequest, w))
     \<and> (\<forall>req. gtService req = Some sc \<longrightarrow> getTaskStatus s (Some req) w = (badRequest, w))
     \<and> (\<forall>req. dtService req = Some sc \<longrightarrow> deleteTask s (Some req) w = (badRequest, w))
     \<and> (\<forall>req. ciService req = Some sc \<longrightarrow> getCatalogServiceOp s (Some req) w = (badRequest, w))
     \<and> (\<forall>t. catalogSetServiceInit s (Some \<lparr>Region = Region sc, Cluster = Cluster sc,
          ServiceName = ServiceName sc, ServiceType = t\<rparr>) w = (badRequest, w))
     \<and> (\<forall>ids. setRedisInit s (Some \<lparr>Region = Region sc, Cluster = Cluster sc,
          ServiceName = ServiceName sc, NodeIds = ids\<rparr>) w = (badRequest, w))
     \<and> (\<forall>req. ccService req = Some sc \<longrightarrow> createMongoDBService s (Some req) w = (badRequest, w))
     \<and> (\<forall>req. ccService req = Some sc \<longrightarrow> createPGService s (Some req) w = (badRequest, w))
     \<and> (\<forall>req. ccService req = Some sc \<longrightarrow> createCasService s (Some req) w = (badRequest, w))
     \<and> (\<forall>req. ccService req = Some sc \<longrightarrow> createZkService s (Some req) w = (badRequest, w))
     \<and> (\<forall>req. ccService req = Some sc \<longrightarrow> createKafkaService s (Some req) w = (badRequest, w))
     \<and> (\<forall>req. ccService req = Some sc \<longrightarrow> createRedisService s (Some req) w = (badRequest, w))
     \<and> (\<forall>req. ccService req = Some sc \<longrightarrow> createCouchDBService s (Some req) w = (badRequest, w))
     \<and> (\<forall>req. ccService req = Some sc \<longrightarrow> createConsulService s (Some req) w = (badRequest, w))
     \<and> (\<forall>req. ccService req = Some sc \<longrightarrow> createElasticSearchService s (Some req) w = (badRequest, w))
     \<and> (\<forall>req. ccService req = Some sc \<longrightarrow> createKibanaService s (Some req) w = (badRequest, w))
     \<and> (\<forall>req. ccService req = Some sc \<longrightarrow> createLogstashService s (Some req) w = (badRequest, w))"
  using mismatch_server[OF assms] mismatch_catalog[OF assms] mismatch_create[OF assms]
  by (intro conjI allI impI) blast+

theorem cluster_region_mismatch_is_bad_request_witness:
  "otherClusterOrRegion exServer ''c2'' ''r''
   \<and> deleteService exServer (Some \<lparr>Region = ''r'', Cluster = ''c2'', ServiceName = ''svc1''\<rparr>)
        ''svc1'' (exWorld ''mongod.conf'' ''plain'' ServiceStatusActive noFault)
       = (Reply ''Bad Request'' 400 None,
          exWorld ''mongod.conf'' ''plain'' ServiceStatusActive noFault)
   \<and> createConsulService exServer
        (Some \<lparr>ccService = Some \<lparr>Region = ''r'', Cluster = ''c2'', ServiceName = ''svc1''\<rparr>,
               ccResource = None, ccOptions = None\<rparr>)
        (exWorld ''mongod.conf'' ''plain'' ServiceStatusActive noFault)
       = (Reply ''Bad Request'' 400 None,
          exWorld ''mongod.conf'' ''plain'' ServiceStatusActive noFault)"
  using cluster_region_mismatch_is_bad_request [where s = exServer
      and sc = "\<lparr>Region = ''r'', Cluster = ''c2'', ServiceName = ''svc1''\<rparr>"
      and w = "exWorld ''mongod.conf'' ''plain'' ServiceStatusActive noFault"]
  by (simp add: otherClusterOrRegion_def exServer_def badRequest_def StatusText_def
      StatusBadRequest_def)

subsection \<open>The Consul create\<close>

lemma updateMemberConfig_Ok_events:
  assumes "fst (updateMemberConfig s member cfgfile cfgIndex newContent w) = Ok ()"
  shows "\<exists>ver m'. (DbCreateConfigFile (UpdateConfigFile s cfgfile
             (GenMemberConfigFileID (utils s) (MemberName member) (cfFileName cfgfile) (ver + 1))
             newContent), True)
           \<in> set (runEvents w (snd (updateMemberConfig s member cfgfile cfgIndex newContent w)))
         \<and> (DbUpdateServiceMember member m', True)
           \<in> set (runEvents w (snd (updateMemberConfig s member cfgfile cfgIndex newContent w)))"
proof (cases "GetConfigFileVersion (utils s) (cfFileID cfgfile)")
  case (Inl e)
  with assms show ?thesis by (simp add: updateMemberConfig_def)
next
  case (Inr version)
  let ?f = "UpdateConfigFile s cfgfile (GenMemberConfigFileID (utils s) (MemberName member)
              (cfFileName cfgfile) (version + 1)) newContent"
  obtain r1 w1 where c: "CreateConfigFile ?f w = (r1, w1)" by fastforce
  have t1: "trace w1 = trace w @ [(DbCreateConfigFile ?f, isOk r1)]"
    using CreateConfigFile_trace[of ?f w] c by simp
  show ?thesis
  proof (cases r1)
    case (Err e)
    with Inr c assms show ?thesis by (simp add: updateMemberConfig_def Let_def)
  next
    case (Panic p)
    with Inr c assms show ?thesis by (simp add: updateMemberConfig_def Let_def)
  next
    case (Ok created)
    show ?thesis
    proof (cases "cfgIndex < 0 \<or> int (length (Configs member)) \<le> cfgIndex")
      case True
      with Inr c Ok assms show ?thesis
        by (auto simp: updateMemberConfig_def Let_def CopyMemberConfigs_def)
    next
      case False
      let ?m = "UpdateServiceMemberConfigs member ((Configs member)[nat cfgIndex :=
                  (Configs member ! nat cfgIndex)\<lparr>FileID := cfFileID created,
                     FileMD5 := cfFileMD5 created\<rparr>])"
      obtain r2 w2 where u: "UpdateServiceMember member ?m w1 = (r2, w2)" by fastforce
      have t2: "trace w2 = trace w1 @ [(DbUpdateServiceMember member ?m, isOk r2)]"
        using UpdateServiceMember_trace[of member ?m w1] u by simp
      obtain r3 w3 where d: "DeleteConfigFile (cfServiceUUID cfgfile) (cfFileID cfgfile) w2 = (r3, w3)"
        by fastforce
      have t3: "trace w3 = trace w2 @ [(DbDeleteConfigFile (cfServiceUUID cfgfile) (cfFileID cfgfile), isOk r3)]"
        using DeleteConfigFile_trace[of "cfServiceUUID cfgfile" "cfFileID cfgfile" w2] d by simp
      show ?thesis
      proof (cases r2)
        case (Ok x)
        have "snd (updateMemberConfig s member cfgfile cfgIndex newContent w) = w3"
          using Inr c \<open>r1 = Ok created\<close> False u Ok d
          by (simp add: updateMemberConfig_def Let_def CopyMemberConfigs_def)
        then show ?thesis
          using t1 t2 t3 \<open>r1 = Ok created\<close> Ok
          by (auto simp: runEvents_def intro!: exI[of _ version] exI[of _ ?m])
      next
        case (Err e)
        with Inr c \<open>r1 = Ok created\<close> False u assms show ?thesis
          by (simp add: updateMemberConfig_def Let_def CopyMemberConfigs_def)
      next
        case (Panic p)
        with Inr c \<open>r1 = Ok created\<close> False u assms show ?thesis
          by (simp add: updateMemberConfig_def Let_def CopyMemberConfigs_def)
      qed
    qed
  qed
qed

lemma consulMemberRewritten_mono:
  "consulMemberRewritten s mp evs m \<Longrightarrow> set evs \<subseteq> set evs' \<Longrightarrow> consulMemberRewritten s mp evs' m"
  unfolding consulMemberRewritten_def by blast

lemma updateConsulMemberConfig_Ok:
  assumes "updateConsulMemberConfig s m mp w = (Ok (), w')"
  shows "consulMemberRewritten s mp (runEvents w w') m"
proof (cases "firstIndex (\<lambda>c. IsBasicConfigFile (consulcatalog s) (FileName c)) (Configs m)")
  case None
  with assms show ?thesis by (simp add: updateConsulMemberConfig_def)
next
  case (Some i)
  obtain r1 w1 where g1: "GetConfigFile (ServiceUUID m) (FileID (Configs m ! i)) w = (r1, w1)"
    by fastforce
  have t1: "trace w1 = trace w @ [(DbGetConfigFile (ServiceUUID m) (FileID (Configs m ! i)), isOk r1)]"
    using readonly_pair(4)[OF g1] by simp
  show ?thesis
  proof (cases r1)
    case (Ok cfgfile)
    let ?c = "ReplaceMemberName (consulcatalog s) (cfContent cfgfile) mp"
    have e: "updateConsulMemberConfig s m mp w = updateMemberConfig s m cfgfile (int i) ?c w1"
      using updateConsulMemberConfig_always[OF Some g1[unfolded Ok]] .
    with assms have ok: "fst (updateMemberConfig s m cfgfile (int i) ?c w1) = Ok ()"
      and w': "snd (updateMemberConfig s m cfgfile (int i) ?c w1) = w'" by simp_all
    have c: "configRun w1 True w'"
      using updateMemberConfig_configRun[of w1 s m cfgfile "int i" ?c] ok w' by simp
    have sub: "set (runEvents w1 w') \<subseteq> set (runEvents w w')"
      using t1 by (simp add: runEvents_def set_drop_subset_set_drop)
    from updateMemberConfig_Ok_events[OF ok] w'
    have "consulMemberRewritten s mp (runEvents w1 w') m"
      unfolding consulMemberRewritten_def by blast
    from consulMemberRewritten_mono[OF this sub] show ?thesis .
  next
    case (Err e) with Some g1 assms show ?thesis by (simp add: updateConsulMemberConfig_def)
  next
    case (Panic p) with g1 show ?thesis by simp
  qed
qed

lemma forEach_consul_Ok:
  assumes "forEach (\<lambda>m. updateConsulMemberConfig s m mp) ms w = (Ok (), w')"
  shows "\<forall>m\<in>set ms. consulMemberRewritten s mp (runEvents w w') m"
  using assms
proof (induction ms arbitrary: w)
  case Nil show ?case by simp
next
  case (Cons m ms)
  obtain r1 w1 where f: "updateConsulMemberConfig s m mp w = (r1, w1)" by fastforce
  with Cons.prems have r1: "r1 = Ok ()" and rest: "forEach (\<lambda>m. updateConsulMemberConfig s m mp) ms w1 = (Ok (), w')"
    by (auto split: res.splits)
  have c1: "configRun w True w1"
    using updateConsulMemberConfig_configRun[of w s m mp] f r1 by simp
  have c2: "configRun w1 True w'"
    using forEach_configRun[of "\<lambda>m. updateConsulMemberConfig s m mp" w1 ms,
        OF updateConsulMemberConfig_configRun] rest by simp
  have e: "runEvents w w' = runEvents w w1 @ runEvents w1 w'"
    using configRun_events(1)[OF c1] configRun_events(1)[OF c2] by (rule runEvents_trans)
  have a: "consulMemberRewritten s mp (runEvents w w') m"
    using consulMemberRewritten_mono[OF updateConsulMemberConfig_Ok[OF f[unfolded r1]]] e by simp
  have b: "\<forall>x\<in>set ms. consulMemberRewritten s mp (runEvents w w') x"
    using Cons.IH[OF rest] consulMemberRewritten_mono e by (metis Un_iff set_append subsetI)
  from a b show ?case by simp
qed

lemma svc_CreateService_run:
  assumes "svc_CreateService s crReq d v w = (r, w1)"
  shows "trace w1 = trace w @ [(SvcCreateService crReq d v, isOk r)]"
    and "\<And>uuid. r = Ok uuid \<Longrightarrow>
           CreateService (manage s) crReq d v (dbIns w) = Inr (uuid, dbIns w1)"
    and "\<And>p. r \<noteq> Panic p"
  using assms
  by (auto simp: svc_CreateService_def external_def split: option.splits sum.splits prod.splits)

lemma createContainerService_run:
  assumes "createContainerService s crReq uuid w = (r, w')"
  shows "trace w' = trace w @ runEvents w w'"
    and "\<forall>e\<in>set (runEvents w w'). consulPhase (fst e) = 2"
    and "dbIns w' = dbIns w"
  using assms
  by (auto simp: createContainerService_def IsServiceExist_def containersvc_CreateService_def
      external_def runEvents_def split: option.splits prod.splits res.splits if_splits)

lemma updateConsulConfigs_run:
  assumes "updateConsulConfigs s uuid domain w = (r, w')"
  shows "trace w' = trace w @ runEvents w w'"
    and "\<forall>e\<in>set (runEvents w w'). consulPhase (fst e) = 1"
    and "services (dbIns w') = services (dbIns w)"
    and "attrs (dbIns w') = attrs (dbIns w)"
    and "\<And>ips. r = Ok ips \<Longrightarrow> ips = map StaticIP (serviceMembers (dbIns w) uuid)
           \<and> (\<forall>m\<in>set (serviceMembers (dbIns w) uuid).
                 consulMemberRewritten s (consulMemberIPs s domain (serviceMembers (dbIns w) uuid))
                   (runEvents w w') m)"
proof -
  obtain r1 w1 where l: "ListServiceMembers uuid w = (r1, w1)" by fastforce
  note ro = readonly_pair(3)[OF l]
  have t1: "trace w1 = trace w @ [(DbListServiceMembers uuid, isOk r1)]" using ro by simp
  have d1: "dbIns w1 = dbIns w" using ro by simp
  have "trace w' = trace w @ runEvents w w'
      \<and> (\<forall>e\<in>set (runEvents w w'). consulPhase (fst e) = 1)
      \<and> services (dbIns w') = services (dbIns w)
      \<and> attrs (dbIns w') = attrs (dbIns w)
      \<and> (\<forall>ips. r = Ok ips \<longrightarrow> ips = map StaticIP (serviceMembers (dbIns w) uuid)
           \<and> (\<forall>m\<in>set (serviceMembers (dbIns w) uuid).
                 consulMemberRewritten s (consulMemberIPs s domain (serviceMembers (dbIns w) uuid))
                   (runEvents w w') m))"
  proof (cases r1)
    case (Err e)
    with l assms have "w' = w1" "r = Err e" by (simp_all add: updateConsulConfigs_def)
    with t1 d1 show ?thesis by (simp add: runEvents_def)
  next
    case (Panic p)
    with l assms have "w' = w1" "r = Panic p" by (simp_all add: updateConsulConfigs_def)
    with t1 d1 show ?thesis by (simp add: runEvents_def)
  next
    case (Ok members)
    have ms: "members = serviceMembers (dbIns w) uuid"
      using ListServiceMembers_Ok[OF l[unfolded Ok]] .
    let ?mp = "consulMemberIPs s domain members"
    let ?f = "\<lambda>m. updateConsulMemberConfig s m ?mp"
    obtain r2 w2 where f: "forEach ?f members w1 = (r2, w2)" by fastforce
    have c: "configRun w1 (isOk r2) w2"
      using forEach_configRun[of ?f w1 members, OF updateConsulMemberConfig_configRun] f by simp
    have w': "w' = w2" using l Ok f assms
      by (auto simp: updateConsulConfigs_def Let_def split: res.splits)
    have t2: "trace w2 = trace w1 @ runEvents w1 w2" using configRun_events(1)[OF c] .
    have e1: "runEvents w w1 = [(DbListServiceMembers uuid, isOk r1)]"
      using t1 by (simp add: runEvents_def)
    have e: "runEvents w w2 = (DbListServiceMembers uuid, isOk r1) # runEvents w1 w2"
      using runEvents_trans[of w1 w w2] t1 t2 e1 by simp
    have ph: "\<forall>e\<in>set (runEvents w1 w2). consulPhase (fst e) = 1"
      using configRun_events(2)[OF c] by blast
    have rw: "\<forall>m\<in>set members. consulMemberRewritten s ?mp (runEvents w w2) m" if "r2 = Ok ()"
    proof -
      from f that have "forEach ?f members w1 = (Ok (), w2)" by simp
      from forEach_consul_Ok[OF this] consulMemberRewritten_mono show ?thesis
        unfolding e by (metis set_subset_Cons)
    qed
    have res: "r = Ok ips \<Longrightarrow> r2 = Ok () \<and> ips = map StaticIP members" for ips
      using l Ok f assms by (auto simp: updateConsulConfigs_def Let_def split: res.splits)
    show ?thesis
      unfolding w' using t1 t2 e ph rw res configRun_events(4,5)[OF c] d1 ms
      by auto
  qed
  then show "trace w' = trace w @ runEvents w w'"
    and "\<forall>e\<in>set (runEvents w w'). consulPhase (fst e) = 1"
    and "services (dbIns w') = services (dbIns w)"
    and "attrs (dbIns w') = attrs (dbIns w)"
    and "\<And>ips. r = Ok ips \<Longrightarrow> ips = map StaticIP (serviceMembers (dbIns w) uuid)
           \<and> (\<forall>m\<in>set (serviceMembers (dbIns w) uuid).
                 consulMemberRewritten s (consulMemberIPs s domain (serviceMembers (dbIns w) uuid))
                   (runEvents w w') m)"
    by blast+
qed

lemma svc_SetServiceInitialized_Ok:
  assumes "svc_SetServiceInitialized c n w = (Ok (), w')"
  shows "serviceIsActive c n (dbIns w')"
  using assms
  by (auto simp: svc_SetServiceInitialized_def external_def serviceIsActive_def
      split: option.splits)

lemma setServiceInitialized_op_result:
  assumes "\<forall>e. fst (ConvertToHTTPError (manage s) e) \<noteq> []"
    and "setServiceInitialized_op s n w = (Reply [] code out, w')"
  shows "svc_SetServiceInitialized (cluster s) n w = (Ok (), w')"
proof (cases "svc_SetServiceInitialized (cluster s) n w")
  case (Pair r1 w1)
  show ?thesis
  proof (cases r1)
    case (Ok u) with Pair assms(2) show ?thesis by (simp add: setServiceInitialized_op_def)
  next
    case (Err e)
    with Pair assms(2) have "httpError s e = Reply [] code out"
      by (simp add: setServiceInitialized_op_def)
    with assms(1)[rule_format, of e] show ?thesis
      by (simp add: httpError_def split: prod.splits)
  next
    case (Panic p) with Pair assms(2) show ?thesis by (simp add: setServiceInitialized_op_def)
  qed
qed

lemma runEvents_from:
  "trace w' = trace w @ evs \<Longrightarrow> runEvents w w' = evs"
  by (simp add: runEvents_def)

lemma createConsulService_run:
  fixes s req sc w
  assumes rq: "ccService req = Some sc" "Cluster sc = cluster s" "Region sc = region s"
    and va: "consul_ValidateRequest (consulcatalog s) req = None"
    and msg: "\<forall>e. fst (ConvertToHTTPError (manage s) e) \<noteq> []"
    and cr: "crReq = consul_GenDefaultCreateServiceRequest (consulcatalog s) (platform s)
                    (region s) (azs s) (cluster s) (ServiceName sc) (ccResource req)
                    (ccOptions req)"
    and dm: "domain = GenDefaultDomainName (dns s) (cluster s)"
    and r: "r = createConsulService s (Some req) w"
    and evs: "evs = runEvents w (snd r)"
  shows "\<exists>b E2 E3 E4.
           trace (snd r) = trace w @ evs
         \<and> evs = (SvcCreateService crReq domain (vpcID s), b) # E2 @ E3 @ E4
         \<and> (\<forall>e\<in>set E2. consulPhase (fst e) = 1)
         \<and> (\<forall>e\<in>set E3. consulPhase (fst e) = 2)
         \<and> (E4 = [] \<or> (\<exists>b4. E4 = [(SvcSetServiceInitialized (cluster s) (ServiceName sc), b4)]))
         \<and> (E3 \<noteq> [] \<or> E4 \<noteq> [] \<longrightarrow>
               b \<and> (\<exists>uuid db'. CreateService (manage s) crReq domain (vpcID s) (dbIns w)
                        = Inr (uuid, db')
                  \<and> (\<forall>m\<in>set (serviceMembers db' uuid).
                        consulMemberRewritten s (consulMemberIPs s domain (serviceMembers db' uuid))
                          E2 m)))
         \<and> (\<forall>body. fst r = Reply [] StatusOK (Some body) \<longrightarrow>
               E4 = [(SvcSetServiceInitialized (cluster s) (ServiceName sc), True)]
             \<and> serviceIsActive (cluster s) (ServiceName sc) (dbIns (snd r))
             \<and> (\<exists>uuid db'. CreateService (manage s) crReq domain (vpcID s) (dbIns w)
                        = Inr (uuid, db')
                  \<and> body = CatalogCreateConsulResponse (map StaticIP (serviceMembers db' uuid))))"
proof -
  let ?e1 = "SvcCreateService crReq domain (vpcID s)"
  let ?e4 = "SvcSetServiceInitialized (cluster s) (ServiceName sc)"
  obtain r1 w1 where c1: "svc_CreateService s crReq domain (vpcID s) w = (r1, w1)" by fastforce
  note s1 = svc_CreateService_run[OF c1]
  have hE: "httpError s e \<noteq> Reply [] c (Some body)" for e c body
    by (simp add: httpError_def split: prod.splits)
  show ?thesis
  proof (cases r1)
    case (Panic p) with s1(3)[of p] show ?thesis by simp
  next
    case (Err e)
    have rr: "r = (httpError s e, w1)"
      using rq va c1 Err unfolding r createConsulService_def
          by (simp add: Let_def cr[symmetric] dm[symmetric])
    have ev: "evs = [(?e1, False)]" unfolding evs rr using s1(1) Err
      by (simp add: runEvents_from)
    show ?thesis
      apply (rule exI[of _ False], rule exI[of _ "[]"], rule exI[of _ "[]"], rule exI[of _ "[]"])
      using ev s1(1) Err hE by (simp add: rr)
  next
    case (Ok uuid)
    have db': "CreateService (manage s) crReq domain (vpcID s) (dbIns w) = Inr (uuid, dbIns w1)"
      using s1(2)[OF Ok] .
    obtain r2 w2 where c2: "updateConsulConfigs s uuid domain w1 = (r2, w2)" by fastforce
    note s2 = updateConsulConfigs_run[OF c2]
    define E2 where "E2 = runEvents w1 w2"
    have t2: "trace w2 = trace w @ (?e1, True) # E2"
      using s1(1) s2(1) Ok by (simp add: E2_def)
    have p2: "\<forall>e\<in>set E2. consulPhase (fst e) = 1" using s2(2) by (simp add: E2_def)
    have stop2: ?thesis if rr: "r = (h, w2)" and h: "\<forall>body. h \<noteq> Reply [] StatusOK (Some body)" for h
    proof -
      have ev: "evs = (?e1, True) # E2" unfolding evs rr using t2 by (simp add: runEvents_from)
      show ?thesis
        apply (rule exI[of _ True], rule exI[of _ E2], rule exI[of _ "[]"], rule exI[of _ "[]"])
        using ev t2 p2 h by (simp add: rr)
    qed
    show ?thesis
    proof (cases r2)
      case (Err e)
      have "r = (httpError s e, w2)"
        using rq va c1 Ok c2 Err unfolding r createConsulService_def
          by (simp add: Let_def cr[symmetric] dm[symmetric])
      from stop2[OF this] hE show ?thesis by simp
    next
      case (Panic p)
      have "r = (Crash p, w2)"
        using rq va c1 Ok c2 Panic unfolding r createConsulService_def
          by (simp add: Let_def cr[symmetric] dm[symmetric])
      from stop2[OF this] show ?thesis by simp
    next
      case ips: (Ok ips)
      have ipsv: "ips = map StaticIP (serviceMembers (dbIns w1) uuid)"
        and rw: "\<forall>m\<in>set (serviceMembers (dbIns w1) uuid).
                 consulMemberRewritten s (consulMemberIPs s domain (serviceMembers (dbIns w1) uuid))
                   E2 m"
        using s2(5)[OF ips] by (simp_all add: E2_def)
      obtain r3 w3 where c3: "createContainerService s crReq uuid w2 = (r3, w3)" by fastforce
      note s3 = createContainerService_run[OF c3]
      define E3 where "E3 = runEvents w2 w3"
      have t3: "trace w3 = trace w @ (?e1, True) # E2 @ E3"
        using t2 s3(1) by (simp add: E3_def)
      have p3: "\<forall>e\<in>set E3. consulPhase (fst e) = 2" using s3(2) by (simp add: E3_def)
      have stop3: ?thesis if rr: "r = (h, w3)" and h: "\<forall>body. h \<noteq> Reply [] StatusOK (Some body)" for h
      proof -
        have ev: "evs = (?e1, True) # E2 @ E3" unfolding evs rr using t3 by (simp add: runEvents_from)
        show ?thesis
          apply (rule exI[of _ True], rule exI[of _ E2], rule exI[of _ E3], rule exI[of _ "[]"])
          using ev t3 p2 p3 h db' rw by (simp add: rr)
      qed
      show ?thesis
      proof (cases r3)
        case (Err e)
        have "r = (httpError s e, w3)"
          using rq va c1 Ok c2 ips c3 Err
          unfolding r createConsulService_def
          by (simp add: Let_def cr[symmetric] dm[symmetric])
        from stop3[OF this] hE show ?thesis by simp
      next
        case (Panic p)
        have "r = (Crash p, w3)"
          using rq va c1 Ok c2 ips c3 Panic
          unfolding r createConsulService_def
          by (simp add: Let_def cr[symmetric] dm[symmetric])
        from stop3[OF this] show ?thesis by simp
      next
        case u: (Ok u)
        obtain h w4 where c4: "setServiceInitialized_op s (ServiceName sc) w3 = (h, w4)"
          by fastforce
        define b4 where "b4 = isOk (fst (svc_SetServiceInitialized (cluster s) (ServiceName sc) w3))"
        have t4: "trace w4 = trace w @ (?e1, True) # E2 @ E3 @ [(?e4, b4)]"
          using setServiceInitialized_op_trace[of s "ServiceName sc" w3] c4 t3
          by (simp add: b4_def)
        have stop4: ?thesis if rr: "snd r = w4"
          and h: "\<forall>body. fst r = Reply [] StatusOK (Some body) \<longrightarrow>
                    b4 \<and> serviceIsActive (cluster s) (ServiceName sc) (dbIns w4) \<and> body = CatalogCreateConsulResponse ips"
        proof -
          have ev: "evs = (?e1, True) # E2 @ E3 @ [(?e4, b4)]"
            unfolding evs rr using t4 by (simp add: runEvents_from)
          show ?thesis
            apply (rule exI[of _ True], rule exI[of _ E2], rule exI[of _ E3],
                rule exI[of _ "[(?e4, b4)]"])
            using ev t4 p2 p3 h db' rw ipsv by (auto simp: rr)
        qed
        have re: "r = (case h of Crash p \<Rightarrow> (Crash p, w4)
                    | Reply errmsg errcode out \<Rightarrow>
                        if length errmsg \<noteq> 0 then (Reply errmsg errcode None, w4)
                        else writeResponse (CatalogCreateConsulResponse ips) w4)"
          using rq va c1 Ok c2 ips c3 u c4
          unfolding r createConsulService_def
          by (simp add: Let_def cr[symmetric] dm[symmetric])
        show ?thesis
        proof (cases h)
          case (Crash p)
          with re have "r = (Crash p, w4)" by simp
          then show ?thesis by (intro stop4) simp_all
        next
          case (Reply errmsg errcode out)
          show ?thesis
          proof (cases "errmsg = []")
            case False
            with re Reply have "r = (Reply errmsg errcode None, w4)" by simp
            then show ?thesis by (intro stop4) simp_all
          next
            case True
            with re Reply have rr: "r = (Reply [] StatusOK (Some (CatalogCreateConsulResponse ips)), w4)"
              by (simp add: writeResponse_def jsonMarshal_def)
            have ok: "svc_SetServiceInitialized (cluster s) (ServiceName sc) w3 = (Ok (), w4)"
              using setServiceInitialized_op_result[OF msg c4[unfolded Reply True]] .
            have "b4" using ok by (simp add: b4_def)
            moreover have "serviceIsActive (cluster s) (ServiceName sc) (dbIns w4)"
              using svc_SetServiceInitialized_Ok[OF ok] .
            ultimately show ?thesis using rr by (intro stop4) simp_all
          qed
        qed
      qed
    qed
  qed
qed

lemma consulMemberIPs_snoc:
  "consulMemberIPs s domain (ms @ [m])
     = (consulMemberIPs s domain ms)(GenDNSName (dns s) (MemberName m) domain \<mapsto> StaticIP m)"
  by (simp add: consulMemberIPs_def)

lemma consulMemberIPs_lookup:
  assumes "distinct (map (\<lambda>m. GenDNSName (dns s) (MemberName m) domain) ms)" "m \<in> set ms"
  shows "consulMemberIPs s domain ms (GenDNSName (dns s) (MemberName m) domain) = Some (StaticIP m)"
  using assms
proof (induction ms rule: rev_induct)
  case Nil then show ?case by simp
next
  case (snoc x xs)
  then show ?case by (auto simp: consulMemberIPs_snoc) (metis imageI)
qed

lemma sorted_const: "\<forall>x\<in>set xs. f x = (c::nat) \<Longrightarrow> sorted (map f xs)"
  by (induction xs) auto

lemma takeWhile_prefix:
  "\<forall>x\<in>set xs. P x \<Longrightarrow> \<forall>y\<in>set ys. \<not> P y \<Longrightarrow> takeWhile P (xs @ ys) = xs"
  by (cases ys) (simp_all add: takeWhile_append2 takeWhile_tail)

text \<open>
  C8: for a Consul create that passes the cluster, region and parameter checks, the
  logged calls of every run are the control-plane create first, then the listing of the
  members and the rewrite of their configs, then the calls of the container platform,
  then the set-initialized call.  A call of the container platform or the
  set-initialized call occurs only after the control-plane create succeeded and every
  listed member was rewritten through the map of member IPs, which maps the DNS name of
  each listed member to its static IP when the DNS names are distinct.  When the handler
  answers 200 with a body, the body carries the static IPs of the listed members in the
  order of the listing, the last call is the successful set-initialized call and the
  service is ACTIVE; the error messages of the conversion are taken to be non-empty.
\<close>

theorem createConsulService_rewrites_between_creates:
  fixes s req sc w
  assumes rq: "ccService req = Some sc" "Cluster sc = cluster s" "Region sc = region s"
    and va: "consul_ValidateRequest (consulcatalog s) req = None"
    and msg: "\<forall>e. fst (ConvertToHTTPError (manage s) e) \<noteq> []"
    and cr: "crReq = consul_GenDefaultCreateServiceRequest (consulcatalog s) (platform s)
                    (region s) (azs s) (cluster s) (ServiceName sc) (ccResource req)
                    (ccOptions req)"
    and dm: "domain = GenDefaultDomainName (dns s) (cluster s)"
    and r: "r = createConsulService s (Some req) w"
    and evs: "evs = runEvents w (snd r)"
  shows "trace (snd r) = trace w @ evs
     \<and> sorted (map (consulPhase \<circ> fst) evs)
     \<and> (\<exists>b rest. evs = (SvcCreateService crReq domain (vpcID s), b) # rest
           \<and> (\<forall>e\<in>set rest. 1 \<le> consulPhase (fst e)))
     \<and> ((\<exists>e\<in>set evs. 2 \<le> consulPhase (fst e)) \<longrightarrow>
           (SvcCreateService crReq domain (vpcID s), True) \<in> set evs
         \<and> (\<exists>uuid db'. CreateService (manage s) crReq domain (vpcID s) (dbIns w) = Inr (uuid, db')
              \<and> (\<forall>m\<in>set (serviceMembers db' uuid).
                    consulMemberRewritten s (consulMemberIPs s domain (serviceMembers db' uuid))
                      (takeWhile (\<lambda>e. consulPhase (fst e) < 2) evs) m)))
     \<and> (\<forall>ms. distinct (map (\<lambda>m. GenDNSName (dns s) (MemberName m) domain) ms) \<longrightarrow>
           (\<forall>m\<in>set ms. consulMemberIPs s domain ms (GenDNSName (dns s) (MemberName m) domain)
                          = Some (StaticIP m)))
     \<and> (\<forall>body. fst r = Reply [] StatusOK (Some body) \<longrightarrow>
           (\<exists>uuid db'. CreateService (manage s) crReq domain (vpcID s) (dbIns w) = Inr (uuid, db')
              \<and> body = CatalogCreateConsulResponse (map StaticIP (serviceMembers db' uuid)))
         \<and> last evs = (SvcSetServiceInitialized (cluster s) (ServiceName sc), True)
         \<and> serviceIsActive (cluster s) (ServiceName sc) (dbIns (snd r)))"
proof -
  let ?e1 = "SvcCreateService crReq domain (vpcID s)"
  let ?e4 = "SvcSetServiceInitialized (cluster s) (ServiceName sc)"
  let ?P = "\<lambda>e. consulPhase (fst e) < 2"
  from createConsulService_run[OF rq va msg cr dm r evs]
  obtain b E2 E3 E4 where
    t: "trace (snd r) = trace w @ evs"
    and e: "evs = (?e1, b) # E2 @ E3 @ E4"
    and p2: "\<forall>e\<in>set E2. consulPhase (fst e) = 1"
    and p3: "\<forall>e\<in>set E3. consulPhase (fst e) = 2"
    and p4: "E4 = [] \<or> (\<exists>b4. E4 = [(?e4, b4)])"
    and g: "E3 \<noteq> [] \<or> E4 \<noteq> [] \<longrightarrow>
               b \<and> (\<exists>uuid db'. CreateService (manage s) crReq domain (vpcID s) (dbIns w)
                        = Inr (uuid, db')
                  \<and> (\<forall>m\<in>set (serviceMembers db' uuid).
                        consulMemberRewritten s (consulMemberIPs s domain (serviceMembers db' uuid))
                          E2 m))"
    and ok: "\<forall>body. fst r = Reply [] StatusOK (Some body) \<longrightarrow>
               E4 = [(?e4, True)]
             \<and> serviceIsActive (cluster s) (ServiceName sc) (dbIns (snd r))
             \<and> (\<exists>uuid db'. CreateService (manage s) crReq domain (vpcID s) (dbIns w)
                        = Inr (uuid, db')
                  \<and> body = CatalogCreateConsulResponse (map StaticIP (serviceMembers db' uuid)))"
    by blast
  have q4: "\<forall>e\<in>set E4. consulPhase (fst e) = 3" using p4 by auto
  have a: "sorted (map (consulPhase \<circ> fst) evs)"
    unfolding e
    using p2 p3 q4 sorted_const[of E2 "consulPhase \<circ> fst" 1]
      sorted_const[of E3 "consulPhase \<circ> fst" 2] sorted_const[of E4 "consulPhase \<circ> fst" 3]
    by (auto simp: sorted_append)
  have b: "\<exists>b rest. evs = (?e1, b) # rest \<and> (\<forall>e\<in>set rest. 1 \<le> consulPhase (fst e))"
    unfolding e using p2 p3 q4 by auto
  have tw: "takeWhile ?P evs = (?e1, b) # E2"
  proof -
    have "takeWhile ?P (((?e1, b) # E2) @ (E3 @ E4)) = (?e1, b) # E2"
      using p2 p3 q4 by (intro takeWhile_prefix) auto
    then show ?thesis by (simp add: e)
  qed
  have c: "(\<exists>e\<in>set evs. 2 \<le> consulPhase (fst e)) \<longrightarrow>
           (?e1, True) \<in> set evs
         \<and> (\<exists>uuid db'. CreateService (manage s) crReq domain (vpcID s) (dbIns w) = Inr (uuid, db')
              \<and> (\<forall>m\<in>set (serviceMembers db' uuid).
                    consulMemberRewritten s (consulMemberIPs s domain (serviceMembers db' uuid))
                      (takeWhile ?P evs) m))"
  proof
    assume "\<exists>e\<in>set evs. 2 \<le> consulPhase (fst e)"
    then have "E3 \<noteq> [] \<or> E4 \<noteq> []" unfolding e using p2 by auto
    with g obtain uuid db' where bt: b
      and cs: "CreateService (manage s) crReq domain (vpcID s) (dbIns w) = Inr (uuid, db')"
      and rw: "\<forall>m\<in>set (serviceMembers db' uuid).
                 consulMemberRewritten s (consulMemberIPs s domain (serviceMembers db' uuid)) E2 m"
      by blast
    have "\<forall>m\<in>set (serviceMembers db' uuid).
            consulMemberRewritten s (consulMemberIPs s domain (serviceMembers db' uuid))
              (takeWhile ?P evs) m"
      unfolding tw using rw consulMemberRewritten_mono by (metis set_subset_Cons)
    with bt cs show "(?e1, True) \<in> set evs
         \<and> (\<exists>uuid db'. CreateService (manage s) crReq domain (vpcID s) (dbIns w) = Inr (uuid, db')
              \<and> (\<forall>m\<in>set (serviceMembers db' uuid).
                    consulMemberRewritten s (consulMemberIPs s domain (serviceMembers db' uuid))
                      (takeWhile ?P evs) m))"
      unfolding e by auto
  qed
  have d: "\<forall>ms. distinct (map (\<lambda>m. GenDNSName (dns s) (MemberName m) domain) ms) \<longrightarrow>
           (\<forall>m\<in>set ms. consulMemberIPs s domain ms (GenDNSName (dns s) (MemberName m) domain)
                          = Some (StaticIP m))"
    using consulMemberIPs_lookup by blast
  have f: "\<forall>body. fst r = Reply [] StatusOK (Some body) \<longrightarrow>
           (\<exists>uuid db'. CreateService (manage s) crReq domain (vpcID s) (dbIns w) = Inr (uuid, db')
              \<and> body = CatalogCreateConsulResponse (map StaticIP (serviceMembers db' uuid)))
         \<and> last evs = (?e4, True)
         \<and> serviceIsActive (cluster s) (ServiceName sc) (dbIns (snd r))"
  proof (intro allI impI)
    fix body assume "fst r = Reply [] StatusOK (Some body)"
    with ok have "E4 = [(?e4, True)]"
      "serviceIsActive (cluster s) (ServiceName sc) (dbIns (snd r))"
      "\<exists>uuid db'. CreateService (manage s) crReq domain (vpcID s) (dbIns w) = Inr (uuid, db')
          \<and> body = CatalogCreateConsulResponse (map StaticIP (serviceMembers db' uuid))"
      by blast+
    then show "(\<exists>uuid db'. CreateService (manage s) crReq domain (vpcID s) (dbIns w) = Inr (uuid, db')
              \<and> body = CatalogCreateConsulResponse (map StaticIP (serviceMembers db' uuid)))
         \<and> last evs = (?e4, True)
         \<and> serviceIsActive (cluster s) (ServiceName sc) (dbIns (snd r))"
      by (simp add: e)
  qed
  from t a b c d f show ?thesis by blast
qed

theorem createConsulService_rewrites_between_creates_witness:
  "fst (createConsulService exServer
          (Some \<lparr>ccService = Some exRequest, ccResource = None, ccOptions = None\<rparr>)
          (exWorld ''basic_config.json'' ''m0.c1.com'' ServiceStatusCreating noFault))
     = Reply [] StatusOK (Some (CatalogCreateConsulResponse [''10.0.0.1'']))
   \<and> map (\<lambda>e. (consulPhase (fst e), snd e))
       (runEvents (exWorld ''basic_config.json'' ''m0.c1.com'' ServiceStatusCreating noFault)
          (snd (createConsulService exServer
                  (Some \<lparr>ccService = Some exRequest, ccResource = None, ccOptions = None\<rparr>)
                  (exWorld ''basic_config.json'' ''m0.c1.com'' ServiceStatusCreating noFault))))
     = [(0, True), (1, True), (1, True), (1, True), (1, True), (1, True), (2, True),
        (2, True), (3, True)]
   \<and> map_option cfContent
       (configFiles (dbIns (snd (createConsulService exServer
                  (Some \<lparr>ccService = Some exRequest, ccResource = None, ccOptions = None\<rparr>)
                  (exWorld ''basic_config.json'' ''m0.c1.com'' ServiceStatusCreating noFault))))
          (''u1'', ''1-m0-basic_config.json''))
     = Some ''10.0.0.1''
   \<and> serviceIsActive ''c1'' ''svc1''
       (dbIns (snd (createConsulService exServer
                  (Some \<lparr>ccService = Some exRequest, ccResource = None, ccOptions = None\<rparr>)
                  (exWorld ''basic_config.json'' ''m0.c1.com'' ServiceStatusCreating noFault))))"
proof -
  let ?req = "\<lparr>ccService = Some exRequest, ccResource = None, ccOptions = None\<rparr>
                :: CatalogOptions CatalogCreateRequest"
  let ?w = "exWorld ''basic_config.json'' ''m0.c1.com'' ServiceStatusCreating noFault"
  let ?r = "createConsulService exServer (Some ?req) ?w"
  have run: "fst ?r = Reply [] StatusOK (Some (CatalogCreateConsulResponse [''10.0.0.1'']))
     \<and> map (\<lambda>e. (consulPhase (fst e), snd e)) (runEvents ?w (snd ?r))
         = [(0, True), (1, True), (1, True), (1, True), (1, True), (1, True), (2, True),
            (2, True), (3, True)]
     \<and> map_option cfContent (configFiles (dbIns (snd ?r)) (''u1'', ''1-m0-basic_config.json''))
         = Some ''10.0.0.1''"
    by (simp add: createConsulService_def updateConsulConfigs_def consulMemberIPs_def
        createContainerService_def svc_CreateService_def IsServiceExist_def
        containersvc_CreateService_def genCreateServiceOptions_def writeResponse_def
        jsonMarshal_def exCreateRequest_def StatusOK_def handler_defs run_defs ex_defs)
  have h: "ccService ?req = Some exRequest" "Cluster exRequest = cluster exServer"
    "Region exRequest = region exServer"
    "consul_ValidateRequest (consulcatalog exServer) ?req = None"
    "\<forall>e. fst (ConvertToHTTPError (manage exServer) e) \<noteq> []"
    "exCreateRequest = consul_GenDefaultCreateServiceRequest (consulcatalog exServer)
        (platform exServer) (region exServer) (azs exServer) (cluster exServer)
        (ServiceName exRequest) (ccResource ?req) (ccOptions ?req)"
    "''c1.com'' = GenDefaultDomainName (dns exServer) (cluster exServer)"
    by (simp_all add: ex_defs)
  have "serviceIsActive (cluster exServer) (ServiceName exRequest) (dbIns (snd ?r))"
    using createConsulService_rewrites_between_creates [OF h refl refl] run by blast
  then have "serviceIsActive ''c1'' ''svc1'' (dbIns (snd ?r))"
    by (simp add: exServer_def exRequest_def)
  with run show ?thesis by blast
qed

end
